theory Spec2Isabelle
  imports Complex_Main "HOL-Library.Code_Target_Numeral"
begin

section \<open>The device bridge of aircontroller-web\<close>

text \<open>
  A shallow embedding of the server side of the repository: the protocol constants
  (\<^verbatim>\<open>src/server/constants.ts\<close>), the UDP discovery listener (\<^verbatim>\<open>udp-discovery\<close>), the two
  TCP clients (\<^verbatim>\<open>tcp-client\<close>), the connection manager
  (\<^verbatim>\<open>src/server/device-connection-manager.ts\<close>) and the \<^verbatim>\<open>connect:device\<close> case of the
  WebSocket router (\<^verbatim>\<open>src/server/websocket-server.ts\<close>).

  Strings are byte strings (the UTF-8 text of the JavaScript string).  A handler of the
  event loop is a function from the state before to the state after.  The discovery
  listener returns the list of its effects beside the state; the handlers of the bridge
  append what they do to the trace of the state, in program order.  What the operating
  system, the network or the device decide (the host name, the network interfaces, the
  clock, whether a TCP connect succeeds, what an HTTP call returns) is a field of the
  state or an argument of the handler.

  Not modelled: the \<^verbatim>\<open>'data'\<close> listener of the command client, the body of
  \<^verbatim>\<open>fetchMobileInfo\<close> after its first timer, and the cases of the router other than
  \<^verbatim>\<open>connect:device\<close>.  A connect fails here by its timeout.
\<close>

subsection \<open>Environment: \<^verbatim>\<open>os.hostname()\<close> and \<^verbatim>\<open>os.networkInterfaces()\<close>\<close>

record iface =
  family :: string
  internal :: bool
  address :: string

record env =
  hostname :: string
  networkInterfaces :: "(string \<times> iface list) list"

text \<open>
  \<^verbatim>\<open>getLocalIPAddress\<close> (discovery) and \<^verbatim>\<open>getLocalIP\<close> (both TCP clients): two nested
  loops over the interface names and their addresses that return at the first address
  that is IPv4 and not internal, and \<^verbatim>\<open>'127.0.0.1'\<close> when the loops finish.
\<close>

fun firstExternal :: "iface list \<Rightarrow> string option" where
  "firstExternal [] = None"
| "firstExternal (i # is) =
     (if internal i \<or> family i \<noteq> ''IPv4'' then firstExternal is else Some (address i))"

fun scanInterfaces :: "(string \<times> iface list) list \<Rightarrow> string option" where
  "scanInterfaces [] = None"
| "scanInterfaces ((name, is) # rest) =
     (case firstExternal is of Some a \<Rightarrow> Some a | None \<Rightarrow> scanInterfaces rest)"

definition getLocalIP :: "env \<Rightarrow> string" where
  "getLocalIP e = (case scanInterfaces (networkInterfaces e) of Some a \<Rightarrow> a | None \<Rightarrow> ''127.0.0.1'')"

subsection \<open>\<^verbatim>\<open>constants.ts\<close>\<close>

definition PORT_SEARCH :: nat where "PORT_SEARCH = 20000"
definition PORT_CMD :: nat where "PORT_CMD = 20001"
definition PORT_HEARTBEAT :: nat where "PORT_HEARTBEAT = 20002"
definition PORT_HTTP :: nat where "PORT_HTTP = 9527"

definition CMD_SEARCH_PREFIX :: string where "CMD_SEARCH_PREFIX = ''search#''"
definition CMD_SEARCH_RES_PREFIX :: string where "CMD_SEARCH_RES_PREFIX = ''search_msg_received#''"
definition RANDOM_STR_SEARCH :: string where "RANDOM_STR_SEARCH = ''a2w0nuNyiD6vYogF''"
definition RANDOM_STR_RES_SEARCH :: string where "RANDOM_STR_RES_SEARCH = ''RBIDoKFHLX9frYTh''"
definition CMD_UPDATE_MOBILE_INFO :: int where "CMD_UPDATE_MOBILE_INFO = 1"
definition CMD_REPORT_DESKTOP_INFO :: int where "CMD_REPORT_DESKTOP_INFO = 2"
definition PLATFORM_WEB :: nat where "PLATFORM_WEB = 6"

text \<open>Decimal text of a number, as a template literal prints it.\<close>

definition digit :: "nat \<Rightarrow> char" where
  "digit d = ''0123456789'' ! d"

fun showNat :: "nat \<Rightarrow> string" where
  "showNat n = (if n < 10 then [digit n] else showNat (n div 10) @ [digit (n mod 10)])"

declare showNat.simps [simp del]

definition showInt :: "int \<Rightarrow> string" where
  "showInt i = (if i < 0 then CHR ''-'' # showNat (nat (- i)) else showNat (nat i))"

text \<open>\<^verbatim>\<open>String.prototype.startsWith\<close>, \<^verbatim>\<open>substring(n)\<close> and \<^verbatim>\<open>split(c)\<close>.\<close>

definition startsWith :: "string \<Rightarrow> string \<Rightarrow> bool" where
  "startsWith s p = (take (length p) s = p)"

fun splitOn :: "char \<Rightarrow> string \<Rightarrow> string list" where
  "splitOn c [] = [[]]"
| "splitOn c (x # xs) =
     (if x = c then [] # splitOn c xs
      else (case splitOn c xs of [] \<Rightarrow> [[x]] | p # ps \<Rightarrow> (x # p) # ps))"

text \<open>
  \<^verbatim>\<open>parseInt(s, 10)\<close>: leading white space is skipped (the ASCII white space here), one
  sign is read, then the longest run of decimal digits; with no digit the result is
  \<^verbatim>\<open>NaN\<close>, which is \<open>None\<close>.
\<close>

definition isSpace :: "char \<Rightarrow> bool" where
  "isSpace c = (c \<in> set [CHR '' '', CHR 0x09, CHR 0x0A, CHR 0x0B, CHR 0x0C, CHR 0x0D])"

definition isDigit :: "char \<Rightarrow> bool" where
  "isDigit c = ((48::nat) \<le> of_char c \<and> (of_char c :: nat) \<le> 57)"

definition digitsValue :: "string \<Rightarrow> nat" where
  "digitsValue ds = foldl (\<lambda>acc c. 10 * acc + (of_char c - 48)) 0 ds"

definition parseInt10 :: "string \<Rightarrow> int option" where
  "parseInt10 s =
     (let t = dropWhile isSpace s;
          (neg, u) = (case t of
                        c # r \<Rightarrow> if c = CHR ''-'' then (True, r)
                                 else if c = CHR ''+'' then (False, r) else (False, t)
                      | [] \<Rightarrow> (False, t));
          ds = takeWhile isDigit u
      in if ds = [] then None
         else Some (if neg then - int (digitsValue ds) else int (digitsValue ds)))"

definition searchPrefix :: string where
  "searchPrefix = CMD_SEARCH_PREFIX @ RANDOM_STR_SEARCH @ ''#''"

definition isValidDiscoveryPacket :: "string \<Rightarrow> bool" where
  "isValidDiscoveryPacket data = startsWith data searchPrefix"

record ParsedDevice =
  platform :: "int option"
  name :: string
  ip :: string

definition parseDiscoveryPacket :: "string \<Rightarrow> ParsedDevice option" where
  "parseDiscoveryPacket data =
     (if \<not> isValidDiscoveryPacket data then None
      else let deviceStr = drop (length searchPrefix) data;
               parts = splitOn CHR ''#'' deviceStr
           in if length parts < 3 then None
              else Some \<lparr>platform = parseInt10 (parts ! 0), name = parts ! 1, ip = parts ! 2\<rparr>)"

subsection \<open>The UDP discovery listener\<close>

text \<open>
  \<^verbatim>\<open>discoveredDevices\<close> is a JavaScript \<^verbatim>\<open>Map\<close>; it is only ever tested with \<^verbatim>\<open>has\<close>,
  extended with \<^verbatim>\<open>set\<close> on an absent key, listed and cleared, so an association list in
  insertion order is the same thing.  \<^verbatim>\<open>udpSocket\<close> is \<open>True\<close> when the field is not
  \<^verbatim>\<open>null\<close>.
\<close>

record UDPDiscoveryServer =
  udpSocket :: bool
  deviceName :: string
  discoveredDevices :: "(string \<times> ParsedDevice) list"

record rinfo =
  r_address :: string
  r_port :: nat

datatype udp_effect =
    DeviceDiscovered ParsedDevice
  | UdpSend string nat string

text \<open>
  The constructor: \<^verbatim>\<open>options.deviceName || os.hostname()\<close> (an empty string is falsy),
  and the one instance of the server, which \<^verbatim>\<open>websocket-server.ts\<close> builds with
  \<^verbatim>\<open>os.hostname() || 'AirController Server'\<close>.
\<close>

definition newUDPDiscoveryServer :: "string option \<Rightarrow> env \<Rightarrow> UDPDiscoveryServer" where
  "newUDPDiscoveryServer opt e =
     \<lparr>udpSocket = False,
      deviceName = (case opt of Some n \<Rightarrow> if n = [] then hostname e else n | None \<Rightarrow> hostname e),
      discoveredDevices = []\<rparr>"

definition udpDiscovery :: "env \<Rightarrow> UDPDiscoveryServer" where
  "udpDiscovery e =
     newUDPDiscoveryServer (Some (if hostname e = [] then ''AirController Server'' else hostname e)) e"

definition start :: "UDPDiscoveryServer \<Rightarrow> UDPDiscoveryServer" where
  "start s = s\<lparr>udpSocket := True\<rparr>"

definition clearDiscoveredDevices :: "UDPDiscoveryServer \<Rightarrow> UDPDiscoveryServer" where
  "clearDiscoveredDevices s = s\<lparr>discoveredDevices := []\<rparr>"

definition discoveryAck :: "string \<Rightarrow> string \<Rightarrow> string" where
  "discoveryAck nm localIp =
     ''search_msg_received#RBIDoKFHLX9frYTh#'' @ showNat 6 @ ''#'' @ nm @ ''#'' @ localIp"

definition sendDiscoveryResponse :: "env \<Rightarrow> UDPDiscoveryServer \<Rightarrow> string \<Rightarrow> udp_effect list" where
  "sendDiscoveryResponse e s targetAddress =
     (let localIp = getLocalIP e;
          response = discoveryAck (deviceName s) localIp
      in if udpSocket s then [UdpSend response PORT_SEARCH targetAddress] else [])"

definition deviceKey :: "ParsedDevice \<Rightarrow> string" where
  "deviceKey d = ip d @ ''_'' @ name d"

definition handleDiscoveryPacket ::
    "env \<Rightarrow> string \<Rightarrow> rinfo \<Rightarrow> UDPDiscoveryServer \<Rightarrow> UDPDiscoveryServer \<times> udp_effect list" where
  "handleDiscoveryPacket e data ri s =
     (if \<not> isValidDiscoveryPacket data then (s, [])
      else case parseDiscoveryPacket data of
        None \<Rightarrow> (s, [])
      | Some device0 \<Rightarrow>
          let device = (if ip device0 = [] \<or> ip device0 = ''0.0.0.0''
                        then device0\<lparr>ip := r_address ri\<rparr> else device0);
              k = deviceKey device
          in if k \<notin> fst ` set (discoveredDevices s)
             then (s\<lparr>discoveredDevices := discoveredDevices s @ [(k, device)]\<rparr>,
                   DeviceDiscovered device # sendDiscoveryResponse e s (r_address ri))
             else (s, sendDiscoveryResponse e s (r_address ri)))"

text \<open>The listener handling a sequence of datagrams, one after the other.\<close>

fun handlePackets ::
    "env \<Rightarrow> (string \<times> rinfo) list \<Rightarrow> UDPDiscoveryServer \<Rightarrow> UDPDiscoveryServer \<times> udp_effect list" where
  "handlePackets e [] s = (s, [])"
| "handlePackets e ((data, ri) # ps) s =
     (let (s1, out1) = handleDiscoveryPacket e data ri s;
          (s2, out2) = handlePackets e ps s1
      in (s2, out1 @ out2))"

definition discoveriesOf :: "string \<Rightarrow> string \<Rightarrow> udp_effect list \<Rightarrow> udp_effect list" where
  "discoveriesOf i n out =
     filter (\<lambda>ev. case ev of DeviceDiscovered d \<Rightarrow> ip d = i \<and> name d = n | _ \<Rightarrow> False) out"

definition sendsOf :: "udp_effect list \<Rightarrow> udp_effect list" where
  "sendsOf out = filter (\<lambda>ev. case ev of UdpSend m p a \<Rightarrow> True | _ \<Rightarrow> False) out"

subsection \<open>The data of the device's HTTP API and of the replies\<close>

text \<open>
  What the device returns for a file, an image and a video (the fields the handlers
  read; the comments of \<^verbatim>\<open>getFileList\<close> and of \<^verbatim>\<open>/api/images\<close> list them), and what the bridge
  sends to the browser.  \<^verbatim>\<open>...image\<close> keeps every field of the image and adds
  \<^verbatim>\<open>thumbnailUrl\<close>.  Data that a handler passes on as it is, is a string.
\<close>

record FileEntity =
  fe_name :: string
  fe_folder :: string
  fe_size :: nat
  fe_isDir :: bool
  fe_changeDate :: nat

record FileItem =
  fi_id :: string
  fi_name :: string
  fi_path :: string
  fi_type :: string
  fi_size :: nat
  fi_modified :: nat
  fi_mimeType :: "string option"

record ImageEntity =
  img_id :: int
  img_mimeType :: string
  img_path :: string
  img_width :: nat
  img_height :: nat
  img_modifyTime :: nat
  img_createTime :: nat
  img_size :: nat

record ImageItem = ImageEntity +
  thumbnailUrl :: string

record VideoEntity =
  vid_id :: int
  vid_name :: string
  vid_path :: string
  vid_size :: nat
  vid_lastModifyTime :: nat
  vid_duration :: nat

record VideoItem =
  vi_id :: string
  vi_name :: string
  vi_path :: string
  vi_type :: string
  vi_size :: nat
  vi_modified :: nat
  vi_duration :: nat
  vi_thumbnailUrl :: string

text \<open>
  An HTTP call of the bridge (\<^verbatim>\<open>axios({method, url, data, timeout})\<close>) and how it ends:
  \<^verbatim>\<open>axios\<close> throws (no answer in time, a status that is not 2xx), or gives a response.
\<close>

datatype http_method = GET | POST | DELETE

datatype http_body = NoBody | EmptyObject | PathBody "string option" | IdBody string

record http_request =
  rq_method :: http_method
  rq_url :: string
  rq_data :: http_body
  rq_timeout :: nat

datatype 'a http_result = HttpError | HttpOk 'a

datatype reply_data =
    RawData string
  | SuccessData
  | FilesData "FileItem list"
  | ImagesData "ImageItem list"
  | AlbumsData "string list"
  | VideosData "VideoItem list"

subsection \<open>JavaScript values on the heartbeat channel\<close>

text \<open>
  The field \<^verbatim>\<open>lastHeartbeatValue\<close> holds whatever \<^verbatim>\<open>JSON.parse\<close> found under \<^verbatim>\<open>value\<close>, so
  the values of JavaScript are modelled as far as they can get there.  A number is an
  IEEE 754 double: a finite one is given by the rational number it stands for (the two
  zeros are not told apart: \<^verbatim>\<open>-0\<close> is falsy and is never stored), beside the two
  infinities and \<^verbatim>\<open>NaN\<close>.  An array or an object is given by what the conversion
  \<^verbatim>\<open>ToPrimitive\<close> makes of it: a string (\<^verbatim>\<open>join\<close> of the elements of an array,
  \<^verbatim>\<open>[object Object]\<close> for an object), or \<open>None\<close> when the conversion throws a
  \<^verbatim>\<open>TypeError\<close>, as it does for an object from \<^verbatim>\<open>JSON.parse\<close> that has a property
  \<^verbatim>\<open>toString\<close> of its own.
\<close>

datatype js_number = Finite rat | PosInfinity | NegInfinity | NaN

datatype js_value =
    JsUndefined
  | JsNull
  | JsBoolean bool
  | JsNumber js_number
  | JsString string
  | JsObject "string option"

text \<open>
  Rounding a rational number to the nearest double, ties to the even mantissa.
  \<open>bitLength n\<close> is the number of binary digits of \<open>n\<close>, \<open>floorLog2 x\<close> the exponent of the
  highest power of two that is not above \<open>x\<close> (for positive \<open>x\<close>), and \<open>scale2 e\<close> is
  \<open>2\<^sup>e\<close>.  A double has 53 bits of mantissa, its last bit is worth at least \<open>2\<^sup>-\<^sup>1\<^sup>0\<^sup>7\<^sup>4\<close>, and
  what is nearer to \<open>2\<^sup>1\<^sup>0\<^sup>2\<^sup>4\<close> than to the largest double becomes an infinity.
\<close>

fun bitLength :: "nat \<Rightarrow> nat" where
  "bitLength n = (if n = 0 then 0 else Suc (bitLength (n div 2)))"

declare bitLength.simps [simp del]

definition floorLog2 :: "rat \<Rightarrow> int" where
  "floorLog2 x =
     (if 1 \<le> x then int (bitLength (nat \<lfloor>x\<rfloor>)) - 1
      else - int (bitLength (nat (\<lceil>1 / x\<rceil> - 1))))"

definition scale2 :: "int \<Rightarrow> rat" where
  "scale2 e = (if 0 \<le> e then 2 ^ nat e else 1 / 2 ^ nat (- e))"

definition roundHalfEven :: "rat \<Rightarrow> int" where
  "roundHalfEven q =
     (let f = \<lfloor>q\<rfloor>; d = q - of_int f
      in if d < 1 / 2 then f else if 1 / 2 < d then f + 1 else if even f then f else f + 1)"

definition roundDouble :: "rat \<Rightarrow> js_number" where
  "roundDouble x =
     (if x = 0 then Finite 0
      else if 2 ^ 1024 - 2 ^ 970 \<le> \<bar>x\<bar> then (if 0 < x then PosInfinity else NegInfinity)
      else (let e = max (floorLog2 \<bar>x\<bar> - 52) (- 1074)
            in Finite (of_int (roundHalfEven (x / scale2 e)) * scale2 e)))"

text \<open>
  \<^verbatim>\<open>ToBoolean\<close>, which decides \<^verbatim>\<open>v || 0\<close>, and \<^verbatim>\<open>v + 1\<close>: the operand is made primitive; a
  string is concatenated with \<^verbatim>\<open>'1'\<close>; anything else is made a number and 1 is added in
  double arithmetic.  The result is \<open>None\<close> when the conversion throws.
\<close>

fun toBoolean :: "js_value \<Rightarrow> bool" where
  "toBoolean JsUndefined = False"
| "toBoolean JsNull = False"
| "toBoolean (JsBoolean b) = b"
| "toBoolean (JsNumber (Finite x)) = (x \<noteq> 0)"
| "toBoolean (JsNumber NaN) = False"
| "toBoolean (JsNumber n) = True"
| "toBoolean (JsString s) = (s \<noteq> [])"
| "toBoolean (JsObject p) = True"

fun numberPlusOne :: "js_number \<Rightarrow> js_number" where
  "numberPlusOne (Finite x) = roundDouble (x + 1)"
| "numberPlusOne n = n"

fun plusOne :: "js_value \<Rightarrow> js_value option" where
  "plusOne JsUndefined = Some (JsNumber NaN)"
| "plusOne JsNull = Some (JsNumber (Finite 1))"
| "plusOne (JsBoolean b) = Some (JsNumber (Finite (if b then 2 else 1)))"
| "plusOne (JsNumber n) = Some (JsNumber (numberPlusOne n))"
| "plusOne (JsString s) = Some (JsString (s @ ''1''))"
| "plusOne (JsObject None) = None"
| "plusOne (JsObject (Some s)) = Some (JsString (s @ ''1''))"

text \<open>
  What \<^verbatim>\<open>JSON.parse\<close> makes of the data of the heartbeat socket: it throws, or the text is
  \<^verbatim>\<open>null\<close>, or it is another JSON value, of which the listener reads the property
  \<^verbatim>\<open>value\<close>.  The property is absent (always so when the message is not an object) or a
  JSON value; a number is given by the rational value of its numeral, which \<^verbatim>\<open>JSON.parse\<close>
  rounds to a double.
\<close>

datatype json_field =
    NoField
  | NullField
  | BooleanField bool
  | NumberField rat
  | StringField string
  | ObjectField "string option"

datatype heartbeat_data = NotJson | JsonNull | JsonMessage json_field

fun fieldValue :: "json_field \<Rightarrow> js_value" where
  "fieldValue NoField = JsUndefined"
| "fieldValue NullField = JsNull"
| "fieldValue (BooleanField b) = JsBoolean b"
| "fieldValue (NumberField q) = JsNumber (roundDouble q)"
| "fieldValue (StringField s) = JsString s"
| "fieldValue (ObjectField p) = JsObject p"

subsection \<open>The state of the bridge\<close>

text \<open>
  Browser sockets and \<^verbatim>\<open>MobileConnection\<close> objects are named by numbers.  The connection
  objects live in a store (\<open>heap\<close>), because the closures of timers and listeners keep a
  reference to the object after \<^verbatim>\<open>connections.delete\<close> has taken it out of the table.
  The table \<^verbatim>\<open>connections\<close> is a JavaScript \<^verbatim>\<open>Map\<close> from the device ip to the object, kept
  here in insertion order.

  Everything a handler does to the outside is appended to the \<open>trace\<close> of the state, in
  program order: every \<^verbatim>\<open>ws.send\<close>, every \<^verbatim>\<open>socket.write\<close> (the frame is the object given to
  \<^verbatim>\<open>JSON.stringify\<close>), every \<^verbatim>\<open>this.emit\<close> of a TCP client, every \<^verbatim>\<open>setTimeout\<close>, with its
  delay in milliseconds, every HTTP call, and an exception that nothing catches: Node
  prints it and the process ends.  The trace keeps the timers that were set; of the timers
  that can be cleared, the liveness timer of the heartbeat client is pending while the
  field \<open>hbTimeoutTimer\<close> is set.

  TCP sockets are named by numbers too.  \<open>liveSockets\<close> are the sockets that have been
  created and neither destroyed nor closed.  \<open>pendingClose\<close> holds the sockets that were
  destroyed while their listeners were still attached: Node delivers the \<^verbatim>\<open>'close'\<close>
  event of such a socket to its listener in a later turn of the event loop.
\<close>

type_synonym ws = nat
type_synonym ref = nat

datatype channel = CommandChannel | HeartbeatChannel

datatype tcp_event = EvConnected | EvDisconnected | EvTimeout | EvHeartbeat | EvError

datatype frame =
    DesktopInfoFrame int string nat string string
  | HeartbeatFrame string js_value nat

datatype callback =
    CommandConnectTimeout ref
  | HeartbeatTimeout ref
  | NextHeartbeat ref
  | FetchMobileInfo ref
  | GraceCleanup ref
  | ReconnectCommand ref
  | ReconnectHeartbeat ref

record Device =
  dev_id :: string
  dev_name :: string
  dev_ip :: string
  dev_port :: nat

text \<open>
  The messages of the WebSocket protocol that the modelled handlers send.  A reply to a
  request carries the request's \<^verbatim>\<open>id\<close> (which may be absent), its type and its data.
\<close>

datatype ws_msg =
    ConnectionSuccess Device
  | ConnectionError string "Device option"
  | DeviceDisconnected Device
  | ConnectionClosed Device
  | Reply "string option" string reply_data
  | ErrorReply "string option" string
  | HeartbeatAck nat
  | RegisterAck

fun msgType :: "ws_msg \<Rightarrow> string" where
  "msgType (ConnectionSuccess d) = ''connection:success''"
| "msgType (ConnectionError m d) = ''connection:error''"
| "msgType (DeviceDisconnected d) = ''device:disconnected''"
| "msgType (ConnectionClosed d) = ''connection:closed''"
| "msgType (Reply i t d) = t"
| "msgType (ErrorReply i m) = ''error''"
| "msgType (HeartbeatAck t) = ''heartbeat:ack''"
| "msgType RegisterAck = ''register:ack''"

text \<open>
  The two TCP clients.  \<open>Socket\<close> is \<open>None\<close> when the field \<^verbatim>\<open>socket\<close> is \<^verbatim>\<open>null\<close>;
  \<open>ConnectionResolved\<close> is the variable of that name in the closure of the current
  socket's listeners; \<open>Forwarding\<close> says that the manager's listeners
  (\<^verbatim>\<open>setupEventForwarding\<close>) are registered on the emitter.  \<open>hbTimeoutTimer\<close> is \<open>True\<close>
  while the liveness timer is pending.  The field \<^verbatim>\<open>heartbeatInterval\<close> is never assigned
  and is left out.
\<close>

record CommandClient =
  cmdSocket :: "nat option"
  cmdDeviceIp :: string
  cmdIsConnectedFlag :: bool
  cmdConnectionResolved :: bool
  cmdForwarding :: bool

record HeartbeatClient =
  hbSocket :: "nat option"
  hbDeviceIp :: string
  hbIsConnectedFlag :: bool
  hbTimeoutTimer :: bool
  hbLastHeartbeatValue :: js_value
  hbLastHeartbeatTime :: nat
  hbWaitingForResponse :: bool
  hbConnectionResolved :: bool
  hbForwarding :: bool

definition newCommandClient :: CommandClient where
  "newCommandClient =
     \<lparr>cmdSocket = None, cmdDeviceIp = [], cmdIsConnectedFlag = False,
      cmdConnectionResolved = False, cmdForwarding = False\<rparr>"

definition newHeartbeatClient :: HeartbeatClient where
  "newHeartbeatClient =
     \<lparr>hbSocket = None, hbDeviceIp = [], hbIsConnectedFlag = False, hbTimeoutTimer = False,
      hbLastHeartbeatValue = JsNumber (Finite (- 1)), hbLastHeartbeatTime = 0,
      hbWaitingForResponse = False, hbConnectionResolved = False, hbForwarding = False\<rparr>"

record MobileConnection =
  device :: Device
  commandClient :: CommandClient
  heartbeatClient :: HeartbeatClient
  webSocketClients :: "ws list"
  connected :: bool
  lastActivity :: nat

datatype action =
    Sent ws "ws_msg"
  | Written ref channel frame
  | Emitted ref channel tcp_event
  | TimerSet nat callback
  | Requested http_request
  | Thrown string

record world =
  os :: env
  now :: nat
  connections :: "(string \<times> ref) list"
  heap :: "ref \<Rightarrow> MobileConnection"
  nextRef :: ref
  wsOpen :: "ws set"
  wsHandlers :: "(ws \<times> ref) list"
  trace :: "action list"
  nextSocket :: nat
  liveSockets :: "nat set"
  pendingClose :: "(ref \<times> channel \<times> nat) list"

definition updConn :: "ref \<Rightarrow> (MobileConnection \<Rightarrow> MobileConnection) \<Rightarrow> world \<Rightarrow> world" where
  "updConn r f w = w\<lparr>heap := (heap w)(r := f (heap w r))\<rparr>"

definition updCmd :: "ref \<Rightarrow> (CommandClient \<Rightarrow> CommandClient) \<Rightarrow> world \<Rightarrow> world" where
  "updCmd r f w = updConn r (\<lambda>c. c\<lparr>commandClient := f (commandClient c)\<rparr>) w"

definition updHb :: "ref \<Rightarrow> (HeartbeatClient \<Rightarrow> HeartbeatClient) \<Rightarrow> world \<Rightarrow> world" where
  "updHb r f w = updConn r (\<lambda>c. c\<lparr>heartbeatClient := f (heartbeatClient c)\<rparr>) w"

definition cmdOf :: "world \<Rightarrow> ref \<Rightarrow> CommandClient" where
  "cmdOf w r = commandClient (heap w r)"

definition hbOf :: "world \<Rightarrow> ref \<Rightarrow> HeartbeatClient" where
  "hbOf w r = heartbeatClient (heap w r)"

definition wsSend :: "ws \<Rightarrow> ws_msg \<Rightarrow> world \<Rightarrow> world" where
  "wsSend c m w = w\<lparr>trace := trace w @ [Sent c m]\<rparr>"

definition setTimeout :: "callback \<Rightarrow> nat \<Rightarrow> world \<Rightarrow> world" where
  "setTimeout cb ms w = w\<lparr>trace := trace w @ [TimerSet ms cb]\<rparr>"

definition socketWrite :: "ref \<Rightarrow> channel \<Rightarrow> frame \<Rightarrow> world \<Rightarrow> world" where
  "socketWrite r ch f w = w\<lparr>trace := trace w @ [Written r ch f]\<rparr>"

text \<open>What a trace holds of each kind, in order.\<close>

fun sentIn :: "action list \<Rightarrow> (ws \<times> ws_msg) list" where
  "sentIn [] = []"
| "sentIn (Sent c m # as) = (c, m) # sentIn as"
| "sentIn (a # as) = sentIn as"

fun writtenIn :: "action list \<Rightarrow> (ref \<times> channel \<times> frame) list" where
  "writtenIn [] = []"
| "writtenIn (Written r ch f # as) = (r, ch, f) # writtenIn as"
| "writtenIn (a # as) = writtenIn as"

fun emittedIn :: "action list \<Rightarrow> (ref \<times> channel \<times> tcp_event) list" where
  "emittedIn [] = []"
| "emittedIn (Emitted r ch ev # as) = (r, ch, ev) # emittedIn as"
| "emittedIn (a # as) = emittedIn as"

fun timersIn :: "action list \<Rightarrow> (nat \<times> callback) list" where
  "timersIn [] = []"
| "timersIn (TimerSet ms cb # as) = (ms, cb) # timersIn as"
| "timersIn (a # as) = timersIn as"

fun requestsIn :: "action list \<Rightarrow> http_request list" where
  "requestsIn [] = []"
| "requestsIn (Requested q # as) = q # requestsIn as"
| "requestsIn (a # as) = requestsIn as"

definition wsOut :: "world \<Rightarrow> (ws \<times> ws_msg) list" where
  "wsOut w = sentIn (trace w)"

definition tcpOut :: "world \<Rightarrow> (ref \<times> channel \<times> frame) list" where
  "tcpOut w = writtenIn (trace w)"

definition emitted :: "world \<Rightarrow> (ref \<times> channel \<times> tcp_event) list" where
  "emitted w = emittedIn (trace w)"

definition timers :: "world \<Rightarrow> (nat \<times> callback) list" where
  "timers w = timersIn (trace w)"

text \<open>
  \<^verbatim>\<open>new net.Socket()\<close>; \<^verbatim>\<open>socket.destroy()\<close> on a socket whose listeners are attached
  (destroying a socket a second time does nothing); and \<^verbatim>\<open>socket.removeAllListeners()\<close>
  followed by \<^verbatim>\<open>socket.destroy()\<close>, after which no event of the socket reaches the client.
\<close>

definition newSocket :: "world \<Rightarrow> nat \<times> world" where
  "newSocket w =
     (nextSocket w, w\<lparr>nextSocket := Suc (nextSocket w), liveSockets := insert (nextSocket w) (liveSockets w)\<rparr>)"

definition socketDestroy :: "ref \<Rightarrow> channel \<Rightarrow> nat \<Rightarrow> world \<Rightarrow> world" where
  "socketDestroy r ch s w =
     (if s \<in> liveSockets w
      then w\<lparr>liveSockets := liveSockets w - {s}, pendingClose := pendingClose w @ [(r, ch, s)]\<rparr>
      else w)"

definition socketRelease :: "nat \<Rightarrow> world \<Rightarrow> world" where
  "socketRelease s w =
     w\<lparr>liveSockets := liveSockets w - {s},
       pendingClose := filter (\<lambda>(r, ch, s'). s' \<noteq> s) (pendingClose w)\<rparr>"

subsection \<open>The connection manager: disconnection\<close>

text \<open>\<^verbatim>\<open>broadcastToClients\<close>: one \<^verbatim>\<open>send\<close> for each client of the set that is open.\<close>

definition broadcastToClients :: "ws list \<Rightarrow> ws_msg \<Rightarrow> world \<Rightarrow> world" where
  "broadcastToClients clients m w =
     w\<lparr>trace := trace w @ map (\<lambda>c. Sent c m) (filter (\<lambda>c. c \<in> wsOpen w) clients)\<rparr>"

definition handleDeviceDisconnection :: "ref \<Rightarrow> world \<Rightarrow> world" where
  "handleDeviceDisconnection r w =
     (let commandConnected = cmdIsConnectedFlag (cmdOf w r);
          heartbeatConnected = hbIsConnectedFlag (hbOf w r)
      in if \<not> commandConnected \<and> \<not> heartbeatConnected then
           (let w1 = updConn r (\<lambda>c. c\<lparr>connected := False\<rparr>) w;
                w2 = broadcastToClients (webSocketClients (heap w1 r))
                       (DeviceDisconnected (device (heap w1 r))) w1
            in setTimeout (GraceCleanup r) 5000 w2)
         else
           (let w1 = (if \<not> commandConnected \<and> heartbeatConnected
                      then setTimeout (ReconnectCommand r) 2000 w else w)
            in if commandConnected \<and> \<not> heartbeatConnected
               then setTimeout (ReconnectHeartbeat r) 2000 w1 else w1))"

text \<open>
  \<^verbatim>\<open>this.emit(event)\<close> of a TCP client: the emission is logged and the manager's listeners,
  when registered, run at once.  The listener of \<^verbatim>\<open>'disconnected'\<close> is
  \<^verbatim>\<open>handleDeviceDisconnection\<close>, the one of \<^verbatim>\<open>'heartbeat'\<close> stamps \<^verbatim>\<open>lastActivity\<close>.  Nothing
  ever listens to \<^verbatim>\<open>'error'\<close> on a client, and an emitter without such a listener throws
  the error.
\<close>

definition forwarding :: "world \<Rightarrow> ref \<Rightarrow> channel \<Rightarrow> bool" where
  "forwarding w r ch =
     (case ch of CommandChannel \<Rightarrow> cmdForwarding (cmdOf w r)
               | HeartbeatChannel \<Rightarrow> hbForwarding (hbOf w r))"

definition emit :: "ref \<Rightarrow> channel \<Rightarrow> tcp_event \<Rightarrow> world \<Rightarrow> world" where
  "emit r ch ev w =
     (let w1 = w\<lparr>trace := trace w @ [Emitted r ch ev]\<rparr>
      in if ev = EvError then w1\<lparr>trace := trace w1 @ [Thrown ''Unhandled error'']\<rparr>
         else if \<not> forwarding w1 r ch then w1
         else case ev of
           EvDisconnected \<Rightarrow> handleDeviceDisconnection r w1
         | EvHeartbeat \<Rightarrow> updConn r (\<lambda>c. c\<lparr>lastActivity := now w1\<rparr>) w1
         | _ \<Rightarrow> w1)"

subsection \<open>The command client\<close>

text \<open>
  \<^verbatim>\<open>connect\<close> up to the point where the promise waits: an existing socket loses its
  listeners and is destroyed, a new socket is made and the 10 s connect timer is set.
\<close>

definition cmdConnect :: "ref \<Rightarrow> string \<Rightarrow> world \<Rightarrow> world" where
  "cmdConnect r deviceIp w =
     (let w1 = updCmd r (\<lambda>c. c\<lparr>cmdDeviceIp := deviceIp\<rparr>) w;
          w2 = (case cmdSocket (cmdOf w1 r) of Some old \<Rightarrow> socketRelease old w1 | None \<Rightarrow> w1);
          (s, w3) = newSocket w2;
          w4 = updCmd r (\<lambda>c. c\<lparr>cmdSocket := Some s, cmdConnectionResolved := False\<rparr>) w3
      in setTimeout (CommandConnectTimeout r) 10000 w4)"

definition cmdSendCommand :: "ref \<Rightarrow> frame \<Rightarrow> world \<Rightarrow> world" where
  "cmdSendCommand r f w =
     (if \<not> cmdIsConnectedFlag (cmdOf w r) \<or> cmdSocket (cmdOf w r) = None then w
      else socketWrite r CommandChannel f w)"

definition reportDesktopInfo :: "ref \<Rightarrow> world \<Rightarrow> world" where
  "reportDesktopInfo r w =
     cmdSendCommand r
       (DesktopInfoFrame CMD_REPORT_DESKTOP_INFO
          (if hostname (os w) = [] then ''AirController Server'' else hostname (os w))
          6 (getLocalIP (os w)) ''1.0.0'') w"

text \<open>The callback of \<^verbatim>\<open>socket.connect\<close>; its last statement resolves the promise.\<close>

definition cmdOnConnect :: "ref \<Rightarrow> world \<Rightarrow> world" where
  "cmdOnConnect r w =
     (let w1 = updCmd r (\<lambda>c. c\<lparr>cmdIsConnectedFlag := True\<rparr>) w;
          w2 = updCmd r (\<lambda>c. c\<lparr>cmdConnectionResolved := True\<rparr>) w1;
          w3 = emit r CommandChannel EvConnected w2
      in reportDesktopInfo r w3)"

text \<open>The 10 s connect timer; when the flag is not set the promise is rejected.\<close>

definition cmdOnConnectTimeout :: "ref \<Rightarrow> world \<Rightarrow> world" where
  "cmdOnConnectTimeout r w =
     (if \<not> cmdIsConnectedFlag (cmdOf w r)
      then (case cmdSocket (cmdOf w r) of Some s \<Rightarrow> socketDestroy r CommandChannel s w | None \<Rightarrow> w)
      else w)"

text \<open>
  The listeners of the socket's \<^verbatim>\<open>'error'\<close> and \<^verbatim>\<open>'close'\<close> events.  The first one emits
  \<^verbatim>\<open>'error'\<close> after clearing the flag, which throws, so that the rest of it is not
  reached.
\<close>

definition cmdOnError :: "ref \<Rightarrow> world \<Rightarrow> world" where
  "cmdOnError r w =
     emit r CommandChannel EvError (updCmd r (\<lambda>c. c\<lparr>cmdIsConnectedFlag := False\<rparr>) w)"

definition cmdOnClose :: "ref \<Rightarrow> world \<Rightarrow> world" where
  "cmdOnClose r w =
     emit r CommandChannel EvDisconnected (updCmd r (\<lambda>c. c\<lparr>cmdIsConnectedFlag := False\<rparr>) w)"

definition cmdDisconnect :: "ref \<Rightarrow> world \<Rightarrow> world" where
  "cmdDisconnect r w =
     (let w1 = (case cmdSocket (cmdOf w r) of
                  Some s \<Rightarrow> updCmd r (\<lambda>c. c\<lparr>cmdSocket := None\<rparr>) (socketDestroy r CommandChannel s w)
                | None \<Rightarrow> w)
      in updCmd r (\<lambda>c. c\<lparr>cmdIsConnectedFlag := False\<rparr>) w1)"

text \<open>
  The device closing the command socket: the socket is not live any more and its
  \<^verbatim>\<open>'close'\<close> listener runs.
\<close>

definition cmdPeerClose :: "ref \<Rightarrow> world \<Rightarrow> world" where
  "cmdPeerClose r w =
     (case cmdSocket (cmdOf w r) of
        None \<Rightarrow> w
      | Some s \<Rightarrow> if s \<in> liveSockets w then cmdOnClose r (w\<lparr>liveSockets := liveSockets w - {s}\<rparr>) else w)"

subsection \<open>The heartbeat client\<close>

definition stopTimeoutTimer :: "ref \<Rightarrow> world \<Rightarrow> world" where
  "stopTimeoutTimer r w = updHb r (\<lambda>c. c\<lparr>hbTimeoutTimer := False\<rparr>) w"

definition stopHeartbeat :: "ref \<Rightarrow> world \<Rightarrow> world" where
  "stopHeartbeat r w = stopTimeoutTimer r w"

definition startTimeoutTimer :: "ref \<Rightarrow> world \<Rightarrow> world" where
  "startTimeoutTimer r w =
     (let w1 = stopTimeoutTimer r w;
          w2 = updHb r (\<lambda>c. c\<lparr>hbTimeoutTimer := True\<rparr>) w1
      in setTimeout (HeartbeatTimeout r) 5000 w2)"

text \<open>
  \<^verbatim>\<open>sendHeartbeat\<close>.  Building the frame evaluates \<^verbatim>\<open>this.lastHeartbeatValue + 1\<close>; when that
  throws, nothing has been written yet and nothing catches the exception (the callers
  are the callback of \<^verbatim>\<open>socket.connect\<close> and the callback of a timer).
\<close>

definition sendHeartbeat :: "ref \<Rightarrow> world \<Rightarrow> world" where
  "sendHeartbeat r w =
     (if \<not> hbIsConnectedFlag (hbOf w r) \<or> hbSocket (hbOf w r) = None \<or> hbWaitingForResponse (hbOf w r)
      then w
      else case plusOne (hbLastHeartbeatValue (hbOf w r)) of
        None \<Rightarrow> w\<lparr>trace := trace w @ [Thrown ''TypeError'']\<rparr>
      | Some v \<Rightarrow>
          (let heartbeat = HeartbeatFrame (getLocalIP (os w)) v (now w);
               w1 = socketWrite r HeartbeatChannel heartbeat w;
               w2 = updHb r (\<lambda>c. c\<lparr>hbWaitingForResponse := True\<rparr>) w1;
               w3 = updHb r (\<lambda>c. c\<lparr>hbLastHeartbeatTime := now w2\<rparr>) w2
           in startTimeoutTimer r w3))"

text \<open>
  \<^verbatim>\<open>connect\<close> up to the point where the promise waits.  The existing socket, if there is
  one, loses its listeners before it is destroyed, so it sends no \<^verbatim>\<open>'close'\<close> event.
\<close>

definition hbConnect :: "ref \<Rightarrow> string \<Rightarrow> world \<Rightarrow> world" where
  "hbConnect r deviceIp w =
     (let w1 = updHb r (\<lambda>c. c\<lparr>hbDeviceIp := deviceIp,
                               hbLastHeartbeatValue := JsNumber (Finite (- 1)),
                               hbLastHeartbeatTime := 0, hbWaitingForResponse := False\<rparr>) w;
          w2 = (case hbSocket (hbOf w1 r) of
                  Some old \<Rightarrow> socketRelease old (stopHeartbeat r w1)
                | None \<Rightarrow> w1);
          (s, w3) = newSocket w2
      in updHb r (\<lambda>c. c\<lparr>hbSocket := Some s, hbConnectionResolved := False\<rparr>) w3)"

text \<open>The callback of \<^verbatim>\<open>socket.connect\<close>; its last statement resolves the promise.\<close>

definition hbOnConnect :: "ref \<Rightarrow> world \<Rightarrow> world" where
  "hbOnConnect r w =
     (let w1 = updHb r (\<lambda>c. c\<lparr>hbIsConnectedFlag := True\<rparr>) w;
          w2 = updHb r (\<lambda>c. c\<lparr>hbConnectionResolved := True\<rparr>) w1;
          w3 = emit r HeartbeatChannel EvConnected w2
      in sendHeartbeat r w3)"

text \<open>
  The listener of \<^verbatim>\<open>'data'\<close>.  When \<^verbatim>\<open>JSON.parse\<close> throws, the \<^verbatim>\<open>catch\<close> only logs.  When the
  message is \<^verbatim>\<open>null\<close>, the liveness timer is stopped and \<^verbatim>\<open>waitingForResponse\<close> is cleared
  before \<^verbatim>\<open>message.value\<close> throws into the same \<^verbatim>\<open>catch\<close>.  Otherwise
  \<^verbatim>\<open>message.value || 0\<close> is stored, whatever value it is.
\<close>

definition hbOnData :: "ref \<Rightarrow> heartbeat_data \<Rightarrow> world \<Rightarrow> world" where
  "hbOnData r parsed w =
     (case parsed of
        NotJson \<Rightarrow> w
      | JsonNull \<Rightarrow> updHb r (\<lambda>c. c\<lparr>hbWaitingForResponse := False\<rparr>) (stopTimeoutTimer r w)
      | JsonMessage field \<Rightarrow>
          (let w1 = stopTimeoutTimer r w;
               w2 = updHb r (\<lambda>c. c\<lparr>hbWaitingForResponse := False\<rparr>) w1;
               v = fieldValue field;
               w3 = updHb r (\<lambda>c. c\<lparr>hbLastHeartbeatValue :=
                                       (if toBoolean v then v else JsNumber (Finite 0))\<rparr>) w2;
               w4 = setTimeout (NextHeartbeat r) 2000 w3
           in emit r HeartbeatChannel EvHeartbeat w4))"

text \<open>The callback of the 2 s timer set by the \<^verbatim>\<open>'data'\<close> listener.\<close>

definition hbOnNextHeartbeat :: "ref \<Rightarrow> world \<Rightarrow> world" where
  "hbOnNextHeartbeat r w = (if hbIsConnectedFlag (hbOf w r) then sendHeartbeat r w else w)"

definition hbDisconnect :: "ref \<Rightarrow> world \<Rightarrow> world" where
  "hbDisconnect r w =
     (let w1 = stopHeartbeat r w;
          w2 = (case hbSocket (hbOf w1 r) of
                  Some s \<Rightarrow> updHb r (\<lambda>c. c\<lparr>hbSocket := None\<rparr>) (socketDestroy r HeartbeatChannel s w1)
                | None \<Rightarrow> w1)
      in updHb r (\<lambda>c. c\<lparr>hbIsConnectedFlag := False\<rparr>) w2)"

text \<open>
  The callback of the 5 s liveness timer (\<^verbatim>\<open>startTimeoutTimer\<close>).  It runs only while the
  timer is pending; a timer that has fired is not pending any more.
\<close>

definition hbOnTimeoutTimer :: "ref \<Rightarrow> world \<Rightarrow> world" where
  "hbOnTimeoutTimer r w =
     (if \<not> hbTimeoutTimer (hbOf w r) then w
      else (let w0 = updHb r (\<lambda>c. c\<lparr>hbTimeoutTimer := False\<rparr>) w;
                w1 = emit r HeartbeatChannel EvTimeout w0
            in if hbIsConnectedFlag (hbOf w1 r)
               then emit r HeartbeatChannel EvDisconnected (hbDisconnect r w1)
               else w1))"

text \<open>
  The listeners of the socket's \<^verbatim>\<open>'error'\<close> and \<^verbatim>\<open>'close'\<close> events.  The first one emits
  \<^verbatim>\<open>'error'\<close> after clearing the flag and the liveness timer, which throws, so that the
  rest of it is not reached.
\<close>

definition hbOnError :: "ref \<Rightarrow> world \<Rightarrow> world" where
  "hbOnError r w =
     (let w1 = updHb r (\<lambda>c. c\<lparr>hbIsConnectedFlag := False\<rparr>) w;
          w2 = stopHeartbeat r w1
      in emit r HeartbeatChannel EvError w2)"

definition hbOnClose :: "ref \<Rightarrow> world \<Rightarrow> world" where
  "hbOnClose r w =
     (let w1 = updHb r (\<lambda>c. c\<lparr>hbIsConnectedFlag := False\<rparr>) w;
          w2 = stopHeartbeat r w1
      in emit r HeartbeatChannel EvDisconnected w2)"

text \<open>
  The listener of the socket's \<^verbatim>\<open>'timeout'\<close> event (10 s without activity while
  connecting); when the connection was not resolved the promise is rejected.
\<close>

definition hbOnSocketTimeout :: "ref \<Rightarrow> world \<Rightarrow> world" where
  "hbOnSocketTimeout r w =
     (if \<not> hbIsConnectedFlag (hbOf w r)
      then (case hbSocket (hbOf w r) of Some s \<Rightarrow> socketDestroy r HeartbeatChannel s w | None \<Rightarrow> w)
      else w)"

text \<open>
  The event loop delivering the \<^verbatim>\<open>'close'\<close> event of a destroyed socket to the listener
  that is still attached to it.
\<close>

definition deliverClose :: "ref \<Rightarrow> channel \<Rightarrow> nat \<Rightarrow> world \<Rightarrow> world" where
  "deliverClose r ch s w =
     (if (r, ch, s) \<notin> set (pendingClose w) then w
      else (let w1 = w\<lparr>pendingClose := remove1 (r, ch, s) (pendingClose w)\<rparr>
            in case ch of CommandChannel \<Rightarrow> cmdOnClose r w1
                        | HeartbeatChannel \<Rightarrow> hbOnClose r w1))"

subsection \<open>The connection manager: connecting, attaching, closing\<close>

text \<open>
  \<^verbatim>\<open>connection.webSocketClients.add(ws)\<close> followed by \<^verbatim>\<open>setupWebSocketHandling\<close>, which
  registers a \<^verbatim>\<open>'message'\<close> and a \<^verbatim>\<open>'close'\<close> listener on the browser socket; both hold the
  connection object.
\<close>

definition attachClient :: "ws \<Rightarrow> ref \<Rightarrow> world \<Rightarrow> world" where
  "attachClient c r w =
     (let w1 = updConn r (\<lambda>k. k\<lparr>webSocketClients :=
                 (if c \<in> set (webSocketClients k) then webSocketClients k
                  else webSocketClients k @ [c])\<rparr>) w
      in w1\<lparr>wsHandlers := wsHandlers w1 @ [(c, r)]\<rparr>)"

definition setupEventForwarding :: "ref \<Rightarrow> world \<Rightarrow> world" where
  "setupEventForwarding r w =
     updHb r (\<lambda>c. c\<lparr>hbForwarding := True\<rparr>) (updCmd r (\<lambda>c. c\<lparr>cmdForwarding := True\<rparr>) w)"

definition connectionsDelete :: "string \<Rightarrow> world \<Rightarrow> world" where
  "connectionsDelete k w = w\<lparr>connections := filter (\<lambda>(k', r). k' \<noteq> k) (connections w)\<rparr>"

text \<open>
  How a TCP connect ends: the socket connects, or nothing happens for ten seconds (the
  timer of the command client, the socket timeout of the heartbeat client) and the
  promise is rejected with \<^verbatim>\<open>Error('Connection timeout')\<close>.
\<close>

datatype connect_outcome = ConnectOk | ConnectTimeout

text \<open>
  The first part of the new-connection branch of \<^verbatim>\<open>connectToDevice\<close>, up to the first
  \<^verbatim>\<open>await\<close>: the record is made and put into the table, and the command client starts
  to connect.
\<close>

definition createConnection :: "Device \<Rightarrow> world \<Rightarrow> ref \<times> world" where
  "createConnection dev w =
     (let r = nextRef w;
          connection = \<lparr>device = dev, commandClient = newCommandClient,
                        heartbeatClient = newHeartbeatClient, webSocketClients = [],
                        connected = False, lastActivity = now w\<rparr>;
          w1 = w\<lparr>heap := (heap w)(r := connection), nextRef := Suc r,
                  connections := connections w @ [(dev_ip dev, r)]\<rparr>
      in (r, cmdConnect r (dev_ip dev) w1))"

text \<open>The \<^verbatim>\<open>catch\<close> block of \<^verbatim>\<open>connectToDevice\<close>, before it throws the error again.\<close>

definition connectFailed :: "ref \<Rightarrow> Device \<Rightarrow> ws \<Rightarrow> world \<Rightarrow> world" where
  "connectFailed r dev c w =
     (let w1 = cmdDisconnect r w;
          w2 = hbDisconnect r w1;
          w3 = connectionsDelete (dev_ip dev) w2
      in wsSend c (ConnectionError ''Failed to connect to device'' (Some dev)) w3)"

text \<open>
  \<^verbatim>\<open>connectToDevice\<close>, run without another handler in between.  The result says whether the
  function returned (\<open>None\<close>) or threw (the message of the error).
\<close>

definition connectToDevice ::
    "Device \<Rightarrow> ws \<Rightarrow> connect_outcome \<Rightarrow> connect_outcome \<Rightarrow> world \<Rightarrow> world \<times> string option" where
  "connectToDevice dev c cmdResult hbResult w =
     (case map_of (connections w) (dev_ip dev) of
        Some r \<Rightarrow> (attachClient c r (wsSend c (ConnectionSuccess dev) w), None)
      | None \<Rightarrow>
          (let (r, w2) = createConnection dev w
           in case cmdResult of
                ConnectTimeout \<Rightarrow>
                  (connectFailed r dev c (cmdOnConnectTimeout r w2), Some ''Connection timeout'')
              | ConnectOk \<Rightarrow>
                  (let w3 = cmdOnConnect r w2;
                       w4 = hbConnect r (dev_ip dev) w3
                   in case hbResult of
                        ConnectTimeout \<Rightarrow>
                          (connectFailed r dev c (hbOnSocketTimeout r w4), Some ''Connection timeout'')
                      | ConnectOk \<Rightarrow>
                          (let w5 = hbOnConnect r w4;
                               w6 = updConn r (\<lambda>k. k\<lparr>connected := True\<rparr>) w5;
                               w7 = setupEventForwarding r w6;
                               w8 = setTimeout (FetchMobileInfo r) 1000 w7;
                               w9 = wsSend c (ConnectionSuccess dev) w8
                           in (attachClient c r w9, None)))))"

text \<open>
  The \<^verbatim>\<open>connect:device\<close> case of the router in \<^verbatim>\<open>websocket-server.ts\<close>: it awaits
  \<^verbatim>\<open>connectToDevice\<close> and, when that throws, sends \<^verbatim>\<open>connection:error\<close> with the message of
  the error.
\<close>

definition routerConnectDevice ::
    "Device \<Rightarrow> ws \<Rightarrow> connect_outcome \<Rightarrow> connect_outcome \<Rightarrow> world \<Rightarrow> world" where
  "routerConnectDevice dev c cmdResult hbResult w =
     (case connectToDevice dev c cmdResult hbResult w of
        (w1, None) \<Rightarrow> w1
      | (w1, Some message) \<Rightarrow> wsSend c (ConnectionError message None) w1)"

text \<open>
  The \<^verbatim>\<open>'close'\<close> listener that \<^verbatim>\<open>setupWebSocketHandling\<close> registers, and a browser socket
  closing: the socket is not open any more and every listener registered for it runs.
\<close>

definition onWsClose :: "ws \<Rightarrow> ref \<Rightarrow> world \<Rightarrow> world" where
  "onWsClose c r w = updConn r (\<lambda>k. k\<lparr>webSocketClients := removeAll c (webSocketClients k)\<rparr>) w"

definition wsClosed :: "ws \<Rightarrow> world \<Rightarrow> world" where
  "wsClosed c w =
     fold (\<lambda>(c', r) w'. if c' = c then onWsClose c r w' else w') (wsHandlers w)
       (w\<lparr>wsOpen := wsOpen w - {c}\<rparr>)"

definition closeConnection :: "string \<Rightarrow> world \<Rightarrow> world" where
  "closeConnection deviceIp w =
     (case map_of (connections w) deviceIp of
        None \<Rightarrow> w
      | Some r \<Rightarrow>
          (let w1 = cmdDisconnect r w;
               w2 = hbDisconnect r w1;
               w3 = broadcastToClients (webSocketClients (heap w2 r))
                      (ConnectionClosed (device (heap w2 r))) w2
           in connectionsDelete deviceIp w3))"

text \<open>The callbacks of the timers that \<^verbatim>\<open>handleDeviceDisconnection\<close> sets.\<close>

definition onGraceCleanup :: "ref \<Rightarrow> world \<Rightarrow> world" where
  "onGraceCleanup r w =
     (if \<not> cmdIsConnectedFlag (cmdOf w r) \<and> \<not> hbIsConnectedFlag (hbOf w r)
      then closeConnection (dev_ip (device (heap w r))) w else w)"

definition onReconnectCommand :: "ref \<Rightarrow> world \<Rightarrow> world" where
  "onReconnectCommand r w =
     (if \<not> cmdIsConnectedFlag (cmdOf w r) \<and> hbIsConnectedFlag (hbOf w r)
      then cmdConnect r (dev_ip (device (heap w r))) w else w)"

definition onReconnectHeartbeat :: "ref \<Rightarrow> world \<Rightarrow> world" where
  "onReconnectHeartbeat r w =
     (if cmdIsConnectedFlag (cmdOf w r) \<and> \<not> hbIsConnectedFlag (hbOf w r)
      then hbConnect r (dev_ip (device (heap w r))) w else w)"

subsection \<open>The connection manager: the messages of a browser\<close>

text \<open>
  \<^verbatim>\<open>encodeURIComponent\<close> on the UTF-8 bytes of a string: letters, digits and
  \<^verbatim>\<open>- _ . ! ~ * ' ( )\<close> stay, every other byte becomes \<^verbatim>\<open>%XX\<close>.  \<^verbatim>\<open>toLowerCase\<close> on ASCII.
\<close>

definition isAlnum :: "char \<Rightarrow> bool" where
  "isAlnum c = (let n = (of_char c :: nat)
                in (48 \<le> n \<and> n \<le> 57) \<or> (65 \<le> n \<and> n \<le> 90) \<or> (97 \<le> n \<and> n \<le> 122))"

definition unreserved :: "char \<Rightarrow> bool" where
  "unreserved c =
     (isAlnum c \<or> c \<in> set [CHR ''-'', CHR ''_'', CHR ''.'', CHR ''!'', CHR ''~'', CHR ''*'',
                             CHR 0x27, CHR ''('', CHR '')''])"

definition hexDigit :: "nat \<Rightarrow> char" where
  "hexDigit n = ''0123456789ABCDEF'' ! n"

definition encodeURIComponent :: "string \<Rightarrow> string" where
  "encodeURIComponent s =
     concat (map (\<lambda>c. if unreserved c then [c]
                       else [CHR ''%'', hexDigit (of_char c div 16), hexDigit (of_char c mod 16)]) s)"

definition toLower :: "char \<Rightarrow> char" where
  "toLower c = (let n = (of_char c :: nat) in if 65 \<le> n \<and> n \<le> 90 then char_of (n + 32) else c)"

text \<open>A value of JavaScript that is a string or absent is truthy when it is a non-empty string.\<close>

definition truthy :: "string option \<Rightarrow> bool" where
  "truthy v = (case v of None \<Rightarrow> False | Some x \<Rightarrow> x \<noteq> [])"

text \<open>
  A message of a browser: \<^verbatim>\<open>id\<close>, \<^verbatim>\<open>type\<close>, and of the payload the two fields the handlers
  read, \<^verbatim>\<open>payload?.path\<close> and \<^verbatim>\<open>payload?.albumId\<close>.
\<close>

record WsRequest =
  m_id :: "string option"
  m_type :: string
  m_path :: "string option"
  m_albumId :: "string option"

text \<open>
  The device's HTTP service: for each endpoint the bridge calls, how the call ends.  A
  list response is \<open>None\<close> when it has no \<^verbatim>\<open>data\<close> (\<^verbatim>\<open>response?.data || []\<close>).
\<close>

record DeviceApi =
  api_deviceInfo :: "string http_result"
  api_fileList :: "string \<Rightarrow> FileEntity list option http_result"
  api_fileDownload :: "string option \<Rightarrow> string http_result"
  api_fileDelete :: "string option \<Rightarrow> string http_result"
  api_imageAll :: "ImageEntity list option http_result"
  api_imagesOfAlbum :: "string \<Rightarrow> ImageEntity list option http_result"
  api_albums :: "string list option http_result"
  api_contacts :: "string http_result"
  api_apps :: "string http_result"
  api_videos :: "VideoEntity list option http_result"

text \<open>\<^verbatim>\<open>makeHttpRequest\<close>: the call goes out with a timeout of 30000 ms.\<close>

definition makeHttpRequest :: "ref \<Rightarrow> string \<Rightarrow> http_method \<Rightarrow> http_body \<Rightarrow> world \<Rightarrow> world" where
  "makeHttpRequest r endpoint method data w =
     (let url = ''http://'' @ dev_ip (device (heap w r)) @ '':'' @ showNat PORT_HTTP @ endpoint
      in w\<lparr>trace := trace w @
              [Requested \<lparr>rq_method = method, rq_url = url, rq_data = data, rq_timeout = 30000\<rparr>]\<rparr>)"

definition getDeviceInfo :: "ref \<Rightarrow> ws \<Rightarrow> string option \<Rightarrow> DeviceApi \<Rightarrow> world \<Rightarrow> world" where
  "getDeviceInfo r c i api w =
     (let w1 = makeHttpRequest r ''/device/info'' GET NoBody w
      in case api_deviceInfo api of
           HttpOk info \<Rightarrow> wsSend c (Reply i ''device:info:response'' (RawData info)) w1
         | HttpError \<Rightarrow> wsSend c (ErrorReply i ''Failed to get device info'') w1)"

definition mimeTypes :: "(string \<times> string) list" where
  "mimeTypes =
     [(''pdf'', ''application/pdf''),
      (''doc'', ''application/msword''),
      (''docx'', ''application/vnd.openxmlformats-officedocument.wordprocessingml.document''),
      (''xls'', ''application/vnd.ms-excel''),
      (''xlsx'', ''application/vnd.openxmlformats-officedocument.spreadsheetml.sheet''),
      (''ppt'', ''application/vnd.ms-powerpoint''),
      (''pptx'', ''application/vnd.openxmlformats-officedocument.presentationml.presentation''),
      (''txt'', ''text/plain''),
      (''jpg'', ''image/jpeg''),
      (''jpeg'', ''image/jpeg''),
      (''png'', ''image/png''),
      (''gif'', ''image/gif''),
      (''mp4'', ''video/mp4''),
      (''mp3'', ''audio/mpeg''),
      (''zip'', ''application/zip''),
      (''rar'', ''application/x-rar-compressed'')]"

definition getMimeType :: "string \<Rightarrow> string option" where
  "getMimeType filename =
     (case rev (splitOn CHR ''.'' filename) of
        [] \<Rightarrow> None
      | e # rest \<Rightarrow> (let ext = map toLower e in if ext = [] then None else map_of mimeTypes ext))"

definition toFileItem :: "FileEntity \<Rightarrow> FileItem" where
  "toFileItem file =
     (let fullPath = fe_folder file @ ''/'' @ fe_name file
      in \<lparr>fi_id = fullPath, fi_name = fe_name file, fi_path = fullPath,
          fi_type = (if fe_isDir file then ''folder'' else ''file''),
          fi_size = fe_size file, fi_modified = fe_changeDate file,
          fi_mimeType = (if fe_isDir file then None else getMimeType (fe_name file))\<rparr>)"

definition getFileList :: "ref \<Rightarrow> ws \<Rightarrow> string \<Rightarrow> string option \<Rightarrow> DeviceApi \<Rightarrow> world \<Rightarrow> world" where
  "getFileList r c path i api w =
     (let w1 = makeHttpRequest r ''/file/list'' POST (PathBody (Some path)) w
      in case api_fileList api path of
           HttpOk response \<Rightarrow>
             (let rawFiles = (case response of None \<Rightarrow> [] | Some xs \<Rightarrow> xs);
                  files = map toFileItem rawFiles
              in wsSend c (Reply i ''file:list:response'' (FilesData files)) w1)
         | HttpError \<Rightarrow> wsSend c (ErrorReply i ''Failed to get file list'') w1)"

definition downloadFile :: "ref \<Rightarrow> ws \<Rightarrow> string option \<Rightarrow> string option \<Rightarrow> DeviceApi \<Rightarrow> world \<Rightarrow> world" where
  "downloadFile r c path i api w =
     (let w1 = makeHttpRequest r
                 (''/file/download?path='' @
                    encodeURIComponent (case path of None \<Rightarrow> ''undefined'' | Some p \<Rightarrow> p))
                 GET NoBody w
      in case api_fileDownload api path of
           HttpOk data \<Rightarrow> wsSend c (Reply i ''file:download:response'' (RawData data)) w1
         | HttpError \<Rightarrow> wsSend c (ErrorReply i ''Failed to download file'') w1)"

text \<open>\<^verbatim>\<open>uploadFile\<close>: the body of its \<^verbatim>\<open>try\<close> is one \<^verbatim>\<open>ws.send\<close>.\<close>

definition uploadFile :: "ref \<Rightarrow> ws \<Rightarrow> string option \<Rightarrow> world \<Rightarrow> world" where
  "uploadFile r c i w = wsSend c (Reply i ''file:upload:response'' SuccessData) w"

definition deleteFile :: "ref \<Rightarrow> ws \<Rightarrow> string option \<Rightarrow> string option \<Rightarrow> DeviceApi \<Rightarrow> world \<Rightarrow> world" where
  "deleteFile r c path i api w =
     (let w1 = makeHttpRequest r ''/file'' DELETE (PathBody path) w
      in case api_fileDelete api path of
           HttpOk data \<Rightarrow> wsSend c (Reply i ''file:delete:response'' SuccessData) w1
         | HttpError \<Rightarrow> wsSend c (ErrorReply i ''Failed to delete file'') w1)"

definition withThumbnail :: "string \<Rightarrow> ImageEntity \<Rightarrow> ImageItem" where
  "withThumbnail deviceIp img =
     ImageEntity.extend img
       (ImageItem.fields
          (''http://'' @ deviceIp @ '':'' @ showNat PORT_HTTP @ ''/stream/thumbnail?path='' @
             encodeURIComponent (img_path img)))"

definition getImages :: "ref \<Rightarrow> ws \<Rightarrow> string option \<Rightarrow> string option \<Rightarrow> DeviceApi \<Rightarrow> world \<Rightarrow> world" where
  "getImages r c i albumId api w =
     (let endpoint = (if truthy albumId then ''/image/imagesOfAlbum'' else ''/image/all'');
          body = (if truthy albumId then IdBody (the albumId) else EmptyObject);
          w1 = makeHttpRequest r endpoint POST body w
      in case (if truthy albumId then api_imagesOfAlbum api (the albumId) else api_imageAll api) of
           HttpOk response \<Rightarrow>
             (let images = (case response of None \<Rightarrow> [] | Some xs \<Rightarrow> xs);
                  images' = map (withThumbnail (dev_ip (device (heap w r)))) images
              in wsSend c (Reply i ''image:list:response'' (ImagesData images')) w1)
         | HttpError \<Rightarrow> wsSend c (ErrorReply i ''Failed to get images'') w1)"

definition getAlbums :: "ref \<Rightarrow> ws \<Rightarrow> string option \<Rightarrow> DeviceApi \<Rightarrow> world \<Rightarrow> world" where
  "getAlbums r c i api w =
     (let w1 = makeHttpRequest r ''/image/albums'' POST EmptyObject w
      in case api_albums api of
           HttpOk response \<Rightarrow>
             wsSend c (Reply i ''album:list:response''
               (AlbumsData (case response of None \<Rightarrow> [] | Some xs \<Rightarrow> xs))) w1
         | HttpError \<Rightarrow> wsSend c (ErrorReply i ''Failed to get albums'') w1)"

definition getContacts :: "ref \<Rightarrow> ws \<Rightarrow> string option \<Rightarrow> DeviceApi \<Rightarrow> world \<Rightarrow> world" where
  "getContacts r c i api w =
     (let w1 = makeHttpRequest r ''/contacts'' GET NoBody w
      in case api_contacts api of
           HttpOk contacts \<Rightarrow> wsSend c (Reply i ''contact:list:response'' (RawData contacts)) w1
         | HttpError \<Rightarrow> wsSend c (ErrorReply i ''Failed to get contacts'') w1)"

definition getApps :: "ref \<Rightarrow> ws \<Rightarrow> string option \<Rightarrow> DeviceApi \<Rightarrow> world \<Rightarrow> world" where
  "getApps r c i api w =
     (let w1 = makeHttpRequest r ''/apps'' GET NoBody w
      in case api_apps api of
           HttpOk apps \<Rightarrow> wsSend c (Reply i ''app:list:response'' (RawData apps)) w1
         | HttpError \<Rightarrow> wsSend c (ErrorReply i ''Failed to get apps'') w1)"

definition toVideoItem :: "string \<Rightarrow> nat \<Rightarrow> VideoEntity \<Rightarrow> VideoItem" where
  "toVideoItem deviceIp t video =
     \<lparr>vi_id = showInt (vid_id video), vi_name = vid_name video, vi_path = vid_path video,
      vi_type = ''file'', vi_size = vid_size video,
      vi_modified = (if vid_lastModifyTime video = 0 then t else vid_lastModifyTime video),
      vi_duration = vid_duration video div 1000,
      vi_thumbnailUrl =
        ''http://'' @ deviceIp @ '':'' @ showNat PORT_HTTP @ ''/stream/video/thumbnail/'' @
          showInt (vid_id video) @ ''/200/200''\<rparr>"

definition getVideos :: "ref \<Rightarrow> ws \<Rightarrow> string option \<Rightarrow> DeviceApi \<Rightarrow> world \<Rightarrow> world" where
  "getVideos r c i api w =
     (let w1 = makeHttpRequest r ''/video/videos'' POST EmptyObject w
      in case api_videos api of
           HttpOk response \<Rightarrow>
             (let videos = (case response of None \<Rightarrow> [] | Some xs \<Rightarrow> xs);
                  videos' = map (toVideoItem (dev_ip (device (heap w r))) (now w)) videos
              in wsSend c (Reply i ''video:list:response'' (VideosData videos')) w1)
         | HttpError \<Rightarrow> wsSend c (ErrorReply i ''Failed to get videos'') w1)"

text \<open>
  The connection of a message that comes without one (from the router): the first
  connection of the table that has the browser socket attached, else the first
  connection of the table.
\<close>

definition findConnection :: "ws \<Rightarrow> world \<Rightarrow> ref option" where
  "findConnection c w =
     (case List.find (\<lambda>(k, r). c \<in> set (webSocketClients (heap w r))) (connections w) of
        Some (k, r) \<Rightarrow> Some r
      | None \<Rightarrow> (case connections w of [] \<Rightarrow> None | (k, r) # rest \<Rightarrow> Some r))"

definition handleWebSocketMessage ::
    "WsRequest \<Rightarrow> ref option \<Rightarrow> ws \<Rightarrow> DeviceApi \<Rightarrow> world \<Rightarrow> world" where
  "handleWebSocketMessage message connection c api w =
     (case (case connection of Some r \<Rightarrow> Some r | None \<Rightarrow> findConnection c w) of
        None \<Rightarrow>
          (if truthy (m_id message) then wsSend c (ErrorReply (m_id message) ''No device connected'') w
           else w)
      | Some r \<Rightarrow>
          (let type = m_type message; i = m_id message
           in if type = ''device:info'' then getDeviceInfo r c i api w
              else if type = ''file:list''
                then getFileList r c (if truthy (m_path message) then the (m_path message) else ''/'') i api w
              else if type = ''file:download'' then downloadFile r c (m_path message) i api w
              else if type = ''file:upload'' then uploadFile r c i w
              else if type = ''file:delete'' then deleteFile r c (m_path message) i api w
              else if type = ''image:list'' then getImages r c i (m_albumId message) api w
              else if type = ''album:list'' then getAlbums r c i api w
              else if type = ''contact:list'' then getContacts r c i api w
              else if type = ''app:list'' then getApps r c i api w
              else if type = ''video:list'' then getVideos r c i api w
              else if type = ''heartbeat'' then wsSend c (HeartbeatAck (now w)) w
              else if type = ''register'' then wsSend c RegisterAck w
              else if truthy i then wsSend c (ErrorReply i (''Unknown message type: '' @ type)) w
              else w))"

text \<open>The types of the data-plane requests that the handler relays over HTTP.\<close>

definition relayedTypes :: "string list" where
  "relayedTypes =
     [''device:info'', ''file:list'', ''file:download'', ''file:delete'', ''image:list'',
      ''album:list'', ''contact:list'', ''app:list'', ''video:list'']"

text \<open>What a handler added to the trace.\<close>

definition added :: "world \<Rightarrow> world \<Rightarrow> action list" where
  "added w w' = drop (length (trace w)) (trace w')"

text \<open>
  A call to the device's HTTP service, on the fixed port with the 30 s timeout; and a
  piece of trace with exactly one HTTP call, which is such a call, and no write to a TCP
  socket.
\<close>

definition relay :: "ref \<Rightarrow> string \<Rightarrow> http_method \<Rightarrow> http_body \<Rightarrow> world \<Rightarrow> action" where
  "relay r endpoint method data w =
     Requested \<lparr>rq_method = method,
                rq_url = ''http://'' @ dev_ip (device (heap w r)) @ '':9527'' @ endpoint,
                rq_data = data, rq_timeout = 30000\<rparr>"

definition oneRelay :: "ref \<Rightarrow> world \<Rightarrow> action list \<Rightarrow> bool" where
  "oneRelay r w tr =
     (map rq_timeout (requestsIn tr) = [30000]
      \<and> list_all (\<lambda>q. startsWith (rq_url q) (''http://'' @ dev_ip (device (heap w r)) @ '':9527/''))
           (requestsIn tr)
      \<and> writtenIn tr = [])"

subsection \<open>The heartbeat channel as a sequence of events\<close>

text \<open>
  The device closing the heartbeat socket: the socket is not live any more and its
  \<^verbatim>\<open>'close'\<close> listener runs.
\<close>

definition hbPeerClose :: "ref \<Rightarrow> world \<Rightarrow> world" where
  "hbPeerClose r w =
     (case hbSocket (hbOf w r) of
        None \<Rightarrow> w
      | Some s \<Rightarrow> if s \<in> liveSockets w then hbOnClose r (w\<lparr>liveSockets := liveSockets w - {s}\<rparr>) else w)"

text \<open>
  What can happen to the heartbeat client of a connection: \<^verbatim>\<open>connect\<close> is called, the
  socket connects, data arrives, the 2 s timer of the \<^verbatim>\<open>'data'\<close> listener or the 5 s
  liveness timer fires, the \<^verbatim>\<open>'close'\<close> event of a destroyed socket is delivered, the device
  closes the socket, the socket times out while connecting, the socket reports an error,
  \<^verbatim>\<open>disconnect\<close> is called.  Once an exception was thrown that nothing catches, the process
  has ended and no handler runs any more.
\<close>

datatype hb_event =
    ConnectCalled string
  | SocketConnected
  | DataReceived heartbeat_data
  | NextHeartbeatDue
  | LivenessTimerFired
  | CloseDelivered nat
  | PeerClosed
  | SocketTimedOut
  | SocketError
  | DisconnectCalled

fun isThrown :: "action \<Rightarrow> bool" where
  "isThrown (Thrown m) = True"
| "isThrown a = False"

definition terminated :: "world \<Rightarrow> bool" where
  "terminated w = list_ex isThrown (trace w)"

fun hbHandler :: "ref \<Rightarrow> hb_event \<Rightarrow> world \<Rightarrow> world" where
  "hbHandler r (ConnectCalled a) w = hbConnect r a w"
| "hbHandler r SocketConnected w = hbOnConnect r w"
| "hbHandler r (DataReceived p) w = hbOnData r p w"
| "hbHandler r NextHeartbeatDue w = hbOnNextHeartbeat r w"
| "hbHandler r LivenessTimerFired w = hbOnTimeoutTimer r w"
| "hbHandler r (CloseDelivered s) w = deliverClose r HeartbeatChannel s w"
| "hbHandler r PeerClosed w = hbPeerClose r w"
| "hbHandler r SocketTimedOut w = hbOnSocketTimeout r w"
| "hbHandler r SocketError w = hbOnError r w"
| "hbHandler r DisconnectCalled w = hbDisconnect r w"

definition hbStep :: "ref \<Rightarrow> hb_event \<Rightarrow> world \<Rightarrow> world" where
  "hbStep r ev w = (if terminated w then w else hbHandler r ev w)"

text \<open>
  The heartbeats awaiting a response on the current socket are counted beside the state:
  a step adds the heartbeat frames it writes, and the count starts again at zero when
  data arrives that \<^verbatim>\<open>JSON.parse\<close> accepts (the listener then clears
  \<^verbatim>\<open>waitingForResponse\<close>) or \<^verbatim>\<open>connect\<close> replaces the socket.
\<close>

fun isHeartbeatOf :: "ref \<Rightarrow> action \<Rightarrow> bool" where
  "isHeartbeatOf r (Written r' HeartbeatChannel (HeartbeatFrame a v t)) = (r' = r)"
| "isHeartbeatOf r a = False"

definition heartbeatsWritten :: "ref \<Rightarrow> world \<Rightarrow> nat" where
  "heartbeatsWritten r w = length (filter (isHeartbeatOf r) (trace w))"

fun answers :: "hb_event \<Rightarrow> bool" where
  "answers (ConnectCalled a) = True"
| "answers (DataReceived NotJson) = False"
| "answers (DataReceived p) = True"
| "answers ev = False"

fun hbRun :: "ref \<Rightarrow> hb_event list \<Rightarrow> world \<times> nat \<Rightarrow> world \<times> nat" where
  "hbRun r [] (w, n) = (w, n)"
| "hbRun r (ev # evs) (w, n) =
     (let w' = hbStep r ev w;
          sent = heartbeatsWritten r w' - heartbeatsWritten r w
      in hbRun r evs (w', (if answers ev then 0 else n) + sent))"

definition obs :: "ref \<Rightarrow> world \<Rightarrow> bool \<times> nat" where
  "obs r w = (hbWaitingForResponse (hbOf w r), heartbeatsWritten r w)"

subsection \<open>Reading a trace\<close>

text \<open>The \<^verbatim>\<open>device:disconnected\<close> messages sent so far, and one action occurring before another.\<close>

definition disconnectBroadcasts :: "world \<Rightarrow> (ws \<times> ws_msg) list" where
  "disconnectBroadcasts w = filter (\<lambda>(c, m). msgType m = ''device:disconnected'') (wsOut w)"

definition occursBefore :: "'a \<Rightarrow> 'a \<Rightarrow> 'a list \<Rightarrow> bool" where
  "occursBefore a b tr = (a \<in> set (takeWhile (\<lambda>x. x \<noteq> b) tr) \<and> b \<in> set tr)"

text \<open>
  The handshake frame of \<^verbatim>\<open>reportDesktopInfo\<close>: command 2 with the name of this server
  (\<^verbatim>\<open>os.hostname() || 'AirController Server'\<close>), the platform code 6, the local IP and the
  version \<^verbatim>\<open>'1.0.0'\<close>.
\<close>

definition handshake :: "ref \<Rightarrow> env \<Rightarrow> action" where
  "handshake r e =
     Written r CommandChannel
       (DesktopInfoFrame CMD_REPORT_DESKTOP_INFO
          (if hostname e = [] then ''AirController Server'' else hostname e)
          6 (getLocalIP e) ''1.0.0'')"

subsection \<open>Concrete inputs\<close>

text \<open>A host with a loopback interface and one Ethernet interface, and discovery datagrams.\<close>

definition env0 :: env where
  "env0 = \<lparr>hostname = ''bridge'', networkInterfaces =
     [(''lo'', [\<lparr>family = ''IPv4'', internal = True, address = ''127.0.0.1''\<rparr>]),
      (''eth0'', [\<lparr>family = ''IPv6'', internal = False, address = ''fe80::1''\<rparr>,
                 \<lparr>family = ''IPv4'', internal = False, address = ''192.168.1.10''\<rparr>])]\<rparr>"

definition pixelPacket :: string where
  "pixelPacket = ''search#a2w0nuNyiD6vYogF#1#Pixel#192.168.1.50''"

definition pixelRinfo :: rinfo where
  "pixelRinfo = \<lparr>r_address = ''192.168.1.50'', r_port = 41000\<rparr>"

definition shortPacket :: string where
  "shortPacket = ''search#a2w0nuNyiD6vYogF#1#Pixel''"

text \<open>A device, an empty bridge with two open browser sockets, and a store of blank objects.\<close>

definition pixel :: Device where
  "pixel = \<lparr>dev_id = ''device_192_168_1_50'', dev_name = ''Pixel'', dev_ip = ''192.168.1.50'',
             dev_port = 9527\<rparr>"

definition blankConnection :: MobileConnection where
  "blankConnection =
     \<lparr>device = \<lparr>dev_id = [], dev_name = [], dev_ip = [], dev_port = 0\<rparr>,
      commandClient = newCommandClient, heartbeatClient = newHeartbeatClient,
      webSocketClients = [], connected = False, lastActivity = 0\<rparr>"

definition world0 :: world where
  "world0 =
     \<lparr>os = env0, now = 1000, connections = [], heap = (\<lambda>r. blankConnection), nextRef = 0,
      wsOpen = {1, 2}, wsHandlers = [], trace = [],
      nextSocket = 0, liveSockets = {}, pendingClose = []\<rparr>"

text \<open>
  The bridge while the first connect to the device is in flight (the record is in the
  table, the command client is connecting), and after both channels connected for the
  browser socket 1; then with the heartbeat client down, and with both clients down.
\<close>

definition inFlight :: world where
  "inFlight = snd (createConnection pixel world0)"

definition linked :: world where
  "linked = fst (connectToDevice pixel 1 ConnectOk ConnectOk world0)"

definition heartbeatDown :: world where
  "heartbeatDown = updHb 0 (\<lambda>c. c\<lparr>hbIsConnectedFlag := False\<rparr>) linked"

definition bothDown :: world where
  "bothDown = updCmd 0 (\<lambda>c. c\<lparr>cmdIsConnectedFlag := False\<rparr>) heartbeatDown"

text \<open>
  The device stops answering: the liveness timer of the heartbeat client fires, the
  \<^verbatim>\<open>'close'\<close> event of the destroyed socket is delivered and the two reconnect timers run,
  the second of them leaving socket 3 connecting.  Then the device closes the command
  socket, the grace timer closes the connection and the \<^verbatim>\<open>'close'\<close> event of socket 3 is
  delivered.  After that the browser connects to the device again.
\<close>

definition unanswered :: world where
  "unanswered =
     onReconnectHeartbeat 0 (onReconnectHeartbeat 0
       (deliverClose 0 HeartbeatChannel 1 (hbOnTimeoutTimer 0 linked)))"

definition cleaned :: world where
  "cleaned = deliverClose 0 HeartbeatChannel 3 (onGraceCleanup 0 (cmdPeerClose 0 unanswered))"

definition relinked :: world where
  "relinked = fst (connectToDevice pixel 1 ConnectOk ConnectOk cleaned)"

text \<open>A run of the heartbeat channel.\<close>

definition beats :: "hb_event list" where
  "beats = [ConnectCalled ''192.168.1.50'', SocketConnected, DataReceived JsonNull,
            DataReceived (JsonMessage (NumberField 0)), DataReceived (JsonMessage NoField),
            NextHeartbeatDue, NextHeartbeatDue, DataReceived NotJson]"

text \<open>The device's answer to \<^verbatim>\<open>/image/all\<close> with one image, and two requests of a browser.\<close>

definition photo :: ImageEntity where
  "photo = \<lparr>img_id = 42, img_mimeType = ''image/jpeg'', img_path = ''/sdcard/DCIM/a b.jpg'',
     img_width = 4000, img_height = 3000, img_modifyTime = 1700000000000,
     img_createTime = 1700000000000, img_size = 2500000\<rparr>"

definition api0 :: DeviceApi where
  "api0 = \<lparr>api_deviceInfo = HttpError, api_fileList = (\<lambda>p. HttpError),
     api_fileDownload = (\<lambda>p. HttpError), api_fileDelete = (\<lambda>p. HttpOk []),
     api_imageAll = HttpOk (Some [photo]), api_imagesOfAlbum = (\<lambda>a. HttpError),
     api_albums = HttpError, api_contacts = HttpError, api_apps = HttpError,
     api_videos = HttpError\<rparr>"

definition imageList :: WsRequest where
  "imageList = \<lparr>m_id = Some ''x'', m_type = ''image:list'', m_path = None, m_albumId = None\<rparr>"

definition upload :: WsRequest where
  "upload = \<lparr>m_id = Some ''u1'', m_type = ''file:upload'', m_path = Some ''/sdcard/new.txt'',
              m_albumId = None\<rparr>"

section \<open>Properties\<close>

subsection \<open>Discovery\<close>

lemma handleDiscoveryPacket_keys:
  "fst ` set (discoveredDevices s) \<subseteq> fst ` set (discoveredDevices (fst (handleDiscoveryPacket e data ri s)))"
  by (auto simp: handleDiscoveryPacket_def Let_def split: option.splits)

lemma sendDiscoveryResponse_no_discovery [simp]:
  "discoveriesOf i n (sendDiscoveryResponse e s a) = []"
  by (simp add: sendDiscoveryResponse_def discoveriesOf_def Let_def)

lemma discoveriesOf_append [simp]:
  "discoveriesOf i n (xs @ ys) = discoveriesOf i n xs @ discoveriesOf i n ys"
  by (simp add: discoveriesOf_def)

lemma discoveriesOf_Cons_discovered [simp]:
  "discoveriesOf i n (DeviceDiscovered d # out) =
     (if ip d = i \<and> name d = n then DeviceDiscovered d # discoveriesOf i n out
      else discoveriesOf i n out)"
  by (simp add: discoveriesOf_def)

lemma discoveriesOf_Nil [simp]: "discoveriesOf i n [] = []"
  by (simp add: discoveriesOf_def)

lemma handleDiscoveryPacket_cases:
  "handleDiscoveryPacket e data ri s = (s, [])
   \<or> handleDiscoveryPacket e data ri s = (s, sendDiscoveryResponse e s (r_address ri))
   \<or> (\<exists>d. deviceKey d \<notin> fst ` set (discoveredDevices s)
        \<and> handleDiscoveryPacket e data ri s =
            (s\<lparr>discoveredDevices := discoveredDevices s @ [(deviceKey d, d)]\<rparr>,
             DeviceDiscovered d # sendDiscoveryResponse e s (r_address ri)))"
  unfolding handleDiscoveryPacket_def Let_def
  by (simp split: option.splits)

lemma handleDiscoveryPacket_once:
  assumes "handleDiscoveryPacket e data ri s = (s1, out1)"
  shows "length (discoveriesOf i n out1)
           \<le> (if i @ ''_'' @ n \<in> fst ` set (discoveredDevices s) then 0 else 1)"
    and "discoveriesOf i n out1 \<noteq> [] \<Longrightarrow> i @ ''_'' @ n \<in> fst ` set (discoveredDevices s1)"
  using handleDiscoveryPacket_cases [of e data ri s] assms
  by (auto simp: deviceKey_def image_iff split: if_splits)

lemma handlePackets_once:
  "length (discoveriesOf i n (snd (handlePackets e ps s)))
     \<le> (if i @ ''_'' @ n \<in> fst ` set (discoveredDevices s) then 0 else 1)"
proof (induction ps arbitrary: s)
  case Nil
  then show ?case by (simp add: discoveriesOf_def)
next
  case (Cons p ps)
  obtain data ri where p: "p = (data, ri)" by (cases p)
  obtain s1 out1 where h: "handleDiscoveryPacket e data ri s = (s1, out1)" by fastforce
  obtain s2 out2 where r: "handlePackets e ps s1 = (s2, out2)" by fastforce
  have grow: "fst ` set (discoveredDevices s) \<subseteq> fst ` set (discoveredDevices s1)"
    using handleDiscoveryPacket_keys [of s e data ri] h by simp
  have ih: "length (discoveriesOf i n out2)
      \<le> (if i @ ''_'' @ n \<in> fst ` set (discoveredDevices s1) then 0 else 1)"
    using Cons.IH [of s1] r by simp
  have a: "length (discoveriesOf i n out1)
      \<le> (if i @ ''_'' @ n \<in> fst ` set (discoveredDevices s) then 0 else 1)"
    by (rule handleDiscoveryPacket_once(1) [OF h])
  have b: "discoveriesOf i n out1 \<noteq> [] \<Longrightarrow> i @ ''_'' @ n \<in> fst ` set (discoveredDevices s1)"
    by (rule handleDiscoveryPacket_once(2) [OF h])
  show ?case
  proof (cases "discoveriesOf i n out1 = []")
    case True
    then show ?thesis using ih grow p h r by (auto split: if_splits)
  next
    case False
    then have "discoveriesOf i n out2 = []" using b ih by simp
    then show ?thesis using a p h r by simp
  qed
qed

lemma handlePackets_fields:
  "udpSocket (fst (handlePackets e ps s)) = udpSocket s
   \<and> deviceName (fst (handlePackets e ps s)) = deviceName s"
proof (induction ps arbitrary: s)
  case Nil
  then show ?case by simp
next
  case (Cons p ps)
  obtain data ri where p: "p = (data, ri)" by (cases p)
  have "udpSocket (fst (handleDiscoveryPacket e data ri s)) = udpSocket s
      \<and> deviceName (fst (handleDiscoveryPacket e data ri s)) = deviceName s"
    using handleDiscoveryPacket_cases [of e data ri s] by auto
  then show ?case using Cons.IH [of "fst (handleDiscoveryPacket e data ri s)"] p
    by (simp add: split_beta)
qed

lemma parse_ok:
  "isValidDiscoveryPacket data \<Longrightarrow> 3 \<le> length (splitOn CHR ''#'' (drop (length searchPrefix) data))
   \<Longrightarrow> parseDiscoveryPacket data \<noteq> None"
  by (simp add: parseDiscoveryPacket_def Let_def)

lemma handleDiscoveryPacket_ack:
  assumes "udpSocket s" "parseDiscoveryPacket data \<noteq> None"
  shows "sendsOf (snd (handleDiscoveryPacket e data ri s)) =
           [UdpSend (discoveryAck (deviceName s) (getLocalIP e)) PORT_SEARCH (r_address ri)]"
proof -
  have v: "isValidDiscoveryPacket data" using assms(2)
    by (auto simp: parseDiscoveryPacket_def split: if_splits)
  have r: "sendsOf (sendDiscoveryResponse e s (r_address ri)) =
      [UdpSend (discoveryAck (deviceName s) (getLocalIP e)) PORT_SEARCH (r_address ri)]"
    using assms(1) by (simp add: sendDiscoveryResponse_def sendsOf_def Let_def)
  show ?thesis using assms(2) v r
    by (auto simp: handleDiscoveryPacket_def Let_def sendsOf_def split: option.splits)
qed

lemma pixel_valid: "isValidDiscoveryPacket pixelPacket"
  by (simp add: isValidDiscoveryPacket_def startsWith_def searchPrefix_def pixelPacket_def
      CMD_SEARCH_PREFIX_def RANDOM_STR_SEARCH_def)

lemma pixel_fields: "splitOn CHR ''#'' (drop (length searchPrefix) pixelPacket) = [''1'', ''Pixel'', ''192.168.1.50'']"
  by (simp add: searchPrefix_def pixelPacket_def CMD_SEARCH_PREFIX_def RANDOM_STR_SEARCH_def)

text \<open>
  C3, as the code has it.  While the cache is not cleared (\<^verbatim>\<open>clearDiscoveredDevices\<close>, which
  the server calls every 30 seconds), the listener fires at most one discovery event for
  an (ip, name) pair, whatever datagrams it handles.  A datagram that starts with the
  prefix and the token and has at least three \<^verbatim>\<open>#\<close>-separated fields after them is
  answered with exactly one datagram, sent to the sender's address on port 20000:
  \<^verbatim>\<open>search_msg_received#RBIDoKFHLX9frYTh#6#<name>#<ip>\<close>, where the name is the host name, or
  \<^verbatim>\<open>AirController Server\<close> when the host name is empty, and the ip is the first IPv4
  address of the host that is not internal, or \<^verbatim>\<open>127.0.0.1\<close> when it has none.  Every other
  datagram, in particular one with the prefix and the token and fewer than three fields,
  is dropped: no event, no answer, and the cache stays as it is.
\<close>

theorem discovery_once_and_acknowledged:
  assumes "s = fst (handlePackets e earlier (start (udpDiscovery e)))"
  shows "length (discoveriesOf i n (snd (handlePackets e ps s))) \<le> 1
       \<and> (if isValidDiscoveryPacket data
              \<and> 3 \<le> length (splitOn CHR ''#'' (drop (length searchPrefix) data))
          then sendsOf (snd (handleDiscoveryPacket e data ri s)) =
                 [UdpSend (''search_msg_received#RBIDoKFHLX9frYTh#6#''
                             @ (if hostname e = [] then ''AirController Server'' else hostname e)
                             @ ''#''
                             @ (case scanInterfaces (networkInterfaces e) of
                                  Some a \<Rightarrow> a | None \<Rightarrow> ''127.0.0.1''))
                    20000 (r_address ri)]
          else handleDiscoveryPacket e data ri s = (s, []))"
proof -
  have six: "showNat 6 = ''6''" by (simp add: showNat.simps [of 6] digit_def)
  have f: "udpSocket s"
    "deviceName s = (if hostname e = [] then ''AirController Server'' else hostname e)"
    using assms handlePackets_fields [of e earlier "start (udpDiscovery e)"]
    by (simp_all add: start_def udpDiscovery_def newUDPDiscoveryServer_def)
  have once: "length (discoveriesOf i n (snd (handlePackets e ps s))) \<le> 1"
    using handlePackets_once [of i n e ps s] by (simp split: if_splits)
  have ack: "sendsOf (snd (handleDiscoveryPacket e data ri s)) =
           [UdpSend (discoveryAck (deviceName s) (getLocalIP e)) PORT_SEARCH (r_address ri)]"
    if "isValidDiscoveryPacket data"
      and "3 \<le> length (splitOn CHR ''#'' (drop (length searchPrefix) data))"
    by (rule handleDiscoveryPacket_ack [OF f(1) parse_ok [OF that]])
  have drop: "handleDiscoveryPacket e data ri s = (s, [])"
    if "\<not> (isValidDiscoveryPacket data
            \<and> 3 \<le> length (splitOn CHR ''#'' (drop (length searchPrefix) data)))"
    using that by (auto simp: handleDiscoveryPacket_def parseDiscoveryPacket_def Let_def)
  show ?thesis
  proof (cases "isValidDiscoveryPacket data
      \<and> 3 \<le> length (splitOn CHR ''#'' (drop (length searchPrefix) data))")
    case True
    have "sendsOf (snd (handleDiscoveryPacket e data ri s)) =
                 [UdpSend (''search_msg_received#RBIDoKFHLX9frYTh#6#''
                             @ (if hostname e = [] then ''AirController Server'' else hostname e)
                             @ ''#''
                             @ (case scanInterfaces (networkInterfaces e) of
                                  Some a \<Rightarrow> a | None \<Rightarrow> ''127.0.0.1''))
                    20000 (r_address ri)]"
      using ack [OF conjunct1 [OF True] conjunct2 [OF True]] f(2) six
      by (simp add: discoveryAck_def PORT_SEARCH_def getLocalIP_def)
    then show ?thesis using once by (simp only: True if_True simp_thms)
  next
    case False
    show ?thesis using once drop [OF False] by (simp only: False if_False simp_thms)
  qed
qed

theorem discovery_once_and_acknowledged_witness:
  "length (discoveriesOf ''192.168.1.50'' ''Pixel''
         (snd (handlePackets env0 [(pixelPacket, pixelRinfo), (pixelPacket, pixelRinfo)]
                 (start (udpDiscovery env0))))) \<le> 1
   \<and> isValidDiscoveryPacket pixelPacket
   \<and> sendsOf (snd (handleDiscoveryPacket env0 pixelPacket pixelRinfo (start (udpDiscovery env0)))) =
       [UdpSend ''search_msg_received#RBIDoKFHLX9frYTh#6#bridge#192.168.1.10'' 20000 ''192.168.1.50'']
   \<and> sendsOf (snd (handleDiscoveryPacket (env0\<lparr>hostname := []\<rparr>) pixelPacket pixelRinfo
                     (start (udpDiscovery (env0\<lparr>hostname := []\<rparr>))))) =
       [UdpSend ''search_msg_received#RBIDoKFHLX9frYTh#6#AirController Server#192.168.1.10'' 20000
          ''192.168.1.50'']
   \<and> isValidDiscoveryPacket shortPacket
   \<and> handleDiscoveryPacket env0 shortPacket pixelRinfo (start (udpDiscovery env0)) =
       (start (udpDiscovery env0), [])"
proof -
  have s: "start (udpDiscovery e) = fst (handlePackets e [] (start (udpDiscovery e)))" for e
    by simp
  have l: "3 \<le> length (splitOn CHR ''#'' (drop (length searchPrefix) pixelPacket))"
    by (simp add: pixel_fields)
  have v: "isValidDiscoveryPacket shortPacket"
    by (simp add: isValidDiscoveryPacket_def startsWith_def searchPrefix_def shortPacket_def
        CMD_SEARCH_PREFIX_def RANDOM_STR_SEARCH_def)
  have k: "\<not> 3 \<le> length (splitOn CHR ''#'' (drop (length searchPrefix) shortPacket))"
    by (simp add: searchPrefix_def shortPacket_def CMD_SEARCH_PREFIX_def RANDOM_STR_SEARCH_def)
  show ?thesis
    using discovery_once_and_acknowledged [OF s [of env0],
        of "''192.168.1.50''" "''Pixel''" "[(pixelPacket, pixelRinfo), (pixelPacket, pixelRinfo)]"
          pixelPacket pixelRinfo]
      discovery_once_and_acknowledged [OF s [of "env0\<lparr>hostname := []\<rparr>"],
        of "''192.168.1.50''" "''Pixel''" "[]" pixelPacket pixelRinfo]
      discovery_once_and_acknowledged [OF s [of env0],
        of "''192.168.1.50''" "''Pixel''" "[]" shortPacket pixelRinfo]
      pixel_valid l v k
    by (simp add: env0_def pixelRinfo_def)
qed

text \<open>
  C3 as stated fails: a datagram with the prefix and the token but only two fields is
  valid for \<^verbatim>\<open>isValidDiscoveryPacket\<close>, is not parsed, and gets no acknowledgment.
\<close>

theorem discovery_ack_counterexample:
  "isValidDiscoveryPacket shortPacket
   \<and> snd (handleDiscoveryPacket env0 shortPacket pixelRinfo (start (udpDiscovery env0))) = []"
  by (simp add: handleDiscoveryPacket_def parseDiscoveryPacket_def isValidDiscoveryPacket_def
      startsWith_def searchPrefix_def shortPacket_def CMD_SEARCH_PREFIX_def RANDOM_STR_SEARCH_def)

text \<open>After the cache has been cleared the same datagram fires the event again.\<close>

lemma discovery_again_after_clear:
  "length (discoveriesOf ''192.168.1.50'' ''Pixel''
     (let (s1, out1) = handleDiscoveryPacket env0 pixelPacket pixelRinfo (start (udpDiscovery env0));
          (s2, out2) = handleDiscoveryPacket env0 pixelPacket pixelRinfo (clearDiscoveredDevices s1)
      in out1 @ out2)) = 2"
  by (simp add: handleDiscoveryPacket_def parseDiscoveryPacket_def pixel_valid pixel_fields
      Let_def deviceKey_def clearDiscoveredDevices_def start_def udpDiscovery_def
      newUDPDiscoveryServer_def)

subsection \<open>The handlers in explicit form\<close>

lemmas prims = updConn_def updCmd_def updHb_def cmdOf_def hbOf_def wsSend_def setTimeout_def
  socketWrite_def newSocket_def socketDestroy_def socketRelease_def

lemma sentIn_append [simp]: "sentIn (xs @ ys) = sentIn xs @ sentIn ys"
  by (induction xs rule: sentIn.induct) simp_all

lemma writtenIn_append [simp]: "writtenIn (xs @ ys) = writtenIn xs @ writtenIn ys"
  by (induction xs rule: writtenIn.induct) simp_all

lemma emittedIn_append [simp]: "emittedIn (xs @ ys) = emittedIn xs @ emittedIn ys"
  by (induction xs rule: emittedIn.induct) simp_all

lemma timersIn_append [simp]: "timersIn (xs @ ys) = timersIn xs @ timersIn ys"
  by (induction xs rule: timersIn.induct) simp_all

lemma sentIn_broadcast [simp]: "sentIn (map (\<lambda>c. Sent c m) cs) = map (\<lambda>c. (c, m)) cs"
  by (induction cs) simp_all

lemma other_broadcast [simp]:
  "writtenIn (map (\<lambda>c. Sent c m) cs) = []"
  "emittedIn (map (\<lambda>c. Sent c m) cs) = []"
  "timersIn (map (\<lambda>c. Sent c m) cs) = []"
  by (induction cs) simp_all

lemma map_of_delete [simp]:
  "map_of (filter (\<lambda>(k', r). k' \<noteq> k) xs) k = None"
  by (induction xs) auto

lemma map_of_append_new [simp]:
  "map_of xs k = None \<Longrightarrow> map_of (xs @ [(k, v)]) k = Some v"
  by (induction xs) auto

lemma createConnection_run:
  "createConnection dev w =
     (nextRef w,
      w\<lparr>heap := (heap w)(nextRef w :=
            \<lparr>device = dev,
             commandClient = newCommandClient\<lparr>cmdDeviceIp := dev_ip dev, cmdSocket := Some (nextSocket w)\<rparr>,
             heartbeatClient = newHeartbeatClient, webSocketClients = [],
             connected = False, lastActivity = now w\<rparr>),
        nextRef := Suc (nextRef w),
        connections := connections w @ [(dev_ip dev, nextRef w)],
        nextSocket := Suc (nextSocket w),
        liveSockets := insert (nextSocket w) (liveSockets w),
        trace := trace w @ [TimerSet 10000 (CommandConnectTimeout (nextRef w))]\<rparr>)"
  by (simp add: createConnection_def cmdConnect_def prims Let_def newCommandClient_def split_beta)

lemma cmdOnConnect_run:
  "cmdSocket (cmdOf w r) = Some s \<Longrightarrow>
   cmdOnConnect r w =
     w\<lparr>heap := (heap w)(r := (heap w r)\<lparr>commandClient :=
             (commandClient (heap w r))\<lparr>cmdIsConnectedFlag := True, cmdConnectionResolved := True\<rparr>\<rparr>),
       trace := trace w @
          [Emitted r CommandChannel EvConnected,
           Written r CommandChannel
             (DesktopInfoFrame 2
                (if hostname (os w) = [] then ''AirController Server'' else hostname (os w))
                6 (getLocalIP (os w)) ''1.0.0'')]\<rparr>"
  by (simp add: cmdOnConnect_def emit_def reportDesktopInfo_def cmdSendCommand_def prims Let_def
      CMD_REPORT_DESKTOP_INFO_def)

lemma hbConnect_run:
  "hbSocket (hbOf w r) = None \<Longrightarrow>
   hbConnect r a w =
     w\<lparr>heap := (heap w)(r := (heap w r)\<lparr>heartbeatClient :=
             (heartbeatClient (heap w r))\<lparr>hbDeviceIp := a, hbLastHeartbeatValue := JsNumber (Finite (- 1)),
                hbLastHeartbeatTime := 0, hbWaitingForResponse := False,
                hbSocket := Some (nextSocket w), hbConnectionResolved := False\<rparr>\<rparr>),
       nextSocket := Suc (nextSocket w),
       liveSockets := insert (nextSocket w) (liveSockets w)\<rparr>"
  by (simp add: hbConnect_def prims Let_def split_beta)

lemma hbOnConnect_run:
  "hbSocket (hbOf w r) = Some s \<Longrightarrow> \<not> hbWaitingForResponse (hbOf w r) \<Longrightarrow>
   plusOne (hbLastHeartbeatValue (hbOf w r)) = Some v \<Longrightarrow>
   hbOnConnect r w =
     w\<lparr>heap := (heap w)(r := (heap w r)\<lparr>heartbeatClient :=
             (heartbeatClient (heap w r))\<lparr>hbIsConnectedFlag := True, hbConnectionResolved := True,
                hbWaitingForResponse := True, hbLastHeartbeatTime := now w,
                hbTimeoutTimer := True\<rparr>\<rparr>),
       trace := trace w @
          [Emitted r HeartbeatChannel EvConnected,
           Written r HeartbeatChannel (HeartbeatFrame (getLocalIP (os w)) v (now w)),
           TimerSet 5000 (HeartbeatTimeout r)]\<rparr>"
  by (simp add: hbOnConnect_def emit_def forwarding_def sendHeartbeat_def startTimeoutTimer_def
      stopTimeoutTimer_def prims Let_def)

lemma hbOnSocketTimeout_run:
  "\<not> hbIsConnectedFlag (hbOf w r) \<Longrightarrow> hbSocket (hbOf w r) = Some s \<Longrightarrow> s \<in> liveSockets w \<Longrightarrow>
   hbOnSocketTimeout r w =
     w\<lparr>liveSockets := liveSockets w - {s},
       pendingClose := pendingClose w @ [(r, HeartbeatChannel, s)]\<rparr>"
  by (simp add: hbOnSocketTimeout_def prims)

lemma cmdDisconnect_run:
  "cmdSocket (cmdOf w r) = Some s \<Longrightarrow>
   cmdDisconnect r w =
     w\<lparr>liveSockets := liveSockets w - {s},
       pendingClose := (if s \<in> liveSockets w then pendingClose w @ [(r, CommandChannel, s)]
                        else pendingClose w),
       heap := (heap w)(r := (heap w r)\<lparr>commandClient :=
          (commandClient (heap w r))\<lparr>cmdSocket := None, cmdIsConnectedFlag := False\<rparr>\<rparr>)\<rparr>"
  by (simp add: cmdDisconnect_def prims Let_def)

lemma hbDisconnect_run:
  "hbSocket (hbOf w r) = Some s \<Longrightarrow>
   hbDisconnect r w =
     w\<lparr>liveSockets := liveSockets w - {s},
       pendingClose := (if s \<in> liveSockets w then pendingClose w @ [(r, HeartbeatChannel, s)]
                        else pendingClose w),
       heap := (heap w)(r := (heap w r)\<lparr>heartbeatClient :=
          (heartbeatClient (heap w r))\<lparr>hbTimeoutTimer := False, hbSocket := None,
             hbIsConnectedFlag := False\<rparr>\<rparr>)\<rparr>"
  by (simp add: hbDisconnect_def stopHeartbeat_def stopTimeoutTimer_def prims Let_def)

lemma handleDeviceDisconnection_run:
  "handleDeviceDisconnection r w =
     (if \<not> cmdIsConnectedFlag (cmdOf w r) \<and> \<not> hbIsConnectedFlag (hbOf w r)
      then w\<lparr>heap := (heap w)(r := (heap w r)\<lparr>connected := False\<rparr>),
             trace := trace w @
               map (\<lambda>c. Sent c (DeviceDisconnected (device (heap w r))))
                 (filter (\<lambda>c. c \<in> wsOpen w) (webSocketClients (heap w r)))
               @ [TimerSet 5000 (GraceCleanup r)]\<rparr>
      else if \<not> cmdIsConnectedFlag (cmdOf w r)
      then w\<lparr>trace := trace w @ [TimerSet 2000 (ReconnectCommand r)]\<rparr>
      else if \<not> hbIsConnectedFlag (hbOf w r)
      then w\<lparr>trace := trace w @ [TimerSet 2000 (ReconnectHeartbeat r)]\<rparr>
      else w)"
  by (simp add: handleDeviceDisconnection_def broadcastToClients_def prims Let_def)

lemma connect_success:
  assumes "map_of (connections w) (dev_ip dev) = None"
  shows "connectToDevice dev c ConnectOk ConnectOk w =
    (w\<lparr>heap := (heap w)(nextRef w :=
          \<lparr>device = dev,
           commandClient = \<lparr>cmdSocket = Some (nextSocket w), cmdDeviceIp = dev_ip dev,
              cmdIsConnectedFlag = True, cmdConnectionResolved = True, cmdForwarding = True\<rparr>,
           heartbeatClient = \<lparr>hbSocket = Some (Suc (nextSocket w)), hbDeviceIp = dev_ip dev,
              hbIsConnectedFlag = True, hbTimeoutTimer = True, hbLastHeartbeatValue = JsNumber (Finite (- 1)),
              hbLastHeartbeatTime = now w, hbWaitingForResponse = True,
              hbConnectionResolved = True, hbForwarding = True\<rparr>,
           webSocketClients = [c], connected = True, lastActivity = now w\<rparr>),
        nextRef := Suc (nextRef w),
        connections := connections w @ [(dev_ip dev, nextRef w)],
        nextSocket := Suc (Suc (nextSocket w)),
        liveSockets := insert (Suc (nextSocket w)) (insert (nextSocket w) (liveSockets w)),
        wsHandlers := wsHandlers w @ [(c, nextRef w)],
        trace := trace w @
          [TimerSet 10000 (CommandConnectTimeout (nextRef w)),
           Emitted (nextRef w) CommandChannel EvConnected,
           Written (nextRef w) CommandChannel
             (DesktopInfoFrame 2
                (if hostname (os w) = [] then ''AirController Server'' else hostname (os w))
                6 (getLocalIP (os w)) ''1.0.0''),
           Emitted (nextRef w) HeartbeatChannel EvConnected,
           Written (nextRef w) HeartbeatChannel (HeartbeatFrame (getLocalIP (os w)) (JsNumber (Finite 0)) (now w)),
           TimerSet 5000 (HeartbeatTimeout (nextRef w)),
           TimerSet 1000 (FetchMobileInfo (nextRef w)),
           Sent c (ConnectionSuccess dev)]\<rparr>, None)"
proof -
  define r where "r = nextRef w"
  define w2 where "w2 = snd (createConnection dev w)"
  define w3 where "w3 = cmdOnConnect r w2"
  define w4 where "w4 = hbConnect r (dev_ip dev) w3"
  define w5 where "w5 = hbOnConnect r w4"
  have c: "createConnection dev w = (r, w2)"
    by (simp add: r_def w2_def createConnection_run)
  have e2: "w2 = w\<lparr>heap := (heap w)(r :=
            \<lparr>device = dev,
             commandClient = newCommandClient\<lparr>cmdDeviceIp := dev_ip dev, cmdSocket := Some (nextSocket w)\<rparr>,
             heartbeatClient = newHeartbeatClient, webSocketClients = [],
             connected = False, lastActivity = now w\<rparr>),
        nextRef := Suc r,
        connections := connections w @ [(dev_ip dev, r)],
        nextSocket := Suc (nextSocket w),
        liveSockets := insert (nextSocket w) (liveSockets w),
        trace := trace w @ [TimerSet 10000 (CommandConnectTimeout r)]\<rparr>"
    by (simp add: w2_def r_def createConnection_run)
  have s2: "cmdSocket (cmdOf w2 r) = Some (nextSocket w)"
    by (simp add: e2 cmdOf_def newCommandClient_def)
  have e3: "w3 = w\<lparr>heap := (heap w)(r :=
            \<lparr>device = dev,
             commandClient = newCommandClient\<lparr>cmdDeviceIp := dev_ip dev, cmdSocket := Some (nextSocket w),
                cmdIsConnectedFlag := True, cmdConnectionResolved := True\<rparr>,
             heartbeatClient = newHeartbeatClient, webSocketClients = [],
             connected = False, lastActivity = now w\<rparr>),
        nextRef := Suc r,
        connections := connections w @ [(dev_ip dev, r)],
        nextSocket := Suc (nextSocket w),
        liveSockets := insert (nextSocket w) (liveSockets w),
        trace := trace w @ [TimerSet 10000 (CommandConnectTimeout r),
           Emitted r CommandChannel EvConnected,
           Written r CommandChannel
             (DesktopInfoFrame 2
                (if hostname (os w) = [] then ''AirController Server'' else hostname (os w))
                6 (getLocalIP (os w)) ''1.0.0'')]\<rparr>"
    unfolding w3_def cmdOnConnect_run [OF s2] by (simp add: e2)
  have h3: "hbSocket (hbOf w3 r) = None" by (simp add: e3 hbOf_def newHeartbeatClient_def)
  have e4: "w4 = w\<lparr>heap := (heap w)(r :=
            \<lparr>device = dev,
             commandClient = newCommandClient\<lparr>cmdDeviceIp := dev_ip dev, cmdSocket := Some (nextSocket w),
                cmdIsConnectedFlag := True, cmdConnectionResolved := True\<rparr>,
             heartbeatClient = newHeartbeatClient\<lparr>hbDeviceIp := dev_ip dev,
                hbSocket := Some (Suc (nextSocket w))\<rparr>, webSocketClients = [],
             connected = False, lastActivity = now w\<rparr>),
        nextRef := Suc r,
        connections := connections w @ [(dev_ip dev, r)],
        nextSocket := Suc (Suc (nextSocket w)),
        liveSockets := insert (Suc (nextSocket w)) (insert (nextSocket w) (liveSockets w)),
        trace := trace w @ [TimerSet 10000 (CommandConnectTimeout r),
           Emitted r CommandChannel EvConnected,
           Written r CommandChannel
             (DesktopInfoFrame 2
                (if hostname (os w) = [] then ''AirController Server'' else hostname (os w))
                6 (getLocalIP (os w)) ''1.0.0'')]\<rparr>"
    unfolding w4_def hbConnect_run [OF h3] by (simp add: e3 newHeartbeatClient_def)
  have h4: "hbSocket (hbOf w4 r) = Some (Suc (nextSocket w))" "\<not> hbWaitingForResponse (hbOf w4 r)"
    "plusOne (hbLastHeartbeatValue (hbOf w4 r)) = Some (JsNumber (Finite 0))"
    by (simp_all add: e4 hbOf_def newHeartbeatClient_def roundDouble_def)
  have e5: "w5 = w\<lparr>heap := (heap w)(r :=
            \<lparr>device = dev,
             commandClient = newCommandClient\<lparr>cmdDeviceIp := dev_ip dev, cmdSocket := Some (nextSocket w),
                cmdIsConnectedFlag := True, cmdConnectionResolved := True\<rparr>,
             heartbeatClient = newHeartbeatClient\<lparr>hbDeviceIp := dev_ip dev,
                hbSocket := Some (Suc (nextSocket w)), hbIsConnectedFlag := True,
                hbConnectionResolved := True, hbWaitingForResponse := True,
                hbLastHeartbeatTime := now w, hbTimeoutTimer := True\<rparr>, webSocketClients = [],
             connected = False, lastActivity = now w\<rparr>),
        nextRef := Suc r,
        connections := connections w @ [(dev_ip dev, r)],
        nextSocket := Suc (Suc (nextSocket w)),
        liveSockets := insert (Suc (nextSocket w)) (insert (nextSocket w) (liveSockets w)),
        trace := trace w @ [TimerSet 10000 (CommandConnectTimeout r),
           Emitted r CommandChannel EvConnected,
           Written r CommandChannel
             (DesktopInfoFrame 2
                (if hostname (os w) = [] then ''AirController Server'' else hostname (os w))
                6 (getLocalIP (os w)) ''1.0.0''),
           Emitted r HeartbeatChannel EvConnected,
           Written r HeartbeatChannel (HeartbeatFrame (getLocalIP (os w)) (JsNumber (Finite 0)) (now w)),
           TimerSet 5000 (HeartbeatTimeout r)]\<rparr>"
    unfolding w5_def hbOnConnect_run [OF h4] by (simp add: e4 hbOf_def newHeartbeatClient_def)
  have fin: "connectToDevice dev c ConnectOk ConnectOk w =
     (attachClient c r (wsSend c (ConnectionSuccess dev) (setTimeout (FetchMobileInfo r) 1000
        (setupEventForwarding r (updConn r (\<lambda>k. k\<lparr>connected := True\<rparr>) w5)))), None)"
    using assms c by (simp add: connectToDevice_def w3_def w4_def w5_def Let_def)
  show ?thesis
    unfolding fin r_def [symmetric]
    by (simp add: e5 attachClient_def setupEventForwarding_def prims newCommandClient_def
        newHeartbeatClient_def Let_def)
qed

lemma hbOnTimeoutTimer_run:
  assumes "hbTimeoutTimer (hbOf w r)" "hbIsConnectedFlag (hbOf w r)" "hbSocket (hbOf w r) = Some s"
    "s \<in> liveSockets w" "hbForwarding (hbOf w r)" "cmdIsConnectedFlag (cmdOf w r)"
  shows "hbOnTimeoutTimer r w =
     w\<lparr>heap := (heap w)(r := (heap w r)\<lparr>heartbeatClient :=
             (heartbeatClient (heap w r))\<lparr>hbTimeoutTimer := False, hbSocket := None,
                hbIsConnectedFlag := False\<rparr>\<rparr>),
       liveSockets := liveSockets w - {s},
       pendingClose := pendingClose w @ [(r, HeartbeatChannel, s)],
       trace := trace w @
          [Emitted r HeartbeatChannel EvTimeout, Emitted r HeartbeatChannel EvDisconnected,
           TimerSet 2000 (ReconnectHeartbeat r)]\<rparr>"
proof -
  define w1 where "w1 = emit r HeartbeatChannel EvTimeout (updHb r (\<lambda>c. c\<lparr>hbTimeoutTimer := False\<rparr>) w)"
  have e1: "w1 = w\<lparr>heap := (heap w)(r := (heap w r)\<lparr>heartbeatClient :=
             (heartbeatClient (heap w r))\<lparr>hbTimeoutTimer := False\<rparr>\<rparr>),
             trace := trace w @ [Emitted r HeartbeatChannel EvTimeout]\<rparr>"
    using assms by (simp add: w1_def emit_def forwarding_def prims Let_def)
  have s1: "hbSocket (hbOf w1 r) = Some s" using assms(3) by (simp add: e1 hbOf_def)
  define w2 where "w2 = hbDisconnect r w1"
  have e2: "w2 = w\<lparr>heap := (heap w)(r := (heap w r)\<lparr>heartbeatClient :=
             (heartbeatClient (heap w r))\<lparr>hbTimeoutTimer := False, hbSocket := None,
                hbIsConnectedFlag := False\<rparr>\<rparr>),
             liveSockets := liveSockets w - {s},
             pendingClose := pendingClose w @ [(r, HeartbeatChannel, s)],
             trace := trace w @ [Emitted r HeartbeatChannel EvTimeout]\<rparr>"
    unfolding w2_def hbDisconnect_run [OF s1] using assms(4) by (simp add: e1)
  have h: "hbOnTimeoutTimer r w = emit r HeartbeatChannel EvDisconnected w2"
    using assms(1,2) by (simp add: hbOnTimeoutTimer_def Let_def w1_def [symmetric] w2_def e1 hbOf_def)
  show ?thesis
    unfolding h using assms(5,6)
    by (simp add: emit_def forwarding_def handleDeviceDisconnection_run e2 cmdOf_def hbOf_def Let_def)
qed

lemma deliverClose_heartbeat_run:
  assumes "(r, HeartbeatChannel, s) \<in> set (pendingClose w)" "hbForwarding (hbOf w r)"
    "cmdIsConnectedFlag (cmdOf w r)"
  shows "deliverClose r HeartbeatChannel s w =
     w\<lparr>heap := (heap w)(r := (heap w r)\<lparr>heartbeatClient :=
             (heartbeatClient (heap w r))\<lparr>hbIsConnectedFlag := False, hbTimeoutTimer := False\<rparr>\<rparr>),
       pendingClose := remove1 (r, HeartbeatChannel, s) (pendingClose w),
       trace := trace w @
          [Emitted r HeartbeatChannel EvDisconnected, TimerSet 2000 (ReconnectHeartbeat r)]\<rparr>"
proof -
  define w1 where "w1 = stopHeartbeat r (updHb r (\<lambda>c. c\<lparr>hbIsConnectedFlag := False\<rparr>)
      (w\<lparr>pendingClose := remove1 (r, HeartbeatChannel, s) (pendingClose w)\<rparr>))"
  have e1: "w1 = w\<lparr>heap := (heap w)(r := (heap w r)\<lparr>heartbeatClient :=
             (heartbeatClient (heap w r))\<lparr>hbIsConnectedFlag := False, hbTimeoutTimer := False\<rparr>\<rparr>),
       pendingClose := remove1 (r, HeartbeatChannel, s) (pendingClose w)\<rparr>"
    by (simp add: w1_def stopHeartbeat_def stopTimeoutTimer_def prims)
  have h: "deliverClose r HeartbeatChannel s w = emit r HeartbeatChannel EvDisconnected w1"
    using assms(1) by (simp add: deliverClose_def hbOnClose_def Let_def w1_def)
  show ?thesis
    unfolding h using assms(2,3)
    by (simp add: emit_def forwarding_def handleDeviceDisconnection_run e1 cmdOf_def hbOf_def Let_def)
qed

lemma fold_onWsClose:
  "fold (\<lambda>(c', r) w'. if c' = c then onWsClose c r w' else w') hs w =
     w\<lparr>heap := (\<lambda>r. if (c, r) \<in> set hs
                      then (heap w r)\<lparr>webSocketClients := removeAll c (webSocketClients (heap w r))\<rparr>
                      else heap w r)\<rparr>"
proof (induction hs arbitrary: w)
  case Nil
  then show ?case by simp
next
  case (Cons h hs)
  obtain c' r' where h: "h = (c', r')" by (cases h)
  show ?case
  proof (cases "c' = c")
    case True
    have "(\<lambda>r. if (c, r) \<in> set hs
            then (heap (onWsClose c r' w) r)\<lparr>webSocketClients :=
                   removeAll c (webSocketClients (heap (onWsClose c r' w) r))\<rparr>
            else heap (onWsClose c r' w) r)
        = (\<lambda>r. if (c, r) \<in> set ((c, r') # hs)
            then (heap w r)\<lparr>webSocketClients := removeAll c (webSocketClients (heap w r))\<rparr>
            else heap w r)"
      by (rule ext) (simp add: onWsClose_def updConn_def)
    then show ?thesis using True h Cons.IH [of "onWsClose c r' w"]
      by (simp add: onWsClose_def updConn_def)
  next
    case False
    then show ?thesis using h Cons.IH [of w] by simp
  qed
qed

lemma wsClosed_run:
  "wsClosed c w =
     w\<lparr>wsOpen := wsOpen w - {c},
       heap := (\<lambda>r. if (c, r) \<in> set (wsHandlers w)
                      then (heap w r)\<lparr>webSocketClients := removeAll c (webSocketClients (heap w r))\<rparr>
                      else heap w r)\<rparr>"
  by (simp add: wsClosed_def fold_onWsClose cong: if_cong)

lemma linked_eq:
  "linked =
     \<lparr>os = env0, now = 1000, connections = [(''192.168.1.50'', 0)],
      heap = (\<lambda>r. blankConnection)(0 :=
          \<lparr>device = pixel,
           commandClient = \<lparr>cmdSocket = Some 0, cmdDeviceIp = ''192.168.1.50'',
              cmdIsConnectedFlag = True, cmdConnectionResolved = True, cmdForwarding = True\<rparr>,
           heartbeatClient = \<lparr>hbSocket = Some 1, hbDeviceIp = ''192.168.1.50'',
              hbIsConnectedFlag = True, hbTimeoutTimer = True, hbLastHeartbeatValue = JsNumber (Finite (- 1)),
              hbLastHeartbeatTime = 1000, hbWaitingForResponse = True,
              hbConnectionResolved = True, hbForwarding = True\<rparr>,
           webSocketClients = [1], connected = True, lastActivity = 1000\<rparr>),
      nextRef = 1, wsOpen = {1, 2}, wsHandlers = [(1, 0)],
      trace = [TimerSet 10000 (CommandConnectTimeout 0),
           Emitted 0 CommandChannel EvConnected,
           Written 0 CommandChannel (DesktopInfoFrame 2 ''bridge'' 6 ''192.168.1.10'' ''1.0.0''),
           Emitted 0 HeartbeatChannel EvConnected,
           Written 0 HeartbeatChannel (HeartbeatFrame ''192.168.1.10'' (JsNumber (Finite 0)) 1000),
           TimerSet 5000 (HeartbeatTimeout 0),
           TimerSet 1000 (FetchMobileInfo 0),
           Sent 1 (ConnectionSuccess pixel)],
      nextSocket = 2, liveSockets = {1, 0}, pendingClose = []\<rparr>"
proof -
  have a: "map_of (connections world0) (dev_ip pixel) = None"
    by (simp add: world0_def)
  have ip: "getLocalIP env0 = ''192.168.1.10''" by (simp add: getLocalIP_def env0_def)
  have hn: "hostname env0 = ''bridge''" by (simp add: env0_def)
  show ?thesis
    unfolding linked_def connect_success [OF a]
    by (simp add: world0_def ip hn pixel_def)
qed

lemma inFlight_eq:
  "cmdSocket (cmdOf inFlight 0) = Some 0" "trace inFlight = [TimerSet 10000 (CommandConnectTimeout 0)]"
  "os inFlight = env0"
  by (simp_all add: inFlight_def createConnection_run world0_def cmdOf_def newCommandClient_def)

lemma handshake_env0:
  "handshake 0 env0 = Written 0 CommandChannel (DesktopInfoFrame 2 ''bridge'' 6 ''192.168.1.10'' ''1.0.0'')"
  by (simp add: handshake_def env0_def getLocalIP_def CMD_REPORT_DESKTOP_INFO_def)

lemma down_facts:
  "cmdIsConnectedFlag (cmdOf heartbeatDown 0)" "\<not> hbIsConnectedFlag (hbOf heartbeatDown 0)"
  "\<not> cmdIsConnectedFlag (cmdOf bothDown 0)" "\<not> hbIsConnectedFlag (hbOf bothDown 0)"
  "webSocketClients (heap bothDown 0) = [1]" "wsOpen bothDown = {1, 2}"
  "device (heap bothDown 0) = pixel" "connections heartbeatDown = [(''192.168.1.50'', 0)]"
  "disconnectBroadcasts heartbeatDown = []" "disconnectBroadcasts bothDown = []"
  by (simp_all add: heartbeatDown_def bothDown_def linked_eq prims disconnectBroadcasts_def wsOut_def)


subsection \<open>Rolling back a failed connect\<close>

text \<open>
  C1, as the code behaves.  The device has no record, the command client connects and the
  connect of the heartbeat client times out.  After the router's \<^verbatim>\<open>connect:device\<close> case
  the table has no record for the device, both clients are disconnected with no socket,
  no socket opened by the attempt is live, and the requesting browser socket has been
  sent two messages of type \<^verbatim>\<open>connection:error\<close>: one by the \<^verbatim>\<open>catch\<close> block of
  \<^verbatim>\<open>connectToDevice\<close> and one by the \<^verbatim>\<open>catch\<close> block of the router, which catches the
  error that \<^verbatim>\<open>connectToDevice\<close> throws again.
\<close>

theorem connect_rollback_sends_error_twice:
  assumes "map_of (connections w) (dev_ip dev) = None"
  shows "(let w' = routerConnectDevice dev c ConnectOk ConnectTimeout w; r = nextRef w
          in map_of (connections w') (dev_ip dev) = None
           \<and> \<not> cmdIsConnectedFlag (cmdOf w' r) \<and> cmdSocket (cmdOf w' r) = None
           \<and> \<not> hbIsConnectedFlag (hbOf w' r) \<and> hbSocket (hbOf w' r) = None
           \<and> liveSockets w' \<subseteq> liveSockets w
           \<and> wsOut w' = wsOut w @
                 [(c, ConnectionError ''Failed to connect to device'' (Some dev)),
                  (c, ConnectionError ''Connection timeout'' None)])"
proof -
  define r where "r = nextRef w"
  define w2 where "w2 = snd (createConnection dev w)"
  define w3 where "w3 = cmdOnConnect r w2"
  define w4 where "w4 = hbConnect r (dev_ip dev) w3"
  define w5 where "w5 = hbOnSocketTimeout r w4"
  define w6 where "w6 = cmdDisconnect r w5"
  define w7 where "w7 = hbDisconnect r w6"
  have c: "createConnection dev w = (r, w2)"
    by (simp add: r_def w2_def createConnection_run)
  have o2: "heap w2 r = \<lparr>device = dev,
             commandClient = newCommandClient\<lparr>cmdDeviceIp := dev_ip dev, cmdSocket := Some (nextSocket w)\<rparr>,
             heartbeatClient = newHeartbeatClient, webSocketClients = [],
             connected = False, lastActivity = now w\<rparr>"
    "liveSockets w2 = insert (nextSocket w) (liveSockets w)" "nextSocket w2 = Suc (nextSocket w)"
    "wsOut w2 = wsOut w"
    by (simp_all add: w2_def r_def createConnection_run wsOut_def)
  have s2: "cmdSocket (cmdOf w2 r) = Some (nextSocket w)" by (simp add: o2 cmdOf_def newCommandClient_def)
  have o3: "cmdOf w3 r = newCommandClient\<lparr>cmdDeviceIp := dev_ip dev, cmdSocket := Some (nextSocket w),
                cmdIsConnectedFlag := True, cmdConnectionResolved := True\<rparr>"
    "hbOf w3 r = newHeartbeatClient"
    "liveSockets w3 = insert (nextSocket w) (liveSockets w)" "nextSocket w3 = Suc (nextSocket w)"
    "wsOut w3 = wsOut w"
    using o2(4) by (simp_all add: w3_def cmdOnConnect_run [OF s2] o2(1-3) cmdOf_def hbOf_def wsOut_def)
  note o3u = o3 [unfolded cmdOf_def hbOf_def]
  have h3: "hbSocket (hbOf w3 r) = None" by (simp add: o3 newHeartbeatClient_def)
  have o4: "cmdOf w4 r = cmdOf w3 r"
    "hbSocket (hbOf w4 r) = Some (Suc (nextSocket w))" "\<not> hbIsConnectedFlag (hbOf w4 r)"
    "liveSockets w4 = insert (Suc (nextSocket w)) (insert (nextSocket w) (liveSockets w))"
    "wsOut w4 = wsOut w"
    using o3(5) by (simp_all add: w4_def hbConnect_run [OF h3] o3u(1-4) cmdOf_def hbOf_def newHeartbeatClient_def wsOut_def)
  note o4u = o4 [unfolded cmdOf_def hbOf_def]
  have l4: "Suc (nextSocket w) \<in> liveSockets w4" by (simp add: o4)
  have o5: "cmdOf w5 r = cmdOf w3 r"
    "hbSocket (hbOf w5 r) = Some (Suc (nextSocket w))"
    "liveSockets w5 = insert (nextSocket w) (liveSockets w) - {Suc (nextSocket w)}"
    "wsOut w5 = wsOut w"
    using o4(5) by (simp_all add: w5_def hbOnSocketTimeout_run [OF o4(3) o4(2) l4] o4u(1-4) cmdOf_def hbOf_def wsOut_def)
  note o5u = o5 [unfolded cmdOf_def hbOf_def]
  have s5: "cmdSocket (cmdOf w5 r) = Some (nextSocket w)" by (simp add: o5 o3)
  have o6: "\<not> cmdIsConnectedFlag (cmdOf w6 r)" "cmdSocket (cmdOf w6 r) = None"
    "hbSocket (hbOf w6 r) = Some (Suc (nextSocket w))"
    "liveSockets w6 = insert (nextSocket w) (liveSockets w) - {Suc (nextSocket w)} - {nextSocket w}"
    "wsOut w6 = wsOut w"
    using o5(2,4) by (simp_all add: w6_def cmdDisconnect_run [OF s5] o5u(1-3) cmdOf_def hbOf_def wsOut_def)
  note o6u = o6 [unfolded cmdOf_def hbOf_def]
  have o7: "\<not> cmdIsConnectedFlag (cmdOf w7 r)" "cmdSocket (cmdOf w7 r) = None"
    "\<not> hbIsConnectedFlag (hbOf w7 r)" "hbSocket (hbOf w7 r) = None"
    "liveSockets w7 \<subseteq> liveSockets w"
    "wsOut w7 = wsOut w"
    using o6(1,2,5) by (auto simp add: w7_def hbDisconnect_run [OF o6(3)] o6u(1-4) cmdOf_def hbOf_def wsOut_def)
  have fin: "routerConnectDevice dev c ConnectOk ConnectTimeout w =
     wsSend c (ConnectionError ''Connection timeout'' None)
       (wsSend c (ConnectionError ''Failed to connect to device'' (Some dev))
          (connectionsDelete (dev_ip dev) w7))"
    using assms c
    by (simp add: routerConnectDevice_def connectToDevice_def connectFailed_def
        w3_def w4_def w5_def w6_def w7_def)
  show ?thesis
    unfolding Let_def fin r_def [symmetric]
    using o7 by (simp add: wsSend_def connectionsDelete_def cmdOf_def hbOf_def wsOut_def)
qed

theorem connect_rollback_sends_error_twice_witness:
  "map_of (connections world0) (dev_ip pixel) = None
   \<and> map_of (connections (routerConnectDevice pixel 1 ConnectOk ConnectTimeout world0))
        (dev_ip pixel) = None
   \<and> wsOut (routerConnectDevice pixel 1 ConnectOk ConnectTimeout world0) =
       [(1, ConnectionError ''Failed to connect to device'' (Some pixel)),
        (1, ConnectionError ''Connection timeout'' None)]"
proof -
  have h: "map_of (connections world0) (dev_ip pixel) = None"
    by (simp add: world0_def)
  have e: "wsOut world0 = []" by (simp add: wsOut_def world0_def)
  show ?thesis using connect_rollback_sends_error_twice [OF h, of 1] h e by (simp add: Let_def)
qed

subsection \<open>Closing a connection\<close>

lemma hbConnect_again_run:
  "hbSocket (hbOf w r) = Some old \<Longrightarrow>
   hbConnect r a w =
     w\<lparr>heap := (heap w)(r := (heap w r)\<lparr>heartbeatClient :=
             (heartbeatClient (heap w r))\<lparr>hbDeviceIp := a, hbLastHeartbeatValue := JsNumber (Finite (- 1)),
                hbLastHeartbeatTime := 0, hbWaitingForResponse := False, hbTimeoutTimer := False,
                hbSocket := Some (nextSocket w), hbConnectionResolved := False\<rparr>\<rparr>),
       nextSocket := Suc (nextSocket w),
       liveSockets := insert (nextSocket w) (liveSockets w - {old}),
       pendingClose := filter (\<lambda>(r, ch, s'). s' \<noteq> old) (pendingClose w)\<rparr>"
  by (simp add: hbConnect_def stopHeartbeat_def stopTimeoutTimer_def prims Let_def split_beta)

lemma cmdPeerClose_run:
  assumes "cmdSocket (cmdOf w r) = Some s" "s \<in> liveSockets w" "cmdForwarding (cmdOf w r)"
    "\<not> hbIsConnectedFlag (hbOf w r)"
  shows "cmdPeerClose r w =
     w\<lparr>liveSockets := liveSockets w - {s},
       heap := (heap w)(r := (heap w r)\<lparr>commandClient :=
             (commandClient (heap w r))\<lparr>cmdIsConnectedFlag := False\<rparr>, connected := False\<rparr>),
       trace := trace w @ Emitted r CommandChannel EvDisconnected #
          map (\<lambda>c. Sent c (DeviceDisconnected (device (heap w r))))
            (filter (\<lambda>c. c \<in> wsOpen w) (webSocketClients (heap w r)))
          @ [TimerSet 5000 (GraceCleanup r)]\<rparr>"
proof -
  define w1 where "w1 = updCmd r (\<lambda>c. c\<lparr>cmdIsConnectedFlag := False\<rparr>) (w\<lparr>liveSockets := liveSockets w - {s}\<rparr>)"
  have e1: "w1 = w\<lparr>liveSockets := liveSockets w - {s},
       heap := (heap w)(r := (heap w r)\<lparr>commandClient :=
             (commandClient (heap w r))\<lparr>cmdIsConnectedFlag := False\<rparr>\<rparr>)\<rparr>"
    by (simp add: w1_def prims)
  have h: "cmdPeerClose r w = emit r CommandChannel EvDisconnected w1"
    using assms(1,2) by (simp add: cmdPeerClose_def cmdOnClose_def w1_def)
  show ?thesis
    unfolding h using assms(3,4)
    by (simp add: emit_def forwarding_def handleDeviceDisconnection_run e1 cmdOf_def hbOf_def Let_def)
qed

lemma closeConnection_run:
  assumes "map_of (connections w) a = Some r" "cmdSocket (cmdOf w r) = Some s1"
    "hbSocket (hbOf w r) = Some s2" "s1 \<noteq> s2"
  shows "closeConnection a w =
     w\<lparr>liveSockets := liveSockets w - {s1} - {s2},
       pendingClose := pendingClose w
          @ (if s1 \<in> liveSockets w then [(r, CommandChannel, s1)] else [])
          @ (if s2 \<in> liveSockets w then [(r, HeartbeatChannel, s2)] else []),
       heap := (heap w)(r := (heap w r)\<lparr>
          commandClient := (commandClient (heap w r))\<lparr>cmdSocket := None, cmdIsConnectedFlag := False\<rparr>,
          heartbeatClient := (heartbeatClient (heap w r))\<lparr>hbTimeoutTimer := False, hbSocket := None,
             hbIsConnectedFlag := False\<rparr>\<rparr>),
       trace := trace w @ map (\<lambda>c. Sent c (ConnectionClosed (device (heap w r))))
                 (filter (\<lambda>c. c \<in> wsOpen w) (webSocketClients (heap w r))),
       connections := filter (\<lambda>(k, r'). k \<noteq> a) (connections w)\<rparr>"
proof -
  define w1 where "w1 = cmdDisconnect r w"
  note e1 = cmdDisconnect_run [OF assms(2), folded w1_def]
  have s: "hbSocket (hbOf w1 r) = Some s2" using assms(3) by (simp add: e1 hbOf_def)
  define w2 where "w2 = hbDisconnect r w1"
  note e2 = hbDisconnect_run [OF s, folded w2_def]
  have "closeConnection a w = connectionsDelete a (broadcastToClients (webSocketClients (heap w2 r))
                      (ConnectionClosed (device (heap w2 r))) w2)"
    using assms(1) by (simp add: closeConnection_def Let_def w1_def w2_def)
  then show ?thesis using assms(4)
    by (simp add: connectionsDelete_def broadcastToClients_def e2 e1)
qed

lemma deliverClose_down_run:
  assumes "(r, HeartbeatChannel, s) \<in> set (pendingClose w)" "hbForwarding (hbOf w r)"
    "\<not> cmdIsConnectedFlag (cmdOf w r)"
  shows "deliverClose r HeartbeatChannel s w =
     w\<lparr>heap := (heap w)(r := (heap w r)\<lparr>heartbeatClient :=
             (heartbeatClient (heap w r))\<lparr>hbIsConnectedFlag := False, hbTimeoutTimer := False\<rparr>,
             connected := False\<rparr>),
       pendingClose := remove1 (r, HeartbeatChannel, s) (pendingClose w),
       trace := trace w @ Emitted r HeartbeatChannel EvDisconnected #
          map (\<lambda>c. Sent c (DeviceDisconnected (device (heap w r))))
            (filter (\<lambda>c. c \<in> wsOpen w) (webSocketClients (heap w r)))
          @ [TimerSet 5000 (GraceCleanup r)]\<rparr>"
proof -
  define w1 where "w1 = stopHeartbeat r (updHb r (\<lambda>c. c\<lparr>hbIsConnectedFlag := False\<rparr>)
      (w\<lparr>pendingClose := remove1 (r, HeartbeatChannel, s) (pendingClose w)\<rparr>))"
  have e1: "w1 = w\<lparr>heap := (heap w)(r := (heap w r)\<lparr>heartbeatClient :=
             (heartbeatClient (heap w r))\<lparr>hbIsConnectedFlag := False, hbTimeoutTimer := False\<rparr>\<rparr>),
       pendingClose := remove1 (r, HeartbeatChannel, s) (pendingClose w)\<rparr>"
    by (simp add: w1_def stopHeartbeat_def stopTimeoutTimer_def prims)
  have h: "deliverClose r HeartbeatChannel s w = emit r HeartbeatChannel EvDisconnected w1"
    using assms(1) by (simp add: deliverClose_def hbOnClose_def Let_def w1_def)
  show ?thesis
    unfolding h using assms(2,3)
    by (simp add: emit_def forwarding_def handleDeviceDisconnection_run e1 cmdOf_def hbOf_def Let_def)
qed

lemma linked_parts:
  "heap linked 0 =
          \<lparr>device = pixel,
           commandClient = \<lparr>cmdSocket = Some 0, cmdDeviceIp = ''192.168.1.50'',
              cmdIsConnectedFlag = True, cmdConnectionResolved = True, cmdForwarding = True\<rparr>,
           heartbeatClient = \<lparr>hbSocket = Some 1, hbDeviceIp = ''192.168.1.50'',
              hbIsConnectedFlag = True, hbTimeoutTimer = True, hbLastHeartbeatValue = JsNumber (Finite (- 1)),
              hbLastHeartbeatTime = 1000, hbWaitingForResponse = True,
              hbConnectionResolved = True, hbForwarding = True\<rparr>,
           webSocketClients = [1], connected = True, lastActivity = 1000\<rparr>"
    "connections linked = [(''192.168.1.50'', 0)]" "nextRef linked = 1" "nextSocket linked = 2"
    "liveSockets linked = {1, 0}" "pendingClose linked = []" "wsOpen linked = {1, 2}"
  by (simp_all add: linked_eq)

lemma cleaned_parts:
  "heap cleaned 0 =
          \<lparr>device = pixel,
           commandClient = \<lparr>cmdSocket = None, cmdDeviceIp = ''192.168.1.50'',
              cmdIsConnectedFlag = False, cmdConnectionResolved = True, cmdForwarding = True\<rparr>,
           heartbeatClient = \<lparr>hbSocket = None, hbDeviceIp = ''192.168.1.50'',
              hbIsConnectedFlag = False, hbTimeoutTimer = False, hbLastHeartbeatValue = JsNumber (Finite (- 1)),
              hbLastHeartbeatTime = 0, hbWaitingForResponse = False,
              hbConnectionResolved = False, hbForwarding = True\<rparr>,
           webSocketClients = [1], connected = False, lastActivity = 1000\<rparr>"
    "connections cleaned = []" "nextRef cleaned = 1" "nextSocket cleaned = 4"
    "liveSockets cleaned = {}" "pendingClose cleaned = []" "wsOpen cleaned = {1, 2}"
proof -
  note f0 = linked_parts
  have h0: "hbTimeoutTimer (hbOf linked 0)" "hbIsConnectedFlag (hbOf linked 0)"
    "hbSocket (hbOf linked 0) = Some 1" "1 \<in> liveSockets linked"
    "hbForwarding (hbOf linked 0)" "cmdIsConnectedFlag (cmdOf linked 0)"
    by (simp_all add: f0 cmdOf_def hbOf_def)
  define w1 where "w1 = hbOnTimeoutTimer 0 linked"
  note e1 = hbOnTimeoutTimer_run [OF h0, folded w1_def]
  have f1:
    "heap w1 0 =
          \<lparr>device = pixel,
           commandClient = \<lparr>cmdSocket = Some 0, cmdDeviceIp = ''192.168.1.50'',
              cmdIsConnectedFlag = True, cmdConnectionResolved = True, cmdForwarding = True\<rparr>,
           heartbeatClient = \<lparr>hbSocket = None, hbDeviceIp = ''192.168.1.50'',
              hbIsConnectedFlag = False, hbTimeoutTimer = False, hbLastHeartbeatValue = JsNumber (Finite (- 1)),
              hbLastHeartbeatTime = 1000, hbWaitingForResponse = True,
              hbConnectionResolved = True, hbForwarding = True\<rparr>,
           webSocketClients = [1], connected = True, lastActivity = 1000\<rparr>"
    "connections w1 = [(''192.168.1.50'', 0)]" "nextRef w1 = 1" "nextSocket w1 = 2"
    "liveSockets w1 = {0}" "pendingClose w1 = [(0, HeartbeatChannel, 1)]" "wsOpen w1 = {1, 2}"
    by (simp_all add: e1 f0)
  have h1: "(0, HeartbeatChannel, 1) \<in> set (pendingClose w1)" "hbForwarding (hbOf w1 0)"
    "cmdIsConnectedFlag (cmdOf w1 0)"
    by (simp_all add: f1 cmdOf_def hbOf_def)
  define w2 where "w2 = deliverClose 0 HeartbeatChannel 1 w1"
  note e2 = deliverClose_heartbeat_run [OF h1, folded w2_def]
  have f2:
    "heap w2 0 =
          \<lparr>device = pixel,
           commandClient = \<lparr>cmdSocket = Some 0, cmdDeviceIp = ''192.168.1.50'',
              cmdIsConnectedFlag = True, cmdConnectionResolved = True, cmdForwarding = True\<rparr>,
           heartbeatClient = \<lparr>hbSocket = None, hbDeviceIp = ''192.168.1.50'',
              hbIsConnectedFlag = False, hbTimeoutTimer = False, hbLastHeartbeatValue = JsNumber (Finite (- 1)),
              hbLastHeartbeatTime = 1000, hbWaitingForResponse = True,
              hbConnectionResolved = True, hbForwarding = True\<rparr>,
           webSocketClients = [1], connected = True, lastActivity = 1000\<rparr>"
    "connections w2 = [(''192.168.1.50'', 0)]" "nextRef w2 = 1" "nextSocket w2 = 2"
    "liveSockets w2 = {0}" "pendingClose w2 = []" "wsOpen w2 = {1, 2}"
    by (simp_all add: e2 f1)
  have h2: "hbSocket (hbOf w2 0) = None" by (simp add: f2 hbOf_def)
  define w3 where "w3 = onReconnectHeartbeat 0 w2"
  have r3: "w3 = hbConnect 0 ''192.168.1.50'' w2"
    by (simp add: w3_def onReconnectHeartbeat_def f2 cmdOf_def hbOf_def pixel_def)
  note e3 = hbConnect_run [OF h2, of "''192.168.1.50''", folded r3]
  have f3:
    "heap w3 0 =
          \<lparr>device = pixel,
           commandClient = \<lparr>cmdSocket = Some 0, cmdDeviceIp = ''192.168.1.50'',
              cmdIsConnectedFlag = True, cmdConnectionResolved = True, cmdForwarding = True\<rparr>,
           heartbeatClient = \<lparr>hbSocket = Some 2, hbDeviceIp = ''192.168.1.50'',
              hbIsConnectedFlag = False, hbTimeoutTimer = False, hbLastHeartbeatValue = JsNumber (Finite (- 1)),
              hbLastHeartbeatTime = 0, hbWaitingForResponse = False,
              hbConnectionResolved = False, hbForwarding = True\<rparr>,
           webSocketClients = [1], connected = True, lastActivity = 1000\<rparr>"
    "connections w3 = [(''192.168.1.50'', 0)]" "nextRef w3 = 1" "nextSocket w3 = 3"
    "liveSockets w3 = {2, 0}" "pendingClose w3 = []" "wsOpen w3 = {1, 2}"
    by (simp_all add: e3 f2)
  have h3: "hbSocket (hbOf w3 0) = Some 2" by (simp add: f3 hbOf_def)
  define w4 where "w4 = onReconnectHeartbeat 0 w3"
  have r4: "w4 = hbConnect 0 ''192.168.1.50'' w3"
    by (simp add: w4_def onReconnectHeartbeat_def f3 cmdOf_def hbOf_def pixel_def)
  note e4 = hbConnect_again_run [OF h3, of "''192.168.1.50''", folded r4]
  have f4:
    "heap w4 0 =
          \<lparr>device = pixel,
           commandClient = \<lparr>cmdSocket = Some 0, cmdDeviceIp = ''192.168.1.50'',
              cmdIsConnectedFlag = True, cmdConnectionResolved = True, cmdForwarding = True\<rparr>,
           heartbeatClient = \<lparr>hbSocket = Some 3, hbDeviceIp = ''192.168.1.50'',
              hbIsConnectedFlag = False, hbTimeoutTimer = False, hbLastHeartbeatValue = JsNumber (Finite (- 1)),
              hbLastHeartbeatTime = 0, hbWaitingForResponse = False,
              hbConnectionResolved = False, hbForwarding = True\<rparr>,
           webSocketClients = [1], connected = True, lastActivity = 1000\<rparr>"
    "connections w4 = [(''192.168.1.50'', 0)]" "nextRef w4 = 1" "nextSocket w4 = 4"
    "liveSockets w4 = {3, 0}" "pendingClose w4 = []" "wsOpen w4 = {1, 2}"
    by (simp_all add: e4 f3)
  have u: "unanswered = w4"
    by (simp add: unanswered_def w4_def w3_def w2_def w1_def)
  have h4: "cmdSocket (cmdOf w4 0) = Some 0" "0 \<in> liveSockets w4" "cmdForwarding (cmdOf w4 0)"
    "\<not> hbIsConnectedFlag (hbOf w4 0)"
    by (simp_all add: f4 cmdOf_def hbOf_def)
  define w5 where "w5 = cmdPeerClose 0 w4"
  note e5 = cmdPeerClose_run [OF h4, folded w5_def]
  have f5:
    "heap w5 0 =
          \<lparr>device = pixel,
           commandClient = \<lparr>cmdSocket = Some 0, cmdDeviceIp = ''192.168.1.50'',
              cmdIsConnectedFlag = False, cmdConnectionResolved = True, cmdForwarding = True\<rparr>,
           heartbeatClient = \<lparr>hbSocket = Some 3, hbDeviceIp = ''192.168.1.50'',
              hbIsConnectedFlag = False, hbTimeoutTimer = False, hbLastHeartbeatValue = JsNumber (Finite (- 1)),
              hbLastHeartbeatTime = 0, hbWaitingForResponse = False,
              hbConnectionResolved = False, hbForwarding = True\<rparr>,
           webSocketClients = [1], connected = False, lastActivity = 1000\<rparr>"
    "connections w5 = [(''192.168.1.50'', 0)]" "nextRef w5 = 1" "nextSocket w5 = 4"
    "liveSockets w5 = {3}" "pendingClose w5 = []" "wsOpen w5 = {1, 2}"
    by (simp_all add: e5 f4) auto
  have h5: "map_of (connections w5) ''192.168.1.50'' = Some 0" "cmdSocket (cmdOf w5 0) = Some 0"
    "hbSocket (hbOf w5 0) = Some 3" "(0::nat) \<noteq> 3"
    by (simp_all add: f5 cmdOf_def hbOf_def)
  define w6 where "w6 = onGraceCleanup 0 w5"
  have r6: "w6 = closeConnection ''192.168.1.50'' w5"
    by (simp add: w6_def onGraceCleanup_def f5 cmdOf_def hbOf_def pixel_def)
  note e6 = closeConnection_run [OF h5, folded r6]
  have f6:
    "heap w6 0 =
          \<lparr>device = pixel,
           commandClient = \<lparr>cmdSocket = None, cmdDeviceIp = ''192.168.1.50'',
              cmdIsConnectedFlag = False, cmdConnectionResolved = True, cmdForwarding = True\<rparr>,
           heartbeatClient = \<lparr>hbSocket = None, hbDeviceIp = ''192.168.1.50'',
              hbIsConnectedFlag = False, hbTimeoutTimer = False, hbLastHeartbeatValue = JsNumber (Finite (- 1)),
              hbLastHeartbeatTime = 0, hbWaitingForResponse = False,
              hbConnectionResolved = False, hbForwarding = True\<rparr>,
           webSocketClients = [1], connected = False, lastActivity = 1000\<rparr>"
    "connections w6 = []" "nextRef w6 = 1" "nextSocket w6 = 4"
    "liveSockets w6 = {}" "pendingClose w6 = [(0, HeartbeatChannel, 3)]" "wsOpen w6 = {1, 2}"
    by (simp_all add: e6 f5)
  have h6: "(0, HeartbeatChannel, 3) \<in> set (pendingClose w6)" "hbForwarding (hbOf w6 0)"
    "\<not> cmdIsConnectedFlag (cmdOf w6 0)"
    by (simp_all add: f6 cmdOf_def hbOf_def)
  define w7 where "w7 = deliverClose 0 HeartbeatChannel 3 w6"
  note e7 = deliverClose_down_run [OF h6, folded w7_def]
  have f7:
    "heap w7 0 =
          \<lparr>device = pixel,
           commandClient = \<lparr>cmdSocket = None, cmdDeviceIp = ''192.168.1.50'',
              cmdIsConnectedFlag = False, cmdConnectionResolved = True, cmdForwarding = True\<rparr>,
           heartbeatClient = \<lparr>hbSocket = None, hbDeviceIp = ''192.168.1.50'',
              hbIsConnectedFlag = False, hbTimeoutTimer = False, hbLastHeartbeatValue = JsNumber (Finite (- 1)),
              hbLastHeartbeatTime = 0, hbWaitingForResponse = False,
              hbConnectionResolved = False, hbForwarding = True\<rparr>,
           webSocketClients = [1], connected = False, lastActivity = 1000\<rparr>"
    "connections w7 = []" "nextRef w7 = 1" "nextSocket w7 = 4"
    "liveSockets w7 = {}" "pendingClose w7 = []" "wsOpen w7 = {1, 2}"
    by (simp_all add: e7 f6)
  have c: "cleaned = w7"
    by (simp add: cleaned_def u w7_def w6_def w5_def)
  show "heap cleaned 0 =
          \<lparr>device = pixel,
           commandClient = \<lparr>cmdSocket = None, cmdDeviceIp = ''192.168.1.50'',
              cmdIsConnectedFlag = False, cmdConnectionResolved = True, cmdForwarding = True\<rparr>,
           heartbeatClient = \<lparr>hbSocket = None, hbDeviceIp = ''192.168.1.50'',
              hbIsConnectedFlag = False, hbTimeoutTimer = False, hbLastHeartbeatValue = JsNumber (Finite (- 1)),
              hbLastHeartbeatTime = 0, hbWaitingForResponse = False,
              hbConnectionResolved = False, hbForwarding = True\<rparr>,
           webSocketClients = [1], connected = False, lastActivity = 1000\<rparr>"
    "connections cleaned = []" "nextRef cleaned = 1" "nextSocket cleaned = 4"
    "liveSockets cleaned = {}" "pendingClose cleaned = []" "wsOpen cleaned = {1, 2}"
    by (simp_all add: c f7)
qed


lemma relinked_parts:
  "\<not> cmdIsConnectedFlag (cmdOf relinked 0)" "\<not> hbIsConnectedFlag (hbOf relinked 0)"
  "device (heap relinked 0) = pixel" "connections relinked = [(''192.168.1.50'', 1)]"
  "cmdIsConnectedFlag (cmdOf relinked 1)" "hbIsConnectedFlag (hbOf relinked 1)"
  "connected (heap relinked 1)" "device (heap relinked 1) = pixel"
  "webSocketClients (heap relinked 1) = [1]" "wsOpen relinked = {1, 2}"
proof -
  have a: "map_of (connections cleaned) (dev_ip pixel) = None"
    by (simp add: cleaned_parts)
  show "\<not> cmdIsConnectedFlag (cmdOf relinked 0)" "\<not> hbIsConnectedFlag (hbOf relinked 0)"
    "device (heap relinked 0) = pixel" "connections relinked = [(''192.168.1.50'', 1)]"
    "cmdIsConnectedFlag (cmdOf relinked 1)" "hbIsConnectedFlag (hbOf relinked 1)"
    "connected (heap relinked 1)" "device (heap relinked 1) = pixel"
    "webSocketClients (heap relinked 1) = [1]" "wsOpen relinked = {1, 2}"
    unfolding relinked_def connect_success [OF a]
    by (simp_all add: cleaned_parts cmdOf_def hbOf_def pixel_def)
qed

lemma filter_absent_key:
  "map_of xs a = None \<Longrightarrow> filter (\<lambda>(k, r). k \<noteq> a) xs = xs"
  by (induction xs) (auto split: if_splits)

lemma closeConnection_table:
  "connections (closeConnection a w) = filter (\<lambda>(k, r). k \<noteq> a) (connections w)"
  by (simp add: closeConnection_def connectionsDelete_def broadcastToClients_def cmdDisconnect_def
      hbDisconnect_def stopHeartbeat_def stopTimeoutTimer_def prims Let_def filter_absent_key
      split: option.splits)

lemma closeConnection_down:
  assumes "map_of (connections w) a = Some r"
  shows "\<not> cmdIsConnectedFlag (cmdOf (closeConnection a w) r)"
    and "\<not> hbIsConnectedFlag (hbOf (closeConnection a w) r)"
    and "wsOut (closeConnection a w) =
           wsOut w @ map (\<lambda>c. (c, ConnectionClosed (device (heap w r))))
                       (filter (\<lambda>c. c \<in> wsOpen w) (webSocketClients (heap w r)))"
  using assms
  by (simp_all add: closeConnection_def connectionsDelete_def broadcastToClients_def cmdDisconnect_def
      hbDisconnect_def stopHeartbeat_def stopTimeoutTimer_def prims Let_def wsOut_def
      split: option.splits)

subsection \<open>Disconnection of the device\<close>

text \<open>
  C2, as the code behaves.  \<^verbatim>\<open>handleDeviceDisconnection\<close> never changes the table.  It
  sends \<^verbatim>\<open>device:disconnected\<close>, to every attached browser socket that is open, exactly when
  both clients report not connected, and nothing of that type otherwise.  In that case,
  and only then, it sets the 5000 ms timer; with one client down it sets a 2000 ms timer
  to reconnect that client.  The callback of the 5000 ms timer does nothing when a client
  of the record that set it reports connected.  Otherwise it closes the connection that
  the table holds under the ip of that record's device, whichever record that is: the
  entry leaves the table and the other entries stay, the two clients of the record found
  there are disconnected, and its open browser sockets get \<^verbatim>\<open>connection:closed\<close>.  The
  channels of the record that is closed are not looked at: in the witness the timer left
  over from record 0 closes record 1, the connection the browser has just made to the same
  device, while both channels of record 1 are connected.
\<close>

theorem disconnect_broadcast_only_when_both_down:
  "connections (handleDeviceDisconnection r w) = connections w
   \<and> disconnectBroadcasts (handleDeviceDisconnection r w) =
       disconnectBroadcasts w @
       (if \<not> cmdIsConnectedFlag (cmdOf w r) \<and> \<not> hbIsConnectedFlag (hbOf w r)
        then map (\<lambda>c. (c, DeviceDisconnected (device (heap w r))))
               (filter (\<lambda>c. c \<in> wsOpen w) (webSocketClients (heap w r)))
        else [])
   \<and> timers (handleDeviceDisconnection r w) =
       timers w @
       (if \<not> cmdIsConnectedFlag (cmdOf w r) \<and> \<not> hbIsConnectedFlag (hbOf w r)
        then [(5000, GraceCleanup r)]
        else if \<not> cmdIsConnectedFlag (cmdOf w r) then [(2000, ReconnectCommand r)]
        else if \<not> hbIsConnectedFlag (hbOf w r) then [(2000, ReconnectHeartbeat r)]
        else [])
   \<and> (cmdIsConnectedFlag (cmdOf w r) \<or> hbIsConnectedFlag (hbOf w r) \<longrightarrow> onGraceCleanup r w = w)
   \<and> (\<not> cmdIsConnectedFlag (cmdOf w r) \<and> \<not> hbIsConnectedFlag (hbOf w r) \<longrightarrow>
        connections (onGraceCleanup r w) =
          filter (\<lambda>(k, r'). k \<noteq> dev_ip (device (heap w r))) (connections w)
        \<and> (map_of (connections w) (dev_ip (device (heap w r))) = Some r' \<longrightarrow>
             \<not> cmdIsConnectedFlag (cmdOf (onGraceCleanup r w) r')
             \<and> \<not> hbIsConnectedFlag (hbOf (onGraceCleanup r w) r')
             \<and> wsOut (onGraceCleanup r w) =
                 wsOut w @ map (\<lambda>c. (c, ConnectionClosed (device (heap w r'))))
                             (filter (\<lambda>c. c \<in> wsOpen w) (webSocketClients (heap w r')))))"
proof -
  have f: "filter (\<lambda>(c, m). msgType m = ''device:disconnected'')
             (map (\<lambda>c. (c, DeviceDisconnected d)) cs) = map (\<lambda>c. (c, DeviceDisconnected d)) cs"
    for d and cs :: "ws list"
    by (induction cs) simp_all
  have a: "connections (handleDeviceDisconnection r w) = connections w"
    by (simp add: handleDeviceDisconnection_run)
  have b: "disconnectBroadcasts (handleDeviceDisconnection r w) =
       disconnectBroadcasts w @
       (if \<not> cmdIsConnectedFlag (cmdOf w r) \<and> \<not> hbIsConnectedFlag (hbOf w r)
        then map (\<lambda>c. (c, DeviceDisconnected (device (heap w r))))
               (filter (\<lambda>c. c \<in> wsOpen w) (webSocketClients (heap w r)))
        else [])"
    by (simp add: handleDeviceDisconnection_run disconnectBroadcasts_def wsOut_def f)
  have c: "timers (handleDeviceDisconnection r w) =
       timers w @
       (if \<not> cmdIsConnectedFlag (cmdOf w r) \<and> \<not> hbIsConnectedFlag (hbOf w r)
        then [(5000, GraceCleanup r)]
        else if \<not> cmdIsConnectedFlag (cmdOf w r) then [(2000, ReconnectCommand r)]
        else if \<not> hbIsConnectedFlag (hbOf w r) then [(2000, ReconnectHeartbeat r)]
        else [])"
    by (simp add: handleDeviceDisconnection_run timers_def)
  have d: "onGraceCleanup r w = w"
    if "cmdIsConnectedFlag (cmdOf w r) \<or> hbIsConnectedFlag (hbOf w r)"
    using that by (auto simp: onGraceCleanup_def)
  have e: "onGraceCleanup r w = closeConnection (dev_ip (device (heap w r))) w"
    if "\<not> cmdIsConnectedFlag (cmdOf w r) \<and> \<not> hbIsConnectedFlag (hbOf w r)"
    using that by (simp add: onGraceCleanup_def)
  show ?thesis
    using a b c d e closeConnection_table [of "dev_ip (device (heap w r))" w]
      closeConnection_down [of w "dev_ip (device (heap w r))" r']
    by simp
qed

theorem disconnect_broadcast_only_when_both_down_witness:
  "disconnectBroadcasts (handleDeviceDisconnection 0 heartbeatDown) = []
   \<and> timers (handleDeviceDisconnection 0 heartbeatDown) = timers heartbeatDown @ [(2000, ReconnectHeartbeat 0)]
   \<and> onGraceCleanup 0 heartbeatDown = heartbeatDown
   \<and> disconnectBroadcasts (handleDeviceDisconnection 0 bothDown) = [(1, DeviceDisconnected pixel)]
   \<and> timers (handleDeviceDisconnection 0 bothDown) = timers bothDown @ [(5000, GraceCleanup 0)]
   \<and> connections (handleDeviceDisconnection 0 bothDown) = connections bothDown
   \<and> connections (onGraceCleanup 0 bothDown) = []
   \<and> \<not> cmdIsConnectedFlag (cmdOf relinked 0) \<and> \<not> hbIsConnectedFlag (hbOf relinked 0)
   \<and> map_of (connections relinked) (dev_ip (device (heap relinked 0))) = Some 1
   \<and> cmdIsConnectedFlag (cmdOf relinked 1) \<and> hbIsConnectedFlag (hbOf relinked 1)
   \<and> connected (heap relinked 1)
   \<and> connections (onGraceCleanup 0 relinked) = []
   \<and> \<not> cmdIsConnectedFlag (cmdOf (onGraceCleanup 0 relinked) 1)
   \<and> \<not> hbIsConnectedFlag (hbOf (onGraceCleanup 0 relinked) 1)
   \<and> wsOut (onGraceCleanup 0 relinked) = wsOut relinked @ [(1, ConnectionClosed pixel)]"
proof -
  have cb: "connections bothDown = [(''192.168.1.50'', 0)]"
    by (simp add: bothDown_def heartbeatDown_def linked_eq prims)
  show ?thesis
    using disconnect_broadcast_only_when_both_down [of 0 heartbeatDown 0]
      disconnect_broadcast_only_when_both_down [of 0 bothDown 0]
      disconnect_broadcast_only_when_both_down [of 0 relinked 1] down_facts relinked_parts cb
    by (simp add: pixel_def)
qed

subsection \<open>A heartbeat that is not answered\<close>

text \<open>
  C5, as the code behaves.  The connection is up, a heartbeat is waiting for its echo and
  the 5 s liveness timer fires.  The callback emits \<^verbatim>\<open>timeout\<close>, calls \<^verbatim>\<open>disconnect\<close>, which
  destroys the socket with its listeners attached, and emits \<^verbatim>\<open>disconnected\<close>; the manager
  sets a 2000 ms timer to reconnect the heartbeat client.  The \<^verbatim>\<open>'close'\<close> event of the
  destroyed socket is then pending, and its listener emits \<^verbatim>\<open>disconnected\<close> a second time,
  so the manager sets a second 2000 ms reconnect timer.  Each of the two callbacks, run
  while the heartbeat client is still not connected, calls \<^verbatim>\<open>connect\<close> and opens a socket.
\<close>

theorem heartbeat_timeout_disconnects_twice:
  assumes "hbTimeoutTimer (hbOf w r)" "hbIsConnectedFlag (hbOf w r)" "hbSocket (hbOf w r) = Some s"
    "s \<in> liveSockets w" "hbForwarding (hbOf w r)" "cmdIsConnectedFlag (cmdOf w r)"
  shows "(let w1 = hbOnTimeoutTimer r w; w2 = deliverClose r HeartbeatChannel s w1
          in (r, HeartbeatChannel, s) \<in> set (pendingClose w1)
           \<and> trace w1 = trace w @
               [Emitted r HeartbeatChannel EvTimeout, Emitted r HeartbeatChannel EvDisconnected,
                TimerSet 2000 (ReconnectHeartbeat r)]
           \<and> trace w2 = trace w1 @
               [Emitted r HeartbeatChannel EvDisconnected, TimerSet 2000 (ReconnectHeartbeat r)]
           \<and> nextSocket (onReconnectHeartbeat r w2) = Suc (nextSocket w2)
           \<and> nextSocket (onReconnectHeartbeat r (onReconnectHeartbeat r w2)) = Suc (Suc (nextSocket w2)))"
proof -
  define w1 where "w1 = hbOnTimeoutTimer r w"
  note e1 = hbOnTimeoutTimer_run [OF assms, folded w1_def]
  have p1: "(r, HeartbeatChannel, s) \<in> set (pendingClose w1)" "hbForwarding (hbOf w1 r)"
    "cmdIsConnectedFlag (cmdOf w1 r)"
    using assms(5,6) by (simp_all add: e1 cmdOf_def hbOf_def)
  define w2 where "w2 = deliverClose r HeartbeatChannel s w1"
  note e2 = deliverClose_heartbeat_run [OF p1, folded w2_def]
  have t1: "trace w1 = trace w @
               [Emitted r HeartbeatChannel EvTimeout, Emitted r HeartbeatChannel EvDisconnected,
                TimerSet 2000 (ReconnectHeartbeat r)]"
    by (simp add: e1)
  have t2: "trace w2 = trace w1 @
               [Emitted r HeartbeatChannel EvDisconnected, TimerSet 2000 (ReconnectHeartbeat r)]"
    by (simp add: e2)
  have f2: "cmdIsConnectedFlag (cmdOf w2 r)" "\<not> hbIsConnectedFlag (hbOf w2 r)"
    using p1(3) by (simp_all add: e2 cmdOf_def hbOf_def)
  have keep: "cmdIsConnectedFlag (cmdOf (hbConnect r a v) r) = cmdIsConnectedFlag (cmdOf v r)
      \<and> hbIsConnectedFlag (hbOf (hbConnect r a v) r) = hbIsConnectedFlag (hbOf v r)
      \<and> nextSocket (hbConnect r a v) = Suc (nextSocket v)" for a and v :: world
    by (simp add: hbConnect_def stopHeartbeat_def stopTimeoutTimer_def prims Let_def split_beta
        split: option.splits)
  have r1: "onReconnectHeartbeat r w2 = hbConnect r (dev_ip (device (heap w2 r))) w2"
    using f2 by (simp add: onReconnectHeartbeat_def)
  have f3: "cmdIsConnectedFlag (cmdOf (onReconnectHeartbeat r w2) r)"
    "\<not> hbIsConnectedFlag (hbOf (onReconnectHeartbeat r w2) r)"
    "nextSocket (onReconnectHeartbeat r w2) = Suc (nextSocket w2)"
    using f2 keep by (simp_all add: r1)
  have r2: "nextSocket (onReconnectHeartbeat r (onReconnectHeartbeat r w2)) = Suc (Suc (nextSocket w2))"
    using f3 keep by (simp add: onReconnectHeartbeat_def [of r "onReconnectHeartbeat r w2"])
  show ?thesis
    unfolding Let_def w1_def [symmetric] w2_def [symmetric]
    using p1(1) t1 t2 f3(3) r2 by simp
qed

theorem heartbeat_timeout_disconnects_twice_witness:
  "hbTimeoutTimer (hbOf linked 0) \<and> hbIsConnectedFlag (hbOf linked 0)
   \<and> hbSocket (hbOf linked 0) = Some 1 \<and> 1 \<in> liveSockets linked
   \<and> hbForwarding (hbOf linked 0) \<and> cmdIsConnectedFlag (cmdOf linked 0)
   \<and> emitted (deliverClose 0 HeartbeatChannel 1 (hbOnTimeoutTimer 0 linked)) =
       emitted linked @
       [(0, HeartbeatChannel, EvTimeout), (0, HeartbeatChannel, EvDisconnected),
        (0, HeartbeatChannel, EvDisconnected)]
   \<and> timers (deliverClose 0 HeartbeatChannel 1 (hbOnTimeoutTimer 0 linked)) =
       timers linked @ [(2000, ReconnectHeartbeat 0), (2000, ReconnectHeartbeat 0)]"
proof -
  have h: "hbTimeoutTimer (hbOf linked 0)" "hbIsConnectedFlag (hbOf linked 0)"
    "hbSocket (hbOf linked 0) = Some 1" "1 \<in> liveSockets linked"
    "hbForwarding (hbOf linked 0)" "cmdIsConnectedFlag (cmdOf linked 0)"
    by (simp_all add: linked_eq cmdOf_def hbOf_def)
  show ?thesis
    using heartbeat_timeout_disconnects_twice [OF h] h
    by (simp add: Let_def emitted_def timers_def)
qed

subsection \<open>The handshake of the command channel\<close>

text \<open>
  C6, as the code has it.  The callback of a successful connect sets the connected flag,
  emits \<^verbatim>\<open>connected\<close> and after that writes the handshake frame (name, platform code 6,
  local IP, version); nothing else is emitted or written.
\<close>

theorem handshake_follows_connected_event:
  assumes "cmdSocket (cmdOf w r) = Some s"
  shows "trace (cmdOnConnect r w) =
           trace w @ [Emitted r CommandChannel EvConnected, handshake r (os w)]
       \<and> cmdIsConnectedFlag (cmdOf (cmdOnConnect r w) r)"
  by (simp add: cmdOnConnect_run [OF assms] handshake_def CMD_REPORT_DESKTOP_INFO_def cmdOf_def)

theorem handshake_follows_connected_event_witness:
  "cmdSocket (cmdOf inFlight 0) = Some 0
   \<and> trace (cmdOnConnect 0 inFlight) =
       [TimerSet 10000 (CommandConnectTimeout 0), Emitted 0 CommandChannel EvConnected,
        Written 0 CommandChannel (DesktopInfoFrame 2 ''bridge'' 6 ''192.168.1.10'' ''1.0.0'')]
   \<and> cmdIsConnectedFlag (cmdOf (cmdOnConnect 0 inFlight) 0)"
  using handshake_follows_connected_event [OF inFlight_eq(1)] inFlight_eq handshake_env0
  by simp

text \<open>
  C6 as stated fails: in the trace of the callback the handshake frame does not occur
  before the \<^verbatim>\<open>connected\<close> event; the event occurs before the frame.
\<close>

theorem handshake_before_connected_counterexample:
  "\<not> occursBefore (handshake 0 env0) (Emitted 0 CommandChannel EvConnected) (trace (cmdOnConnect 0 inFlight))
   \<and> occursBefore (Emitted 0 CommandChannel EvConnected) (handshake 0 env0) (trace (cmdOnConnect 0 inFlight))"
proof -
  have t: "trace (cmdOnConnect 0 inFlight) =
       [TimerSet 10000 (CommandConnectTimeout 0), Emitted 0 CommandChannel EvConnected,
        Written 0 CommandChannel (DesktopInfoFrame 2 ''bridge'' 6 ''192.168.1.10'' ''1.0.0'')]"
    by (simp add: cmdOnConnect_run [OF inFlight_eq(1)] inFlight_eq env0_def getLocalIP_def)
  show ?thesis by (simp add: t handshake_env0 occursBefore_def)
qed

subsection \<open>A browser socket detaching\<close>

text \<open>
  C9.  When a browser socket closes, the table, every connection's command client,
  heartbeat client, connected flag and device, the TCP sockets and the trace stay as they
  are; the socket is taken out of the \<^verbatim>\<open>webSocketClients\<close> of the connections whose
  \<^verbatim>\<open>'close'\<close> listener is registered for it, also when it was the last one.
\<close>

theorem ws_detach_keeps_channels:
  "connections (wsClosed c w) = connections w
   \<and> commandClient (heap (wsClosed c w) r) = commandClient (heap w r)
   \<and> heartbeatClient (heap (wsClosed c w) r) = heartbeatClient (heap w r)
   \<and> connected (heap (wsClosed c w) r) = connected (heap w r)
   \<and> device (heap (wsClosed c w) r) = device (heap w r)
   \<and> liveSockets (wsClosed c w) = liveSockets w
   \<and> pendingClose (wsClosed c w) = pendingClose w
   \<and> trace (wsClosed c w) = trace w
   \<and> webSocketClients (heap (wsClosed c w) r) =
       (if (c, r) \<in> set (wsHandlers w) then removeAll c (webSocketClients (heap w r))
        else webSocketClients (heap w r))"
  by (simp add: wsClosed_run)

theorem ws_detach_keeps_channels_witness:
  "webSocketClients (heap linked 0) = [1]
   \<and> webSocketClients (heap (wsClosed 1 linked) 0) = []
   \<and> connections (wsClosed 1 linked) = [(''192.168.1.50'', 0)]
   \<and> cmdIsConnectedFlag (commandClient (heap (wsClosed 1 linked) 0))
   \<and> hbIsConnectedFlag (heartbeatClient (heap (wsClosed 1 linked) 0))
   \<and> liveSockets (wsClosed 1 linked) = {1, 0}"
  using ws_detach_keeps_channels [of 1 linked 0]
  by (simp add: linked_eq)

subsection \<open>Connecting to a device that has a record\<close>

text \<open>
  C10.  When the table has a record for the device ip, \<^verbatim>\<open>connectToDevice\<close> sends
  \<^verbatim>\<open>connection:success\<close> to the requesting browser socket, adds the socket to the record's
  \<^verbatim>\<open>webSocketClients\<close>, registers its listeners and returns; it reads neither the
  connected flag nor the state of the two TCP clients, and does nothing else.  The
  witness is a request that arrives while the first connect for the ip is in flight.
\<close>

theorem connect_reuses_existing_record:
  assumes "map_of (connections w) (dev_ip dev) = Some r"
  shows "connectToDevice dev c cmdResult hbResult w =
     (w\<lparr>trace := trace w @ [Sent c (ConnectionSuccess dev)],
        heap := (heap w)(r := (heap w r)\<lparr>webSocketClients :=
                  (if c \<in> set (webSocketClients (heap w r)) then webSocketClients (heap w r)
                   else webSocketClients (heap w r) @ [c])\<rparr>),
        wsHandlers := wsHandlers w @ [(c, r)]\<rparr>, None)"
  using assms by (simp add: connectToDevice_def attachClient_def wsSend_def updConn_def Let_def)

theorem connect_reuses_existing_record_witness:
  "map_of (connections inFlight) (dev_ip pixel) = Some 0
   \<and> connected (heap inFlight 0) = False
   \<and> cmdIsConnectedFlag (cmdOf inFlight 0) = False
   \<and> hbIsConnectedFlag (hbOf inFlight 0) = False
   \<and> wsOut (fst (connectToDevice pixel 2 ConnectOk ConnectOk inFlight)) = [(2, ConnectionSuccess pixel)]
   \<and> webSocketClients (heap (fst (connectToDevice pixel 2 ConnectOk ConnectOk inFlight)) 0) = [2]"
proof -
  have h: "map_of (connections inFlight) (dev_ip pixel) = Some 0"
    by (simp add: inFlight_def createConnection_run world0_def)
  have s: "connected (heap inFlight 0) = False" "cmdIsConnectedFlag (cmdOf inFlight 0) = False"
    "hbIsConnectedFlag (hbOf inFlight 0) = False" "trace inFlight = [TimerSet 10000 (CommandConnectTimeout 0)]"
    "webSocketClients (heap inFlight 0) = []"
    by (simp_all add: inFlight_def createConnection_run world0_def cmdOf_def hbOf_def
        newCommandClient_def newHeartbeatClient_def)
  show ?thesis
    using connect_reuses_existing_record [OF h, of 2 ConnectOk ConnectOk] h s
    by (simp add: wsOut_def)
qed

subsection \<open>The values of the heartbeats\<close>

lemma bitLength_eq: "2 ^ k \<le> n \<Longrightarrow> n < 2 ^ Suc k \<Longrightarrow> bitLength n = Suc k"
proof (induction k arbitrary: n)
  case 0
  then have "n = 1" by simp
  then show ?case by (simp add: bitLength.simps [of "Suc 0"] bitLength.simps [of 0])
next
  case (Suc k)
  have "2 ^ k \<le> n div 2" "n div 2 < 2 ^ Suc k" using Suc.prems by auto
  then have "bitLength (n div 2) = Suc k" by (rule Suc.IH)
  moreover have "(0::nat) < 2 ^ Suc k" by simp
  then have "n \<noteq> 0" using Suc.prems(1) by linarith
  ultimately show ?case by (simp add: bitLength.simps [of n])
qed

lemma bitLength_exists: "0 < (n::nat) \<Longrightarrow> \<exists>k. 2 ^ k \<le> n \<and> n < 2 ^ Suc k"
proof (induction n rule: less_induct)
  case (less n)
  show ?case
  proof (cases "n = 1")
    case True
    then show ?thesis by (intro exI [of _ 0]) simp
  next
    case False
    then have "0 < n div 2" "n div 2 < n" using less.prems by auto
    then obtain k where "2 ^ k \<le> n div 2" "n div 2 < 2 ^ Suc k" using less.IH by blast
    then have "2 ^ Suc k \<le> n \<and> n < 2 ^ Suc (Suc k)" by auto
    then show ?thesis by blast
  qed
qed

lemma roundHalfEven_int [simp]: "roundHalfEven (of_int m) = m"
  by (simp add: roundHalfEven_def)

lemma roundDouble_int:
  assumes "\<bar>n\<bar> \<le> 2 ^ 53"
  shows "roundDouble (of_int n) = Finite (of_int n)"
proof (cases "n = 0")
  case True
  then show ?thesis by (simp add: roundDouble_def)
next
  case False
  define a where "a = nat \<bar>n\<bar>"
  have a: "0 < a" "a \<le> 2 ^ 53" "\<bar>(of_int n :: rat)\<bar> = of_nat a"
    using False assms by (simp_all add: a_def nat_le_iff)
  obtain k where k: "2 ^ k \<le> a" "a < 2 ^ Suc k" using bitLength_exists [OF a(1)] by blast
  have b: "bitLength a = Suc k" by (rule bitLength_eq [OF k])
  have k53: "k \<le> 53"
  proof (rule ccontr)
    assume "\<not> k \<le> 53"
    then have "(2::nat) ^ 54 \<le> 2 ^ k" by (intro power_increasing) simp_all
    then show False using k(1) a(2) by simp
  qed
  have fl: "floorLog2 \<bar>of_int n\<bar> = int k"
    using a(1) by (simp add: floorLog2_def a(3) b)
  have big: "\<not> (2 ^ 1024 - 2 ^ 970 \<le> \<bar>(of_int n :: rat)\<bar>)"
  proof -
    have "(of_nat a :: rat) \<le> 2 ^ 53" using a(2) by (metis of_nat_le_iff of_nat_numeral of_nat_power)
    then show ?thesis unfolding a(3) by simp
  qed
  have e: "max (floorLog2 \<bar>of_int n\<bar> - 52) (- 1074) = int k - 52"
    by (simp add: fl)
  show ?thesis
  proof (cases "k \<le> 52")
    case True
    have s: "scale2 (int k - 52) = 1 / 2 ^ (52 - k)"
    proof (cases "k = 52")
      case True
      then show ?thesis by (simp add: scale2_def)
    next
      case False
      then have "k < 52" using True by simp
      then have "nat (52 - int k) = 52 - k" by simp
      then show ?thesis using \<open>k < 52\<close> by (simp add: scale2_def)
    qed
    have "(of_int n :: rat) / scale2 (int k - 52) = of_int (n * 2 ^ (52 - k))"
      by (simp add: s)
    then have "roundHalfEven (of_int n / scale2 (int k - 52)) = n * 2 ^ (52 - k)"
      by (simp only: roundHalfEven_int)
    then show ?thesis using False big e
      by (simp add: roundDouble_def Let_def s)
  next
    case False
    then have k: "k = 53" using k53 by simp
    then have "a = 2 ^ 53" using \<open>2 ^ k \<le> a\<close> a(2) by simp
    then have n: "n = 2 ^ 53 \<or> n = - (2 ^ 53)" by (simp add: a_def) arith
    have s: "scale2 (int k - 52) = 2" by (simp add: k scale2_def)
    have "(of_int n :: rat) / 2 = of_int (n div 2)" using n by auto
    then have "roundHalfEven (of_int n / scale2 (int k - 52)) = n div 2"
      by (simp only: s roundHalfEven_int)
    moreover have "n div 2 * 2 = n" using n by auto
    ultimately show ?thesis using False big e
      by (simp add: roundDouble_def Let_def s)
  qed
qed


lemma roundDouble_beyond: "roundDouble 9007199254740993 = Finite 9007199254740992"
proof -
  have b: "bitLength 9007199254740993 = Suc 53" by (rule bitLength_eq) simp_all
  have f: "floorLog2 9007199254740993 = 53" by (simp add: floorLog2_def b)
  have fl: "\<lfloor>(9007199254740993 :: rat) / 2\<rfloor> = 4503599627370496"
    by (rule floor_unique) simp_all
  have h: "roundHalfEven (9007199254740993 / 2) = 4503599627370496"
    by (simp add: roundHalfEven_def Let_def fl)
  show ?thesis by (simp add: roundDouble_def f scale2_def h Let_def)
qed

lemma obs_trace_heap:
  "obs r (w\<lparr>trace := trace w @ tr\<rparr>) = (hbWaitingForResponse (hbOf w r), heartbeatsWritten r w + length (filter (isHeartbeatOf r) tr))"
  by (simp add: obs_def heartbeatsWritten_def hbOf_def)

lemma no_hb_in_broadcast [simp]: "filter (isHeartbeatOf r) (map (\<lambda>c. Sent c m) cs) = []"
  by (induction cs) simp_all

lemma handleDeviceDisconnection_obs [simp]: "obs r (handleDeviceDisconnection r' w) = obs r w"
  by (simp add: handleDeviceDisconnection_run obs_def heartbeatsWritten_def hbOf_def)

lemma emit_obs [simp]: "obs r (emit r' ch ev w) = obs r w"
proof -
  have a: "obs r (w\<lparr>trace := trace w @ [Emitted r' ch ev]\<rparr>) = obs r w"
    by (simp add: obs_def heartbeatsWritten_def hbOf_def)
  have b: "obs r (updConn r' (\<lambda>c. c\<lparr>lastActivity := t\<rparr>) v) = obs r v" for t and v :: world
    by (simp add: obs_def heartbeatsWritten_def hbOf_def updConn_def)
  have c: "obs r (w\<lparr>trace := trace w @ [Emitted r' ch ev, Thrown m]\<rparr>) = obs r w" for m
    by (simp add: obs_def heartbeatsWritten_def hbOf_def)
  show ?thesis
    using a b c by (cases ev) (simp_all add: emit_def Let_def)
qed

lemma sendHeartbeat_obs:
  "obs r (sendHeartbeat r w) =
     (if hbIsConnectedFlag (hbOf w r) \<and> hbSocket (hbOf w r) \<noteq> None \<and> \<not> hbWaitingForResponse (hbOf w r)
         \<and> plusOne (hbLastHeartbeatValue (hbOf w r)) \<noteq> None
      then (True, Suc (heartbeatsWritten r w)) else obs r w)"
  by (simp add: sendHeartbeat_def startTimeoutTimer_def stopTimeoutTimer_def prims Let_def obs_def
      heartbeatsWritten_def split: option.splits)

lemma hbConnect_obs: "obs r (hbConnect r a w) = (False, heartbeatsWritten r w)"
  by (simp add: hbConnect_def stopHeartbeat_def stopTimeoutTimer_def prims Let_def obs_def
      heartbeatsWritten_def split_beta split: option.splits)

lemma hbOnConnect_obs:
  "obs r (hbOnConnect r w) =
     (if hbSocket (hbOf w r) \<noteq> None \<and> \<not> hbWaitingForResponse (hbOf w r)
         \<and> plusOne (hbLastHeartbeatValue (hbOf w r)) \<noteq> None
      then (True, Suc (heartbeatsWritten r w)) else obs r w)"
proof -
  define w2 where "w2 = updHb r (\<lambda>c. c\<lparr>hbConnectionResolved := True\<rparr>) (updHb r (\<lambda>c. c\<lparr>hbIsConnectedFlag := True\<rparr>) w)"
  define w3 where "w3 = emit r HeartbeatChannel EvConnected w2"
  have e: "w3 = w2\<lparr>trace := trace w2 @ [Emitted r HeartbeatChannel EvConnected]\<rparr>"
    by (simp add: w3_def emit_def Let_def)
  have f: "hbIsConnectedFlag (hbOf w3 r)" "hbSocket (hbOf w3 r) = hbSocket (hbOf w r)"
    "hbWaitingForResponse (hbOf w3 r) = hbWaitingForResponse (hbOf w r)"
    "hbLastHeartbeatValue (hbOf w3 r) = hbLastHeartbeatValue (hbOf w r)"
    "heartbeatsWritten r w3 = heartbeatsWritten r w"
    by (simp_all add: e w2_def prims heartbeatsWritten_def)
  have "hbOnConnect r w = sendHeartbeat r w3"
    by (simp add: hbOnConnect_def Let_def w3_def w2_def)
  moreover have "obs r w3 = obs r w" using f by (simp add: obs_def)
  ultimately show ?thesis using f sendHeartbeat_obs [of r w3] by simp
qed

lemma hbOnData_obs:
  "obs r (hbOnData r p w) = (if p = NotJson then obs r w else (False, heartbeatsWritten r w))"
proof (cases p)
  case NotJson
  then show ?thesis by (simp add: hbOnData_def)
next
  case JsonNull
  then show ?thesis
    by (simp add: hbOnData_def stopTimeoutTimer_def prims obs_def heartbeatsWritten_def)
next
  case (JsonMessage field)
  define w4 where "w4 = setTimeout (NextHeartbeat r) 2000
      (updHb r (\<lambda>c. c\<lparr>hbLastHeartbeatValue :=
           (if toBoolean (fieldValue field) then fieldValue field else JsNumber (Finite 0))\<rparr>)
        (updHb r (\<lambda>c. c\<lparr>hbWaitingForResponse := False\<rparr>) (stopTimeoutTimer r w)))"
  have o: "obs r w4 = (False, heartbeatsWritten r w)"
    by (simp add: w4_def stopTimeoutTimer_def prims obs_def heartbeatsWritten_def)
  have "hbOnData r p w = emit r HeartbeatChannel EvHeartbeat w4"
    using JsonMessage by (simp add: hbOnData_def Let_def w4_def)
  then show ?thesis using o JsonMessage by simp
qed

lemma hbOnNextHeartbeat_obs:
  "obs r (hbOnNextHeartbeat r w) =
     (if hbIsConnectedFlag (hbOf w r) \<and> hbSocket (hbOf w r) \<noteq> None \<and> \<not> hbWaitingForResponse (hbOf w r)
         \<and> plusOne (hbLastHeartbeatValue (hbOf w r)) \<noteq> None
      then (True, Suc (heartbeatsWritten r w)) else obs r w)"
  by (simp add: hbOnNextHeartbeat_def sendHeartbeat_obs)

lemma hbDisconnect_obs [simp]: "obs r (hbDisconnect r w) = obs r w"
  by (simp add: hbDisconnect_def stopHeartbeat_def stopTimeoutTimer_def prims Let_def obs_def
      heartbeatsWritten_def split: option.splits)

lemma hbOnTimeoutTimer_obs [simp]: "obs r (hbOnTimeoutTimer r w) = obs r w"
proof -
  have a: "obs r (updHb r (\<lambda>c. c\<lparr>hbTimeoutTimer := False\<rparr>) w) = obs r w"
    by (simp add: prims obs_def heartbeatsWritten_def)
  show ?thesis by (simp add: hbOnTimeoutTimer_def Let_def a)
qed

lemma hbOnClose_obs [simp]: "obs r (hbOnClose r w) = obs r w"
  by (simp add: hbOnClose_def Let_def stopHeartbeat_def stopTimeoutTimer_def)
     (simp add: prims obs_def heartbeatsWritten_def)

lemma hbOnError_obs [simp]: "obs r (hbOnError r w) = obs r w"
  by (simp add: hbOnError_def Let_def stopHeartbeat_def stopTimeoutTimer_def)
     (simp add: prims obs_def heartbeatsWritten_def)

lemma deliverClose_obs [simp]: "obs r (deliverClose r HeartbeatChannel s w) = obs r w"
proof -
  have a: "obs r (w\<lparr>pendingClose := q\<rparr>) = obs r w" for q
    by (simp add: obs_def heartbeatsWritten_def hbOf_def)
  show ?thesis by (simp add: deliverClose_def Let_def a)
qed

lemma hbPeerClose_obs [simp]: "obs r (hbPeerClose r w) = obs r w"
proof -
  have a: "obs r (w\<lparr>liveSockets := q\<rparr>) = obs r w" for q
    by (simp add: obs_def heartbeatsWritten_def hbOf_def)
  show ?thesis by (simp add: hbPeerClose_def a split: option.splits)
qed

lemma hbOnSocketTimeout_obs [simp]: "obs r (hbOnSocketTimeout r w) = obs r w"
  by (simp add: hbOnSocketTimeout_def prims obs_def heartbeatsWritten_def split: option.splits)

lemma hbHandler_invariant:
  assumes "n \<le> (if hbWaitingForResponse (hbOf w r) then 1 else 0)"
  shows "(if answers ev then 0 else n) + (heartbeatsWritten r (hbHandler r ev w) - heartbeatsWritten r w)
           \<le> (if hbWaitingForResponse (hbOf (hbHandler r ev w) r) then 1 else 0)"
proof -
  have o: "obs r v = (hbWaitingForResponse (hbOf v r), heartbeatsWritten r v)" for v :: world
    by (simp add: obs_def)
  show ?thesis
  proof (cases ev)
    case (ConnectCalled a)
    then show ?thesis using hbConnect_obs [of r a w, unfolded o] by simp
  next
    case SocketConnected
    then show ?thesis using hbOnConnect_obs [of r w, unfolded o] assms by (simp split: if_splits)
  next
    case (DataReceived p)
    then show ?thesis using hbOnData_obs [of r p w, unfolded o] assms by (cases p) (simp_all)
  next
    case NextHeartbeatDue
    then show ?thesis using hbOnNextHeartbeat_obs [of r w, unfolded o] assms by (simp split: if_splits)
  next
    case LivenessTimerFired
    then show ?thesis using hbOnTimeoutTimer_obs [of r w, unfolded o] assms by (simp)
  next
    case (CloseDelivered s)
    then show ?thesis using deliverClose_obs [of r s w, unfolded o] assms by (simp)
  next
    case PeerClosed
    then show ?thesis using hbPeerClose_obs [of r w, unfolded o] assms by (simp)
  next
    case SocketTimedOut
    then show ?thesis using hbOnSocketTimeout_obs [of r w, unfolded o] assms by (simp)
  next
    case SocketError
    then show ?thesis using hbOnError_obs [of r w, unfolded o] assms by (simp)
  next
    case DisconnectCalled
    then show ?thesis using hbDisconnect_obs [of r w, unfolded o] assms by (simp)
  qed
qed

lemma hbStep_invariant:
  assumes "n \<le> (if hbWaitingForResponse (hbOf w r) then 1 else 0)"
  shows "(if answers ev then 0 else n) + (heartbeatsWritten r (hbStep r ev w) - heartbeatsWritten r w)
           \<le> (if hbWaitingForResponse (hbOf (hbStep r ev w) r) then 1 else 0)"
proof (cases "terminated w")
  case True
  then show ?thesis using assms by (simp add: hbStep_def split: if_splits)
next
  case False
  then show ?thesis using hbHandler_invariant [OF assms, of ev] by (simp add: hbStep_def)
qed

lemma hbRun_invariant:
  "n \<le> (if hbWaitingForResponse (hbOf w r) then 1 else 0) \<Longrightarrow>
   snd (hbRun r evs (w, n)) \<le> (if hbWaitingForResponse (hbOf (fst (hbRun r evs (w, n))) r) then 1 else 0)"
proof (induction evs arbitrary: w n)
  case Nil
  then show ?case by simp
next
  case (Cons ev evs)
  show ?case
    using Cons.IH [OF hbStep_invariant [OF Cons.prems, of ev]] by (simp add: Let_def)
qed

lemma hbConnect_facts:
  "trace (hbConnect r a w) = trace w" "os (hbConnect r a w) = os w" "now (hbConnect r a w) = now w"
  "hbSocket (hbOf (hbConnect r a w) r) = Some (nextSocket (hbConnect r a w) - 1)"
  "\<not> hbWaitingForResponse (hbOf (hbConnect r a w) r)"
  "hbLastHeartbeatValue (hbOf (hbConnect r a w) r) = JsNumber (Finite (- 1))"
  by (simp_all add: hbConnect_def stopHeartbeat_def stopTimeoutTimer_def prims Let_def split_beta
      split: option.splits)

lemma sendHeartbeat_trace:
  "hbIsConnectedFlag (hbOf w r) \<Longrightarrow> hbSocket (hbOf w r) = Some s \<Longrightarrow> \<not> hbWaitingForResponse (hbOf w r) \<Longrightarrow>
   plusOne (hbLastHeartbeatValue (hbOf w r)) = Some v \<Longrightarrow>
   trace (sendHeartbeat r w) =
     trace w @ [Written r HeartbeatChannel (HeartbeatFrame (getLocalIP (os w)) v (now w)),
                TimerSet 5000 (HeartbeatTimeout r)]"
  by (simp add: sendHeartbeat_def startTimeoutTimer_def stopTimeoutTimer_def prims Let_def)

lemma hbOnData_facts:
  "trace (hbOnData r (JsonMessage field) w) =
     trace w @ [TimerSet 2000 (NextHeartbeat r), Emitted r HeartbeatChannel EvHeartbeat]"
  "os (hbOnData r (JsonMessage field) w) = os w" "now (hbOnData r (JsonMessage field) w) = now w"
  "hbIsConnectedFlag (hbOf (hbOnData r (JsonMessage field) w) r) = hbIsConnectedFlag (hbOf w r)"
  "hbSocket (hbOf (hbOnData r (JsonMessage field) w) r) = hbSocket (hbOf w r)"
  "\<not> hbWaitingForResponse (hbOf (hbOnData r (JsonMessage field) w) r)"
  "hbLastHeartbeatValue (hbOf (hbOnData r (JsonMessage field) w) r) =
     (if toBoolean (fieldValue field) then fieldValue field else JsNumber (Finite 0))"
  by (simp_all add: hbOnData_def emit_def stopTimeoutTimer_def prims Let_def)

lemma next_heartbeat:
  assumes "hbIsConnectedFlag (hbOf w r)" "hbSocket (hbOf w r) \<noteq> None"
    and "plusOne (if toBoolean (fieldValue field) then fieldValue field else JsNumber (Finite 0)) = Some v"
  shows "trace (hbOnNextHeartbeat r (hbOnData r (JsonMessage field) w)) =
          trace w @ [TimerSet 2000 (NextHeartbeat r), Emitted r HeartbeatChannel EvHeartbeat,
                     Written r HeartbeatChannel (HeartbeatFrame (getLocalIP (os w)) v (now w)),
                     TimerSet 5000 (HeartbeatTimeout r)]"
proof -
  obtain s where s: "hbSocket (hbOf w r) = Some s" using assms(2) by blast
  have c': "hbIsConnectedFlag (hbOf (hbOnData r (JsonMessage field) w) r)"
    using assms(1) by (simp add: hbOnData_facts)
  have s': "hbSocket (hbOf (hbOnData r (JsonMessage field) w) r) = Some s"
    using s by (simp add: hbOnData_facts)
  have v': "plusOne (hbLastHeartbeatValue (hbOf (hbOnData r (JsonMessage field) w) r)) = Some v"
    using assms(3) by (simp only: hbOnData_facts)
  show ?thesis
    using sendHeartbeat_trace [OF c' s' hbOnData_facts(6) v'] c'
    by (simp add: hbOnNextHeartbeat_def hbOnData_facts)
qed

lemma plusOne_integer:
  assumes "\<bar>n\<bar> < 2 ^ 53"
  shows "plusOne (if toBoolean (fieldValue (NumberField (of_int n))) then fieldValue (NumberField (of_int n))
                  else JsNumber (Finite 0)) = Some (JsNumber (Finite (of_int (n + 1))))"
proof -
  have a: "roundDouble (of_int n) = Finite (of_int n)"
    using assms by (intro roundDouble_int) simp
  have b: "roundDouble (of_int (n + 1)) = Finite (of_int (n + 1))"
    using assms by (intro roundDouble_int) (simp add: abs_le_iff abs_less_iff)
  have c: "roundDouble 1 = Finite 1"
    using roundDouble_int [of 1] by simp
  show ?thesis using b c by (simp add: a)
qed

lemma plusOne_falsy:
  "\<not> toBoolean v \<Longrightarrow> plusOne (if toBoolean v then v else JsNumber (Finite 0)) = Some (JsNumber (Finite 1))"
  using roundDouble_int [of 1] by simp

text \<open>
  C4, as the code has it.  Whatever the state, \<^verbatim>\<open>connect\<close> followed by the socket
  connecting writes one heartbeat and its value is 0.  On a connected client, a response
  whose \<^verbatim>\<open>value\<close> is an integer \<open>n\<close> of magnitude below \<open>2\<^sup>5\<^sup>3\<close>, followed by the 2 s timer,
  writes a heartbeat with value \<open>n + 1\<close>; a response without a value, or with a falsy one,
  counts as 0 and the heartbeat has value 1.  Data that \<^verbatim>\<open>JSON.parse\<close> rejects changes
  nothing, any other data clears \<^verbatim>\<open>waitingForResponse\<close>.  \<^verbatim>\<open>sendHeartbeat\<close> does nothing
  while \<^verbatim>\<open>waitingForResponse\<close> is set, and in every run of the channel, whatever the
  events, at most one heartbeat has been written since the last data that \<^verbatim>\<open>JSON.parse\<close>
  accepted (or since \<^verbatim>\<open>connect\<close>).
\<close>

theorem heartbeat_values_and_single_flight:
  "trace (hbOnConnect r (hbConnect r a w)) =
     trace w @ [Emitted r HeartbeatChannel EvConnected,
                Written r HeartbeatChannel
                  (HeartbeatFrame (getLocalIP (os w)) (JsNumber (Finite 0)) (now w)),
                TimerSet 5000 (HeartbeatTimeout r)]
   \<and> (hbIsConnectedFlag (hbOf w r) \<and> hbSocket (hbOf w r) \<noteq> None \<and> \<bar>n\<bar> < 2 ^ 53 \<longrightarrow>
        trace (hbOnNextHeartbeat r (hbOnData r (JsonMessage (NumberField (of_int n))) w)) =
          trace w @ [TimerSet 2000 (NextHeartbeat r), Emitted r HeartbeatChannel EvHeartbeat,
                     Written r HeartbeatChannel
                       (HeartbeatFrame (getLocalIP (os w)) (JsNumber (Finite (of_int (n + 1)))) (now w)),
                     TimerSet 5000 (HeartbeatTimeout r)])
   \<and> (hbIsConnectedFlag (hbOf w r) \<and> hbSocket (hbOf w r) \<noteq> None
        \<and> \<not> toBoolean (fieldValue field) \<longrightarrow>
        trace (hbOnNextHeartbeat r (hbOnData r (JsonMessage field) w)) =
          trace w @ [TimerSet 2000 (NextHeartbeat r), Emitted r HeartbeatChannel EvHeartbeat,
                     Written r HeartbeatChannel
                       (HeartbeatFrame (getLocalIP (os w)) (JsNumber (Finite 1)) (now w)),
                     TimerSet 5000 (HeartbeatTimeout r)])
   \<and> hbOnData r NotJson w = w
   \<and> (p \<noteq> NotJson \<longrightarrow> \<not> hbWaitingForResponse (hbOf (hbOnData r p w) r))
   \<and> (hbWaitingForResponse (hbOf w r) \<longrightarrow> sendHeartbeat r w = w)
   \<and> (\<not> hbWaitingForResponse (hbOf w r) \<longrightarrow> snd (hbRun r evs (w, 0)) \<le> 1)"
proof -
  have z: "plusOne (hbLastHeartbeatValue (hbOf (hbConnect r a w) r)) = Some (JsNumber (Finite 0))"
    by (simp add: hbConnect_facts roundDouble_def)
  have plain: "hbOnData r NotJson w = w"
    by (simp add: hbOnData_def)
  have cleared: "\<not> hbWaitingForResponse (hbOf (hbOnData r p w) r)" if "p \<noteq> NotJson"
    using that hbOnData_obs [of r p w] by (simp add: obs_def)
  have first: "trace (hbOnConnect r (hbConnect r a w)) =
     trace w @ [Emitted r HeartbeatChannel EvConnected,
                Written r HeartbeatChannel
                  (HeartbeatFrame (getLocalIP (os w)) (JsNumber (Finite 0)) (now w)),
                TimerSet 5000 (HeartbeatTimeout r)]"
    using hbOnConnect_run [OF hbConnect_facts(4,5) z]
    by (simp add: hbConnect_facts)
  have noop: "hbWaitingForResponse (hbOf w r) \<Longrightarrow> sendHeartbeat r w = w"
    by (simp add: sendHeartbeat_def)
  have one: "snd (hbRun r evs (w, 0)) \<le> 1" if "\<not> hbWaitingForResponse (hbOf w r)"
    using hbRun_invariant [of 0 w r evs] by (simp split: if_splits)
  show ?thesis
    using first noop one plain cleared next_heartbeat [OF _ _ plusOne_integer, of w r n]
      next_heartbeat [OF _ _ plusOne_falsy, of w r field]
    by simp
qed

theorem heartbeat_values_and_single_flight_witness:
  "trace (hbOnConnect 0 (hbConnect 0 ''192.168.1.50'' world0)) =
     [Emitted 0 HeartbeatChannel EvConnected,
      Written 0 HeartbeatChannel (HeartbeatFrame ''192.168.1.10'' (JsNumber (Finite 0)) 1000),
      TimerSet 5000 (HeartbeatTimeout 0)]
   \<and> hbIsConnectedFlag (hbOf linked 0) \<and> hbSocket (hbOf linked 0) \<noteq> None
   \<and> \<bar>41 :: int\<bar> < 2 ^ 53
   \<and> trace (hbOnNextHeartbeat 0 (hbOnData 0 (JsonMessage (NumberField 41)) linked)) =
       trace linked @ [TimerSet 2000 (NextHeartbeat 0), Emitted 0 HeartbeatChannel EvHeartbeat,
                       Written 0 HeartbeatChannel (HeartbeatFrame ''192.168.1.10'' (JsNumber (Finite 42)) 1000),
                       TimerSet 5000 (HeartbeatTimeout 0)]
   \<and> \<not> toBoolean (fieldValue NoField)
   \<and> trace (hbOnNextHeartbeat 0 (hbOnData 0 (JsonMessage NoField) linked)) =
       trace linked @ [TimerSet 2000 (NextHeartbeat 0), Emitted 0 HeartbeatChannel EvHeartbeat,
                       Written 0 HeartbeatChannel (HeartbeatFrame ''192.168.1.10'' (JsNumber (Finite 1)) 1000),
                       TimerSet 5000 (HeartbeatTimeout 0)]
   \<and> hbOnData 0 NotJson linked = linked
   \<and> JsonNull \<noteq> NotJson \<and> \<not> hbWaitingForResponse (hbOf (hbOnData 0 JsonNull linked) 0)
   \<and> hbWaitingForResponse (hbOf linked 0) \<and> sendHeartbeat 0 linked = linked
   \<and> \<not> hbWaitingForResponse (hbOf world0 0)
   \<and> snd (hbRun 0 beats (world0, 0)) \<le> 1"
proof -
  have l: "hbIsConnectedFlag (hbOf linked 0)" "hbSocket (hbOf linked 0) \<noteq> None"
    "hbWaitingForResponse (hbOf linked 0)" "os linked = env0" "now linked = 1000"
    by (simp_all add: linked_eq hbOf_def)
  have z: "\<not> hbWaitingForResponse (hbOf world0 0)" "trace world0 = []"
    "os world0 = env0" "now world0 = 1000"
    by (simp_all add: world0_def hbOf_def blankConnection_def newHeartbeatClient_def)
  have ip: "getLocalIP env0 = ''192.168.1.10''" by (simp add: getLocalIP_def env0_def)
  show ?thesis
    using heartbeat_values_and_single_flight [of 0 "''192.168.1.50''" "world0 :: world" 41 NoField JsonNull beats]
      heartbeat_values_and_single_flight [of 0 "''192.168.1.50''" linked 41 NoField JsonNull beats]
      l z ip
    by simp
qed

text \<open>
  C4 as stated fails.  The value that is stored is whatever JavaScript value the response
  holds, and \<^verbatim>\<open>+ 1\<close> is the addition of JavaScript: after a response with the value
  9007199254740992, which is \<open>2\<^sup>5\<^sup>3\<close>, the next heartbeat carries 9007199254740992 again,
  and after a response with the string \<^verbatim>\<open>"5"\<close> it carries the string \<^verbatim>\<open>"51"\<close>.
\<close>

theorem heartbeat_value_plus_one_counterexample:
  "trace (hbOnNextHeartbeat 0 (hbOnData 0 (JsonMessage (NumberField 9007199254740992)) linked)) =
     trace linked @ [TimerSet 2000 (NextHeartbeat 0), Emitted 0 HeartbeatChannel EvHeartbeat,
                     Written 0 HeartbeatChannel
                       (HeartbeatFrame ''192.168.1.10'' (JsNumber (Finite 9007199254740992)) 1000),
                     TimerSet 5000 (HeartbeatTimeout 0)]
   \<and> JsNumber (Finite 9007199254740992) \<noteq> JsNumber (Finite (9007199254740992 + 1))
   \<and> trace (hbOnNextHeartbeat 0 (hbOnData 0 (JsonMessage (StringField ''5'')) linked)) =
     trace linked @ [TimerSet 2000 (NextHeartbeat 0), Emitted 0 HeartbeatChannel EvHeartbeat,
                     Written 0 HeartbeatChannel (HeartbeatFrame ''192.168.1.10'' (JsString ''51'') 1000),
                     TimerSet 5000 (HeartbeatTimeout 0)]"
proof -
  have l: "hbIsConnectedFlag (hbOf linked 0)" "hbSocket (hbOf linked 0) \<noteq> None"
    "os linked = env0" "now linked = 1000"
    by (simp_all add: linked_eq hbOf_def)
  have ip: "getLocalIP env0 = ''192.168.1.10''" by (simp add: getLocalIP_def env0_def)
  have r: "roundDouble 9007199254740992 = Finite 9007199254740992"
    using roundDouble_int [of 9007199254740992] by simp
  have a: "plusOne (if toBoolean (fieldValue (NumberField 9007199254740992))
                    then fieldValue (NumberField 9007199254740992) else JsNumber (Finite 0)) =
           Some (JsNumber (Finite 9007199254740992))"
    by (simp add: r roundDouble_beyond)
  have b: "plusOne (if toBoolean (fieldValue (StringField ''5''))
                    then fieldValue (StringField ''5'') else JsNumber (Finite 0)) =
           Some (JsString ''51'')"
    by simp
  show ?thesis
    using next_heartbeat [OF l(1,2) a] next_heartbeat [OF l(1,2) b] l ip by simp
qed

subsection \<open>Relaying requests over HTTP\<close>

lemma requestsIn_append [simp]: "requestsIn (xs @ ys) = requestsIn xs @ requestsIn ys"
  by (induction xs rule: requestsIn.induct) simp_all

lemma added_append: "trace w' = trace w @ tr \<Longrightarrow> added w w' = tr"
  by (simp add: added_def)

lemma port_text: "showNat PORT_HTTP = ''9527''"
  by (simp add: showNat.simps [of 9527] showNat.simps [of 952] showNat.simps [of 95]
      showNat.simps [of 9] PORT_HTTP_def digit_def)

lemma startsWith_append_same [simp]: "startsWith (a @ b) (a @ c) = startsWith b c"
  by (simp add: startsWith_def)

lemma startsWith_Cons [simp]: "startsWith (x # s) (y # p) = (x = y \<and> startsWith s p)"
  by (auto simp add: startsWith_def)

lemma startsWith_Nil [simp]: "startsWith s []"
  by (simp add: startsWith_def)

lemma makeHttpRequest_trace:
  "makeHttpRequest r endpoint method data w = w\<lparr>trace := trace w @ [relay r endpoint method data w]\<rparr>"
  by (simp add: makeHttpRequest_def relay_def port_text)

lemma oneRelay_relay: "oneRelay r w [relay r (CHR ''/'' # e) method data w, Sent c m]"
  by (simp add: oneRelay_def relay_def)

lemma relay_then_send:
  "added w (wsSend c m (makeHttpRequest r endpoint method data w)) =
     [relay r endpoint method data w, Sent c m]"
  by (simp add: makeHttpRequest_trace wsSend_def added_def)

lemma getDeviceInfo_relay: "oneRelay r w (added w (getDeviceInfo r c i api w))"
  by (cases "api_deviceInfo api")
     (simp_all add: getDeviceInfo_def Let_def relay_then_send oneRelay_relay)

lemma getFileList_relay: "oneRelay r w (added w (getFileList r c p i api w))"
  by (cases "api_fileList api p")
     (simp_all add: getFileList_def Let_def relay_then_send oneRelay_relay)

lemma downloadFile_relay: "oneRelay r w (added w (downloadFile r c p i api w))"
  by (cases "api_fileDownload api p")
     (simp_all add: downloadFile_def Let_def relay_then_send oneRelay_relay)

lemma deleteFile_relay: "oneRelay r w (added w (deleteFile r c p i api w))"
  by (cases "api_fileDelete api p")
     (simp_all add: deleteFile_def Let_def relay_then_send oneRelay_relay)

lemma getImages_run:
  "getImages r c i a api w =
     wsSend c
       (case (if truthy a then api_imagesOfAlbum api (the a) else api_imageAll api) of
          HttpOk response \<Rightarrow>
            Reply i ''image:list:response''
              (ImagesData (map (withThumbnail (dev_ip (device (heap w r))))
                 (case response of None \<Rightarrow> [] | Some xs \<Rightarrow> xs)))
        | HttpError \<Rightarrow> ErrorReply i ''Failed to get images'')
       (makeHttpRequest r (if truthy a then ''/image/imagesOfAlbum'' else ''/image/all'') POST
          (if truthy a then IdBody (the a) else EmptyObject) w)"
  by (simp add: getImages_def Let_def split: http_result.splits)

lemma getImages_relay: "oneRelay r w (added w (getImages r c i a api w))"
  by (simp add: getImages_run relay_then_send oneRelay_relay)

lemma getAlbums_relay: "oneRelay r w (added w (getAlbums r c i api w))"
  by (cases "api_albums api")
     (simp_all add: getAlbums_def Let_def relay_then_send oneRelay_relay)

lemma getContacts_relay: "oneRelay r w (added w (getContacts r c i api w))"
  by (cases "api_contacts api")
     (simp_all add: getContacts_def Let_def relay_then_send oneRelay_relay)

lemma getApps_relay: "oneRelay r w (added w (getApps r c i api w))"
  by (cases "api_apps api")
     (simp_all add: getApps_def Let_def relay_then_send oneRelay_relay)

lemma getVideos_relay: "oneRelay r w (added w (getVideos r c i api w))"
  by (cases "api_videos api")
     (simp_all add: getVideos_def Let_def relay_then_send oneRelay_relay)

lemmas relays = getDeviceInfo_relay getFileList_relay downloadFile_relay deleteFile_relay
  getImages_relay getAlbums_relay getContacts_relay getApps_relay getVideos_relay

lemma relayed_cases:
  assumes "m_type m \<in> set relayedTypes"
  shows "oneRelay r w (added w (handleWebSocketMessage m (Some r) c api w))"
proof -
  consider "m_type m = ''device:info''" | "m_type m = ''file:list''" | "m_type m = ''file:download''"
    | "m_type m = ''file:delete''" | "m_type m = ''image:list''" | "m_type m = ''album:list''"
    | "m_type m = ''contact:list''" | "m_type m = ''app:list''" | "m_type m = ''video:list''"
    using assms unfolding relayedTypes_def by auto
  then show ?thesis
    by cases (simp_all add: handleWebSocketMessage_def relays)
qed

lemma upload_case:
  assumes "m_type m = ''file:upload''"
  shows "added w (handleWebSocketMessage m (Some r) c api w) =
           [Sent c (Reply (m_id m) ''file:upload:response'' SuccessData)]"
  using assms by (simp add: handleWebSocketMessage_def uploadFile_def wsSend_def added_def)

lemma linked_device: "dev_ip (device (heap linked 0)) = ''192.168.1.50''"
  by (simp add: linked_eq pixel_def)


text \<open>
  C7, as the code behaves.  For \<^verbatim>\<open>device:info\<close>, \<^verbatim>\<open>file:list\<close>, \<^verbatim>\<open>file:download\<close>,
  \<^verbatim>\<open>file:delete\<close>, \<^verbatim>\<open>image:list\<close>, \<^verbatim>\<open>album:list\<close>, \<^verbatim>\<open>contact:list\<close>, \<^verbatim>\<open>app:list\<close> and
  \<^verbatim>\<open>video:list\<close> the handler issues exactly one HTTP call, to the device's service on port
  9527 with a timeout of 30000 ms, and writes nothing to a TCP socket.  For \<^verbatim>\<open>file:upload\<close>
  it issues no HTTP call at all: it only sends \<^verbatim>\<open>file:upload:response\<close> with success.
\<close>

theorem relay_over_http_except_upload:
  "(m_type m \<in> set relayedTypes \<longrightarrow>
      oneRelay r w (added w (handleWebSocketMessage m (Some r) c api w)))
   \<and> (m_type m = ''file:upload'' \<longrightarrow>
      added w (handleWebSocketMessage m (Some r) c api w) =
        [Sent c (Reply (m_id m) ''file:upload:response'' SuccessData)])"
  using relayed_cases upload_case by blast

theorem relay_over_http_except_upload_witness:
  "m_type (upload\<lparr>m_type := ''file:delete''\<rparr>) \<in> set relayedTypes
   \<and> map rq_timeout (requestsIn (added linked
         (handleWebSocketMessage (upload\<lparr>m_type := ''file:delete''\<rparr>) (Some 0) 1 api0 linked))) = [30000]
   \<and> m_type upload = ''file:upload''
   \<and> requestsIn (added linked (handleWebSocketMessage upload (Some 0) 1 api0 linked)) = []
   \<and> wsOut (handleWebSocketMessage upload (Some 0) 1 api0 linked) =
       wsOut linked @ [(1, Reply (Some ''u1'') ''file:upload:response'' SuccessData)]"
proof -
  have d: "m_type (upload\<lparr>m_type := ''file:delete''\<rparr>) \<in> set relayedTypes"
    by (simp add: relayedTypes_def)
  have u: "m_type upload = ''file:upload''" "m_id upload = Some ''u1''"
    by (simp_all add: upload_def)
  have t: "trace (handleWebSocketMessage upload (Some 0) 1 api0 linked) =
      trace linked @ [Sent 1 (Reply (Some ''u1'') ''file:upload:response'' SuccessData)]"
    using u by (simp add: handleWebSocketMessage_def uploadFile_def wsSend_def)
  show ?thesis
    using relay_over_http_except_upload [of "upload\<lparr>m_type := ''file:delete''\<rparr>" 0 linked 1 api0]
      relay_over_http_except_upload [of upload 0 linked 1 api0] d u t
    by (simp add: oneRelay_def wsOut_def)
qed

text \<open>
  C8, as the code behaves.  For \<^verbatim>\<open>image:list\<close> without an album id, when the device
  answers, the handler calls \<^verbatim>\<open>/image/all\<close> and replies \<^verbatim>\<open>image:list:response\<close> under the
  request's id with every image of the answer and a \<^verbatim>\<open>thumbnailUrl\<close> made of the device ip,
  the port 9527 and the encoded path of the image; the id of the image is not part of it.
\<close>

theorem image_list_thumbnail_from_path:
  assumes "m_type m = ''image:list''" "\<not> truthy (m_albumId m)" "api_imageAll api = HttpOk response"
  shows "added w (handleWebSocketMessage m (Some r) c api w) =
     [Requested \<lparr>rq_method = POST,
                 rq_url = ''http://'' @ dev_ip (device (heap w r)) @ '':9527/image/all'',
                 rq_data = EmptyObject, rq_timeout = 30000\<rparr>,
      Sent c (Reply (m_id m) ''image:list:response''
        (ImagesData (map (\<lambda>img. ImageEntity.extend img (ImageItem.fields
              (''http://'' @ dev_ip (device (heap w r)) @ '':9527/stream/thumbnail?path='' @
                 encodeURIComponent (img_path img))))
           (case response of None \<Rightarrow> [] | Some xs \<Rightarrow> xs))))]"
proof -
  have h: "handleWebSocketMessage m (Some r) c api w = getImages r c (m_id m) (m_albumId m) api w"
    using assms(1) by (simp add: handleWebSocketMessage_def)
  have t: "withThumbnail a = (\<lambda>img. ImageEntity.extend img (ImageItem.fields
              (''http://'' @ a @ '':9527/stream/thumbnail?path='' @ encodeURIComponent (img_path img))))" for a
    by (rule ext) (simp add: withThumbnail_def port_text)
  show ?thesis
    unfolding h getImages_run relay_then_send using assms(2,3)
    by (simp add: relay_def t)
qed

theorem image_list_thumbnail_from_path_witness:
  "m_type imageList = ''image:list'' \<and> \<not> truthy (m_albumId imageList)
   \<and> api_imageAll api0 = HttpOk (Some [photo])
   \<and> added linked (handleWebSocketMessage imageList (Some 0) 1 api0 linked) =
     [Requested \<lparr>rq_method = POST, rq_url = ''http://192.168.1.50:9527/image/all'',
                 rq_data = EmptyObject, rq_timeout = 30000\<rparr>,
      Sent 1 (Reply (Some ''x'') ''image:list:response''
        (ImagesData [ImageEntity.extend photo (ImageItem.fields
           ''http://192.168.1.50:9527/stream/thumbnail?path=%2Fsdcard%2FDCIM%2Fa%20b.jpg'')]))]"
proof -
  have a: "m_type imageList = ''image:list''" "\<not> truthy (m_albumId imageList)"
    "api_imageAll api0 = HttpOk (Some [photo])" "m_id imageList = Some ''x''"
    by (simp_all add: imageList_def api0_def truthy_def)
  have e: "encodeURIComponent (img_path photo) = ''%2Fsdcard%2FDCIM%2Fa%20b.jpg''"
    by (simp add: photo_def encodeURIComponent_def unreserved_def isAlnum_def hexDigit_def)
  show ?thesis
    using image_list_thumbnail_from_path [OF a(1,2,3), of linked 0 1] a e linked_device
    by simp
qed

end
